theory Spec2Isabelle
  imports Main
begin

section \<open>Errors of the API client\<close>

text \<open>
  Go errors as values. \<open>APIError\<close> is the client's \<open>*APIError\<close> (HTTP status and
  message); \<open>RequestError\<close> stands for every other error \<open>doRequest\<close> returns
  (marshaling, transport, decoding). The remaining constructors are the errors built with
  \<open>fmt.Errorf\<close> in the client and in the identifier parsers; a constructor with an
  \<open>error\<close> argument wraps it (\<open>%w\<close>). \<open>ContextErr\<close> is \<open>ctx.Err()\<close>.
\<close>

datatype error =
    APIError int string
  | RequestError string
  | ContextErr
  | ConfigureTimeout error
  | PollingJobStatus error
  | JobFailed int string string
  | JobsTimeout int
  | PollingClusterStatus error
  | ProvisioningFailed string
  | UnexpectedStatus string
  | ActiveTimeout int
  | PollingDeletionStatus error
  | DeletedTimeout int
  | ExpectedFormat string
  | InvalidClusterID error
  | ErrSyntax
  | ErrRange

text \<open>
  \<open>IsNotFound\<close>, \<open>IsConflict\<close>, \<open>IsGone\<close>: a type assertion on \<open>*APIError\<close>
  (no unwrapping), then a comparison of the status code.
\<close>

fun IsNotFound :: "error \<Rightarrow> bool" where
  "IsNotFound (APIError code msg) = (code = 404)"
| "IsNotFound e = False"

fun IsConflict :: "error \<Rightarrow> bool" where
  "IsConflict (APIError code msg) = (code = 409)"
| "IsConflict e = False"

fun IsGone :: "error \<Rightarrow> bool" where
  "IsGone (APIError code msg) = (code = 410)"
| "IsGone e = False"

section \<open>Wire types\<close>

record ClusterUser =
  cu_Username :: string
  cu_Password :: string

record ClusterDatabase =
  cd_DBName :: string
  cd_Owner :: string

record ClusterExtension =
  ce_Extension :: string
  ce_Database :: string

record ClusterGrant =
  cg_Username :: string
  cg_Database :: string
  cg_Access :: string

text \<open>The fields of \<open>Cluster\<close> that the resources read.\<close>

record Cluster =
  c_ID :: int
  c_TenantID :: string
  c_NodeCount :: int
  c_DBName :: string
  c_Status :: string
  c_SourceIPs :: string
  c_ErrorMessage :: string
  c_Users :: "ClusterUser list"
  c_Databases :: "ClusterDatabase list"
  c_Extensions :: "ClusterExtension list"
  c_Grants :: "ClusterGrant list"

record ConfigDatabaseRequest =
  dbreq_Name :: string
  dbreq_Owner :: string

record ConfigExtensionRequest =
  extreq_Extension :: string
  extreq_Database :: string

record ConfigGrantRequest =
  grreq_Username :: string
  grreq_Database :: string
  grreq_Access :: string

text \<open>\<open>ConfigUserRequest\<close> has the single field \<open>Username\<close>: a string.\<close>

record ConfigureRequest =
  req_Users :: "string list"
  req_DeleteUsers :: "string list"
  req_Databases :: "ConfigDatabaseRequest list"
  req_DeleteDatabases :: "string list"
  req_Extensions :: "ConfigExtensionRequest list"
  req_Grants :: "ConfigGrantRequest list"
  req_SourceIPs :: "string list"
  req_DeleteIPs :: "string list"
  req_ReplaceIPs :: bool

text \<open>The zero value of \<open>ConfigureRequest\<close>; a composite literal sets some fields of it.\<close>

definition ConfigureRequest0 :: ConfigureRequest where
  "ConfigureRequest0 =
     \<lparr>req_Users = [], req_DeleteUsers = [], req_Databases = [], req_DeleteDatabases = [],
      req_Extensions = [], req_Grants = [], req_SourceIPs = [], req_DeleteIPs = [],
      req_ReplaceIPs = False\<rparr>"

record ConfigUserResponse =
  ur_Username :: string
  ur_Password :: string

record ConfigDBResponse =
  dr_Name :: string
  dr_Owner :: string

record ConfigExtResponse =
  er_Extension :: string
  er_Database :: string

record ConfigureResponse =
  resp_JobID :: int
  resp_Users :: "ConfigUserResponse list"
  resp_Databases :: "ConfigDBResponse list"
  resp_Extensions :: "ConfigExtResponse list"

record Job =
  job_ID :: int
  job_JobType :: string
  job_Status :: string
  job_ErrorMessage :: string

record RemoveNodeRequest =
  rn_NodeName :: string
  rn_DeleteServer :: bool
  rn_RemovePostgresData :: bool

text \<open>
  \<open>UpdateBackupConfigRequest\<close>: \<open>Enabled\<close> and \<open>RetentionFull\<close> are pointers
  (\<open>None\<close> is nil).
\<close>

record UpdateBackupConfigRequest =
  bk_Enabled :: "bool option"
  bk_Schedule :: string
  bk_RetentionFull :: "int option"

section \<open>The remote system and the world\<close>

text \<open>
  Every request the client sends is recorded, in order, in the \<open>trace\<close> of the world.
  The world also carries the wall clock (nanoseconds, as \<open>time.Duration\<close>) and the
  \<open>tflog\<close> entries written so far.
\<close>

datatype call =
    GetClusterCall int
  | DeleteClusterCall int
  | ConfigureCall int ConfigureRequest
  | GetJobsCall int
  | AddNodeCall int
  | RemoveNodeCall int RemoveNodeRequest
  | UpdateBackupConfigCall int UpdateBackupConfigRequest

datatype level = Info | Warn

record world =
  trace :: "call list"
  clock :: int
  logs :: "(level \<times> string) list"

text \<open>
  The remote system is an oracle: what it answers to a request may depend on everything
  that happened before (the world at the moment of the request). \<open>latency\<close> is the time
  a request takes; \<open>ctx_done\<close> is the instant at which the caller's context is
  cancelled, if ever.
\<close>

record remote =
  rsp_configure :: "world \<Rightarrow> int \<Rightarrow> ConfigureRequest \<Rightarrow> error + ConfigureResponse"
  rsp_cluster :: "world \<Rightarrow> int \<Rightarrow> error + Cluster"
  rsp_delete_cluster :: "world \<Rightarrow> int \<Rightarrow> error option"
  rsp_jobs :: "world \<Rightarrow> int \<Rightarrow> error + Job list"
  rsp_add_node :: "world \<Rightarrow> int \<Rightarrow> error option"
  rsp_remove_node :: "world \<Rightarrow> int \<Rightarrow> RemoveNodeRequest \<Rightarrow> error option"
  rsp_backup :: "world \<Rightarrow> int \<Rightarrow> UpdateBackupConfigRequest \<Rightarrow> error option"
  latency :: "world \<Rightarrow> nat"
  ctx_done :: "int option"

definition sent :: "remote \<Rightarrow> call \<Rightarrow> world \<Rightarrow> world" where
  "sent env c w = w\<lparr>trace := trace w @ [c], clock := clock w + int (latency env w)\<rparr>"

definition tflog :: "level \<Rightarrow> string \<Rightarrow> world \<Rightarrow> world" where
  "tflog l msg w = w\<lparr>logs := logs w @ [(l, msg)]\<rparr>"

definition second :: int where
  "second = 1000000000"

definition minute :: int where
  "minute = 60 * second"

text \<open>
  \<open>select { case <-ctx.Done(): ... case <-time.After(d): }\<close>: the result is \<open>True\<close>
  when the context is done no later than the timer fires.
\<close>

definition select_sleep :: "remote \<Rightarrow> int \<Rightarrow> world \<Rightarrow> bool \<times> world" where
  "select_sleep env d w =
     (case ctx_done env of
        None \<Rightarrow> (False, w\<lparr>clock := clock w + d\<rparr>)
      | Some t \<Rightarrow>
          if t \<le> clock w + d then (True, w\<lparr>clock := max (clock w) t\<rparr>)
          else (False, w\<lparr>clock := clock w + d\<rparr>))"

section \<open>Client operations\<close>

definition ConfigureCluster ::
  "remote \<Rightarrow> int \<Rightarrow> ConfigureRequest \<Rightarrow> world \<Rightarrow> (error + ConfigureResponse) \<times> world" where
  "ConfigureCluster env clusterID req w =
     (rsp_configure env w clusterID req, sent env (ConfigureCall clusterID req) w)"

definition GetCluster :: "remote \<Rightarrow> int \<Rightarrow> world \<Rightarrow> (error + Cluster) \<times> world" where
  "GetCluster env cid w = (rsp_cluster env w cid, sent env (GetClusterCall cid) w)"

definition DeleteCluster :: "remote \<Rightarrow> int \<Rightarrow> world \<Rightarrow> error option \<times> world" where
  "DeleteCluster env cid w = (rsp_delete_cluster env w cid, sent env (DeleteClusterCall cid) w)"

definition GetJobs :: "remote \<Rightarrow> int \<Rightarrow> world \<Rightarrow> (error + Job list) \<times> world" where
  "GetJobs env clusterID w = (rsp_jobs env w clusterID, sent env (GetJobsCall clusterID) w)"

definition AddNode :: "remote \<Rightarrow> int \<Rightarrow> world \<Rightarrow> error option \<times> world" where
  "AddNode env clusterID w = (rsp_add_node env w clusterID, sent env (AddNodeCall clusterID) w)"

definition RemoveNode :: "remote \<Rightarrow> int \<Rightarrow> string \<Rightarrow> world \<Rightarrow> error option \<times> world" where
  "RemoveNode env clusterID nodeName w =
     (let req = \<lparr>rn_NodeName = nodeName, rn_DeleteServer = True, rn_RemovePostgresData = True\<rparr>
      in (rsp_remove_node env w clusterID req, sent env (RemoveNodeCall clusterID req) w))"

definition UpdateBackupConfig ::
  "remote \<Rightarrow> int \<Rightarrow> UpdateBackupConfigRequest \<Rightarrow> world \<Rightarrow> error option \<times> world" where
  "UpdateBackupConfig env clusterID req w =
     (rsp_backup env w clusterID req, sent env (UpdateBackupConfigCall clusterID req) w)"

subsection \<open>ConfigureWithRetry\<close>

definition retryInterval :: int where
  "retryInterval = 10 * second"

function ConfigureWithRetry_loop ::
  "remote \<Rightarrow> int \<Rightarrow> ConfigureRequest \<Rightarrow> int \<Rightarrow> world \<Rightarrow> (error + ConfigureResponse) \<times> world" where
  "ConfigureWithRetry_loop env clusterID req deadline w =
     (case ConfigureCluster env clusterID req w of
        (Inr resp, w1) \<Rightarrow> (Inr resp, w1)
      | (Inl err, w1) \<Rightarrow>
          if \<not> IsConflict err then (Inl err, w1)
          else if clock w1 > deadline then (Inl (ConfigureTimeout err), w1)
          else (case select_sleep env retryInterval w1 of
                  (True, w2) \<Rightarrow> (Inl ContextErr, w2)
                | (False, w2) \<Rightarrow> ConfigureWithRetry_loop env clusterID req deadline w2))"
  by pat_completeness auto

termination
  apply (relation "measure (\<lambda>(env, clusterID, req, deadline, w). nat (deadline + 1 - clock w))")
   apply simp
  apply (auto simp: ConfigureCluster_def sent_def select_sleep_def retryInterval_def second_def split: option.splits if_splits)
  done

declare ConfigureWithRetry_loop.simps [simp del]

definition ConfigureWithRetry ::
  "remote \<Rightarrow> int \<Rightarrow> ConfigureRequest \<Rightarrow> int \<Rightarrow> world \<Rightarrow> (error + ConfigureResponse) \<times> world" where
  "ConfigureWithRetry env clusterID req maxWait w =
     ConfigureWithRetry_loop env clusterID req (clock w + maxWait) w"

text \<open>
  For stating properties of the retry loop: \<open>attempt_start env clusterID req w k\<close> is the
  world in which attempt \<open>k + 1\<close> starts when each of the \<open>k\<close> attempts before it was
  followed by the back-off sleep; \<open>attempt\<close> is the outcome of that attempt, and
  \<open>conflicts_before\<close> says that the first \<open>k\<close> attempts were answered with a conflict
  and that the deadline had not passed when each of them returned.
\<close>

fun attempt_start :: "remote \<Rightarrow> int \<Rightarrow> ConfigureRequest \<Rightarrow> world \<Rightarrow> nat \<Rightarrow> world" where
  "attempt_start env clusterID req w 0 = w"
| "attempt_start env clusterID req w (Suc k) =
     attempt_start env clusterID req
       (snd (select_sleep env retryInterval (snd (ConfigureCluster env clusterID req w)))) k"

definition attempt ::
  "remote \<Rightarrow> int \<Rightarrow> ConfigureRequest \<Rightarrow> world \<Rightarrow> nat \<Rightarrow> (error + ConfigureResponse) \<times> world" where
  "attempt env clusterID req w k = ConfigureCluster env clusterID req (attempt_start env clusterID req w k)"

definition is_conflict_result :: "(error + ConfigureResponse) \<Rightarrow> bool" where
  "is_conflict_result r = (case r of Inl e \<Rightarrow> IsConflict e | Inr resp \<Rightarrow> False)"

definition conflicts_before ::
  "remote \<Rightarrow> int \<Rightarrow> ConfigureRequest \<Rightarrow> int \<Rightarrow> world \<Rightarrow> nat \<Rightarrow> bool" where
  "conflicts_before env clusterID req deadline w k =
     (\<forall>i<k. is_conflict_result (fst (attempt env clusterID req w i)) \<and>
             clock (snd (attempt env clusterID req w i)) \<le> deadline)"

subsection \<open>WaitForJobComplete\<close>

definition pollInterval :: int where
  "pollInterval = 10 * second"

text \<open>
  The inner \<open>for _, job := range resp.Jobs\<close>: the error for the first job whose status
  is \<open>failed\<close>, if there is one.
\<close>

fun check_failed :: "Job list \<Rightarrow> error option" where
  "check_failed [] = None"
| "check_failed (job # rest) =
     (if job_Status job = ''failed''
      then Some (JobFailed (job_ID job) (job_JobType job) (job_ErrorMessage job))
      else check_failed rest)"

function WaitForJobComplete_loop ::
  "remote \<Rightarrow> int \<Rightarrow> int \<Rightarrow> int \<Rightarrow> world \<Rightarrow> error option \<times> world" where
  "WaitForJobComplete_loop env clusterID timeout deadline w =
     (if clock w < deadline then
        (case GetJobs env clusterID w of
           (Inl err, w1) \<Rightarrow> (Some (PollingJobStatus err), w1)
         | (Inr jobs, w1) \<Rightarrow>
             if length jobs = 0 then (None, w1)
             else (case check_failed jobs of
                     Some err \<Rightarrow> (Some err, w1)
                   | None \<Rightarrow>
                       (case select_sleep env pollInterval w1 of
                          (True, w2) \<Rightarrow> (Some ContextErr, w2)
                        | (False, w2) \<Rightarrow>
                            WaitForJobComplete_loop env clusterID timeout deadline w2)))
      else (Some (JobsTimeout timeout), w))"
  by pat_completeness auto
termination
  apply (relation "measure (\<lambda>(env, clusterID, timeout, deadline, w). nat (deadline - clock w))")
   apply simp
  apply (auto simp: GetJobs_def sent_def select_sleep_def pollInterval_def second_def
      split: option.splits if_splits)
  done

declare WaitForJobComplete_loop.simps [simp del]

definition WaitForJobComplete :: "remote \<Rightarrow> int \<Rightarrow> int \<Rightarrow> world \<Rightarrow> error option \<times> world" where
  "WaitForJobComplete env clusterID timeout w =
     WaitForJobComplete_loop env clusterID timeout (clock w + timeout) w"

subsection \<open>WaitForClusterActive and WaitForClusterDeleted\<close>

definition activePollInterval :: int where
  "activePollInterval = 15 * second"

function WaitForClusterActive_loop ::
  "remote \<Rightarrow> int \<Rightarrow> int \<Rightarrow> int \<Rightarrow> world \<Rightarrow> (error + Cluster) \<times> world" where
  "WaitForClusterActive_loop env cid timeout deadline w =
     (if clock w < deadline then
        (case GetCluster env cid w of
           (Inl err, w1) \<Rightarrow> (Inl (PollingClusterStatus err), w1)
         | (Inr cluster, w1) \<Rightarrow>
             if c_Status cluster = ''active'' then (Inr cluster, w1)
             else if c_Status cluster = ''failed''
               then (Inl (ProvisioningFailed (c_ErrorMessage cluster)), w1)
             else if c_Status cluster = ''provisioning''
               then (case select_sleep env activePollInterval w1 of
                       (True, w2) \<Rightarrow> (Inl ContextErr, w2)
                     | (False, w2) \<Rightarrow> WaitForClusterActive_loop env cid timeout deadline w2)
             else (Inl (UnexpectedStatus (c_Status cluster)), w1))
      else (Inl (ActiveTimeout timeout), w))"
  by pat_completeness auto
termination
  apply (relation "measure (\<lambda>(env, cid, timeout, deadline, w). nat (deadline - clock w))")
   apply simp
  apply (auto simp: GetCluster_def sent_def select_sleep_def activePollInterval_def second_def
      split: option.splits if_splits)
  done

declare WaitForClusterActive_loop.simps [simp del]

definition WaitForClusterActive ::
  "remote \<Rightarrow> int \<Rightarrow> int \<Rightarrow> world \<Rightarrow> (error + Cluster) \<times> world" where
  "WaitForClusterActive env cid timeout w =
     WaitForClusterActive_loop env cid timeout (clock w + timeout) w"

function WaitForClusterDeleted_loop ::
  "remote \<Rightarrow> int \<Rightarrow> int \<Rightarrow> int \<Rightarrow> world \<Rightarrow> error option \<times> world" where
  "WaitForClusterDeleted_loop env cid timeout deadline w =
     (if clock w < deadline then
        (case GetCluster env cid w of
           (Inl err, w1) \<Rightarrow>
             if IsNotFound err \<or> IsGone err then (None, w1)
             else (Some (PollingDeletionStatus err), w1)
         | (Inr cluster, w1) \<Rightarrow>
             if c_Status cluster = ''deleted'' then (None, w1)
             else (case select_sleep env pollInterval w1 of
                     (True, w2) \<Rightarrow> (Some ContextErr, w2)
                   | (False, w2) \<Rightarrow> WaitForClusterDeleted_loop env cid timeout deadline w2))
      else (Some (DeletedTimeout timeout), w))"
  by pat_completeness auto
termination
  apply (relation "measure (\<lambda>(env, cid, timeout, deadline, w). nat (deadline - clock w))")
   apply simp
  apply (auto simp: GetCluster_def sent_def select_sleep_def pollInterval_def second_def
      split: option.splits if_splits)
  done

declare WaitForClusterDeleted_loop.simps [simp del]

definition WaitForClusterDeleted :: "remote \<Rightarrow> int \<Rightarrow> int \<Rightarrow> world \<Rightarrow> error option \<times> world" where
  "WaitForClusterDeleted env cid timeout w =
     WaitForClusterDeleted_loop env cid timeout (clock w + timeout) w"

section \<open>Strings and numbers\<close>

text \<open>
  \<open>strconv.Atoi\<close> on a 64-bit platform: an optional sign, then one or more decimal
  digits; \<open>ErrSyntax\<close> on any other character and on an empty digit string,
  \<open>ErrRange\<close> when the digits overflow 64 bits or the value is outside \<open>int64\<close>.
\<close>

definition is_digit :: "char \<Rightarrow> bool" where
  "is_digit c = (c \<in> set ''0123456789'')"

definition digit_val :: "char \<Rightarrow> nat" where
  "digit_val c = of_char c - 48"

fun parse_digits :: "nat \<Rightarrow> string \<Rightarrow> error + nat" where
  "parse_digits n [] = Inr n"
| "parse_digits n (c # cs) =
     (if \<not> is_digit c then Inl ErrSyntax
      else if n * 10 + digit_val c > 18446744073709551615 then Inl ErrRange
      else parse_digits (n * 10 + digit_val c) cs)"

definition Atoi :: "string \<Rightarrow> error + int" where
  "Atoi s =
     (if s = [] then Inl ErrSyntax
      else
        let neg = (hd s = CHR ''-'');
            body = (if hd s = CHR ''+'' \<or> hd s = CHR ''-'' then tl s else s)
        in if body = [] then Inl ErrSyntax
           else (case parse_digits 0 body of
                   Inl err \<Rightarrow> Inl err
                 | Inr un \<Rightarrow>
                     if \<not> neg \<and> un \<ge> 9223372036854775808 then Inl ErrRange
                     else if neg \<and> un > 9223372036854775808 then Inl ErrRange
                     else Inr (if neg then - int un else int un)))"

text \<open>The verb \<open>%d\<close> of \<open>fmt.Sprintf\<close>.\<close>

definition digit_char :: "nat \<Rightarrow> char" where
  "digit_char d = ''0123456789'' ! d"

function show_nat :: "nat \<Rightarrow> string" where
  "show_nat n = (if n < 10 then [digit_char n] else show_nat (n div 10) @ [digit_char (n mod 10)])"
  by pat_completeness auto
termination
  by (relation "measure id") auto

declare show_nat.simps [simp del]

definition Itoa :: "int \<Rightarrow> string" where
  "Itoa i = (if i < 0 then CHR ''-'' # show_nat (nat (- i)) else show_nat (nat i))"

text \<open>
  \<open>strings.SplitN(s, sep, n)\<close> for a one-character separator and \<open>n \<ge> 0\<close>: at most
  \<open>n\<close> substrings, the last one being the unsplit remainder.
\<close>

fun SplitN :: "string \<Rightarrow> char \<Rightarrow> nat \<Rightarrow> string list" where
  "SplitN s sep 0 = []"
| "SplitN s sep (Suc 0) = [s]"
| "SplitN s sep (Suc (Suc n)) =
     (if sep \<in> set s
      then takeWhile (\<lambda>c. c \<noteq> sep) s # SplitN (tl (dropWhile (\<lambda>c. c \<noteq> sep) s)) sep (Suc n)
      else [s])"

section \<open>Terraform values, diagnostics and responses\<close>

text \<open>\<open>types.String\<close>: null, unknown or a known value.\<close>

datatype tfstring = StringNull | StringUnknown | StringValue string

fun ValueString :: "tfstring \<Rightarrow> string" where
  "ValueString (StringValue s) = s"
| "ValueString v = []"

fun IsNull :: "tfstring \<Rightarrow> bool" where
  "IsNull StringNull = True"
| "IsNull v = False"

fun IsUnknown :: "tfstring \<Rightarrow> bool" where
  "IsUnknown StringUnknown = True"
| "IsUnknown v = False"

text \<open>
  A diagnostic: the summary given to \<open>AddError\<close>, and the error formatted into its
  detail (\<open>None\<close> when the detail is a fixed text).
\<close>

datatype diag = AddError string "error option"

text \<open>
  What an operation leaves in its response: the diagnostics, and what it did to
  \<open>resp.State\<close>.
\<close>

datatype 'm state_action = Untouched | SetState 'm | RemoveResource

record 'm response =
  Diagnostics :: "diag list"
  State :: "'m state_action"

definition failure :: "string \<Rightarrow> error \<Rightarrow> 'm response" where
  "failure summary err = \<lparr>Diagnostics = [AddError summary (Some err)], State = Untouched\<rparr>"

definition done_with :: "'m state_action \<Rightarrow> 'm response" where
  "done_with st = \<lparr>Diagnostics = [], State = st\<rparr>"


definition known :: "tfstring \<Rightarrow> bool" where
  "known v = (\<not> IsNull v \<and> \<not> IsUnknown v)"

section \<open>Resource: cluster user\<close>

record clusterUserResourceModel =
  um_ID :: tfstring
  um_ClusterID :: tfstring
  um_Username :: tfstring
  um_Password :: tfstring

definition parseUserID :: "string \<Rightarrow> error + int \<times> string" where
  "parseUserID ident =
     (let parts = SplitN ident CHR ''/'' 2
      in if length parts \<noteq> 2 then Inl (ExpectedFormat ''cluster_id/username'')
         else (case Atoi (parts ! 0) of
                 Inl err \<Rightarrow> Inl (InvalidClusterID err)
               | Inr clusterID \<Rightarrow> Inr (clusterID, parts ! 1)))"

definition clusterUserResource_Create ::
  "remote \<Rightarrow> clusterUserResourceModel \<Rightarrow> world \<Rightarrow> clusterUserResourceModel response \<times> world" where
  "clusterUserResource_Create env plan w =
     (case Atoi (ValueString (um_ClusterID plan)) of
        Inl err \<Rightarrow> (failure ''Invalid cluster ID'' err, w)
      | Inr clusterID \<Rightarrow>
          let username = ValueString (um_Username plan);
              w0 = tflog Info ''Creating cluster user'' w
          in (case ConfigureWithRetry env clusterID
                     (ConfigureRequest0\<lparr>req_Users := [username]\<rparr>) (2 * minute) w0 of
                (Inl err, w1) \<Rightarrow> (failure ''Error creating cluster user'' err, w1)
              | (Inr configResp, w1) \<Rightarrow>
                  (case (if resp_JobID configResp > 0
                         then WaitForJobComplete env clusterID (5 * minute) w1
                         else (None, w1)) of
                     (Some err, w2) \<Rightarrow> (failure ''Error waiting for user creation'' err, w2)
                   | (None, w2) \<Rightarrow>
                       let plan1 = plan\<lparr>um_ID := StringValue (Itoa clusterID @ ''/'' @ username)\<rparr>;
                           plan2 = (case find (\<lambda>u. ur_Username u = username)
                                           (resp_Users configResp) of
                                      Some u \<Rightarrow> plan1\<lparr>um_Password := StringValue (ur_Password u)\<rparr>
                                    | None \<Rightarrow> plan1)
                       in (done_with (SetState plan2), w2))))"


definition clusterUserResource_Delete ::
  "remote \<Rightarrow> clusterUserResourceModel \<Rightarrow> world \<Rightarrow> clusterUserResourceModel response \<times> world" where
  "clusterUserResource_Delete env state w =
     (case parseUserID (ValueString (um_ID state)) of
        Inl err \<Rightarrow> (failure ''Invalid resource ID'' err, w)
      | Inr (clusterID, username) \<Rightarrow>
          let w0 = tflog Info ''Deleting cluster user'' w
          in (case ConfigureWithRetry env clusterID
                     (ConfigureRequest0\<lparr>req_DeleteUsers := [username]\<rparr>) (2 * minute) w0 of
                (Inl err, w1) \<Rightarrow>
                  if IsNotFound err \<or> IsGone err then (done_with Untouched, w1)
                  else (failure ''Error deleting cluster user'' err, w1)
              | (Inr configResp, w1) \<Rightarrow>
                  (case (if resp_JobID configResp > 0
                         then WaitForJobComplete env clusterID (5 * minute) w1
                         else (None, w1)) of
                     (Some err, w2) \<Rightarrow> (failure ''Error waiting for user deletion'' err, w2)
                   | (None, w2) \<Rightarrow> (done_with Untouched, w2))))"

section \<open>Resource: cluster database\<close>

record clusterDatabaseResourceModel =
  dm_ID :: tfstring
  dm_ClusterID :: tfstring
  dm_Name :: tfstring
  dm_Owner :: tfstring

definition parseDatabaseID :: "string \<Rightarrow> error + int \<times> string" where
  "parseDatabaseID ident =
     (let parts = SplitN ident CHR ''/'' 2
      in if length parts \<noteq> 2 then Inl (ExpectedFormat ''cluster_id/database_name'')
         else (case Atoi (parts ! 0) of
                 Inl err \<Rightarrow> Inl (InvalidClusterID err)
               | Inr clusterID \<Rightarrow> Inr (clusterID, parts ! 1)))"

definition clusterDatabaseResource_Create ::
  "remote \<Rightarrow> clusterDatabaseResourceModel \<Rightarrow> world \<Rightarrow>
   clusterDatabaseResourceModel response \<times> world" where
  "clusterDatabaseResource_Create env plan w =
     (case Atoi (ValueString (dm_ClusterID plan)) of
        Inl err \<Rightarrow> (failure ''Invalid cluster ID'' err, w)
      | Inr clusterID \<Rightarrow>
          let dbName = ValueString (dm_Name plan);
              dbReq = \<lparr>dbreq_Name = dbName,
                       dbreq_Owner = (if \<not> IsNull (dm_Owner plan) \<and> \<not> IsUnknown (dm_Owner plan)
                                      then ValueString (dm_Owner plan) else [])\<rparr>;
              w0 = tflog Info ''Creating cluster database'' w
          in (case ConfigureWithRetry env clusterID
                     (ConfigureRequest0\<lparr>req_Databases := [dbReq]\<rparr>) (2 * minute) w0 of
                (Inl err, w1) \<Rightarrow> (failure ''Error creating cluster database'' err, w1)
              | (Inr configResp, w1) \<Rightarrow>
                  (case (if resp_JobID configResp > 0
                         then WaitForJobComplete env clusterID (5 * minute) w1
                         else (None, w1)) of
                     (Some err, w2) \<Rightarrow> (failure ''Error waiting for database creation'' err, w2)
                   | (None, w2) \<Rightarrow>
                       let plan1 = plan\<lparr>dm_ID := StringValue (Itoa clusterID @ ''/'' @ dbName)\<rparr>;
                           plan2 = (case find (\<lambda>db. dr_Name db = dbName)
                                           (resp_Databases configResp) of
                                      Some db \<Rightarrow> plan1\<lparr>dm_Owner := StringValue (dr_Owner db)\<rparr>
                                    | None \<Rightarrow> plan1);
                           (plan3, w3) =
                             (if IsNull (dm_Owner plan2) \<or> IsUnknown (dm_Owner plan2)
                              then (case GetCluster env clusterID w2 of
                                      (Inl err, w') \<Rightarrow> (plan2, w')
                                    | (Inr cluster, w') \<Rightarrow>
                                        ((case find (\<lambda>db. cd_DBName db = dbName)
                                                 (c_Databases cluster) of
                                            Some db \<Rightarrow> plan2\<lparr>dm_Owner := StringValue (cd_Owner db)\<rparr>
                                          | None \<Rightarrow> plan2), w'))
                              else (plan2, w2));
                           plan4 = (if IsNull (dm_Owner plan3) \<or> IsUnknown (dm_Owner plan3)
                                    then plan3\<lparr>dm_Owner := StringValue []\<rparr> else plan3)
                       in (done_with (SetState plan4), w3))))"


definition clusterDatabaseResource_Update ::
  "remote \<Rightarrow> clusterDatabaseResourceModel \<Rightarrow> world \<Rightarrow>
   clusterDatabaseResourceModel response \<times> world" where
  "clusterDatabaseResource_Update env plan w =
     (case Atoi (ValueString (dm_ClusterID plan)) of
        Inl err \<Rightarrow> (failure ''Invalid cluster ID'' err, w)
      | Inr clusterID \<Rightarrow>
          let dbReq = \<lparr>dbreq_Name = ValueString (dm_Name plan),
                       dbreq_Owner = ValueString (dm_Owner plan)\<rparr>
          in (case ConfigureWithRetry env clusterID
                     (ConfigureRequest0\<lparr>req_Databases := [dbReq]\<rparr>) (2 * minute) w of
                (Inl err, w1) \<Rightarrow> (failure ''Error updating cluster database'' err, w1)
              | (Inr configResp, w1) \<Rightarrow>
                  (case (if resp_JobID configResp > 0
                         then WaitForJobComplete env clusterID (5 * minute) w1
                         else (None, w1)) of
                     (Some err, w2) \<Rightarrow> (failure ''Error waiting for database update'' err, w2)
                   | (None, w2) \<Rightarrow> (done_with (SetState plan), w2))))"

definition clusterDatabaseResource_Delete ::
  "remote \<Rightarrow> clusterDatabaseResourceModel \<Rightarrow> world \<Rightarrow>
   clusterDatabaseResourceModel response \<times> world" where
  "clusterDatabaseResource_Delete env state w =
     (case parseDatabaseID (ValueString (dm_ID state)) of
        Inl err \<Rightarrow> (failure ''Invalid resource ID'' err, w)
      | Inr (clusterID, dbName) \<Rightarrow>
          let w0 = tflog Info ''Deleting cluster database'' w
          in (case ConfigureWithRetry env clusterID
                     (ConfigureRequest0\<lparr>req_DeleteDatabases := [dbName]\<rparr>) (2 * minute) w0 of
                (Inl err, w1) \<Rightarrow>
                  if IsNotFound err \<or> IsGone err then (done_with Untouched, w1)
                  else (failure ''Error deleting cluster database'' err, w1)
              | (Inr configResp, w1) \<Rightarrow>
                  (case (if resp_JobID configResp > 0
                         then WaitForJobComplete env clusterID (5 * minute) w1
                         else (None, w1)) of
                     (Some err, w2) \<Rightarrow> (failure ''Error waiting for database deletion'' err, w2)
                   | (None, w2) \<Rightarrow> (done_with Untouched, w2))))"

section \<open>Resource: cluster extension\<close>

record clusterExtensionResourceModel =
  em_ID :: tfstring
  em_ClusterID :: tfstring
  em_Extension :: tfstring
  em_Database :: tfstring


definition clusterExtensionResource_Create ::
  "remote \<Rightarrow> clusterExtensionResourceModel \<Rightarrow> world \<Rightarrow>
   clusterExtensionResourceModel response \<times> world" where
  "clusterExtensionResource_Create env plan w =
     (case Atoi (ValueString (em_ClusterID plan)) of
        Inl err \<Rightarrow> (failure ''Invalid cluster ID'' err, w)
      | Inr clusterID \<Rightarrow>
          let extReq = \<lparr>extreq_Extension = ValueString (em_Extension plan),
                        extreq_Database =
                          (if \<not> IsNull (em_Database plan) \<and> \<not> IsUnknown (em_Database plan)
                           then ValueString (em_Database plan) else [])\<rparr>;
              w0 = tflog Info ''Creating cluster extension'' w
          in (case ConfigureWithRetry env clusterID
                     (ConfigureRequest0\<lparr>req_Extensions := [extReq]\<rparr>) (2 * minute) w0 of
                (Inl err, w1) \<Rightarrow> (failure ''Error creating cluster extension'' err, w1)
              | (Inr configResp, w1) \<Rightarrow>
                  (case (if resp_JobID configResp > 0
                         then WaitForJobComplete env clusterID (5 * minute) w1
                         else (None, w1)) of
                     (Some err, w2) \<Rightarrow>
                       (failure ''Error waiting for extension installation'' err, w2)
                   | (None, w2) \<Rightarrow>
                       let database1 =
                             (case find (\<lambda>ext. er_Extension ext = ValueString (em_Extension plan))
                                     (resp_Extensions configResp) of
                                Some ext \<Rightarrow> er_Database ext
                              | None \<Rightarrow> []);
                           (database2, w3) =
                             (if database1 = []
                              then (case GetCluster env clusterID w2 of
                                      (Inl err, w') \<Rightarrow> (database1, w')
                                    | (Inr cluster, w') \<Rightarrow>
                                        ((case find (\<lambda>ext. ce_Extension ext =
                                                       ValueString (em_Extension plan))
                                                 (c_Extensions cluster) of
                                            Some ext \<Rightarrow> ce_Database ext
                                          | None \<Rightarrow> database1), w'))
                              else (database1, w2));
                           (database3, w4) =
                             (if database2 = []
                              then (if \<not> IsNull (em_Database plan) \<and> \<not> IsUnknown (em_Database plan)
                                    then (ValueString (em_Database plan), w3)
                                    else (case GetCluster env clusterID w3 of
                                            (Inl err, w') \<Rightarrow> (database2, w')
                                          | (Inr cluster, w') \<Rightarrow> (c_DBName cluster, w')))
                              else (database2, w3));
                           plan1 = plan\<lparr>em_Database := StringValue database3,
                                        em_ID := StringValue (Itoa clusterID @ ''/'' @
                                          ValueString (em_Extension plan) @ ''/'' @ database3)\<rparr>
                       in (done_with (SetState plan1), w4))))"


text \<open>\<open>Delete\<close> does not read its request: it only writes a warning to the log.\<close>

definition clusterExtensionResource_Delete ::
  "remote \<Rightarrow> clusterExtensionResourceModel \<Rightarrow> world \<Rightarrow>
   clusterExtensionResourceModel response \<times> world" where
  "clusterExtensionResource_Delete env state w =
     (done_with Untouched,
      tflog Warn (''Extension removal is not supported by the Rivestack API. The extension '' @
        ''remains installed on the cluster but is removed from Terraform state.'') w)"

section \<open>Resource: cluster grant\<close>

record clusterGrantResourceModel =
  gm_ID :: tfstring
  gm_ClusterID :: tfstring
  gm_Username :: tfstring
  gm_Database :: tfstring
  gm_Access :: tfstring


definition clusterGrantResource_Create ::
  "remote \<Rightarrow> clusterGrantResourceModel \<Rightarrow> world \<Rightarrow> clusterGrantResourceModel response \<times> world" where
  "clusterGrantResource_Create env plan w =
     (case Atoi (ValueString (gm_ClusterID plan)) of
        Inl err \<Rightarrow> (failure ''Invalid cluster ID'' err, w)
      | Inr clusterID \<Rightarrow>
          let grantReq = \<lparr>grreq_Username = ValueString (gm_Username plan),
                          grreq_Database = ValueString (gm_Database plan),
                          grreq_Access = ValueString (gm_Access plan)\<rparr>;
              w0 = tflog Info ''Creating cluster grant'' w
          in (case ConfigureWithRetry env clusterID
                     (ConfigureRequest0\<lparr>req_Grants := [grantReq]\<rparr>) (2 * minute) w0 of
                (Inl err, w1) \<Rightarrow> (failure ''Error creating cluster grant'' err, w1)
              | (Inr configResp, w1) \<Rightarrow>
                  (case (if resp_JobID configResp > 0
                         then WaitForJobComplete env clusterID (5 * minute) w1
                         else (None, w1)) of
                     (Some err, w2) \<Rightarrow> (failure ''Error waiting for grant creation'' err, w2)
                   | (None, w2) \<Rightarrow>
                       (done_with (SetState (plan\<lparr>gm_ID := StringValue (Itoa clusterID @ ''/'' @
                          ValueString (gm_Username plan) @ ''/'' @
                          ValueString (gm_Database plan))\<rparr>)), w2))))"


definition clusterGrantResource_Update ::
  "remote \<Rightarrow> clusterGrantResourceModel \<Rightarrow> world \<Rightarrow> clusterGrantResourceModel response \<times> world" where
  "clusterGrantResource_Update env plan w =
     (case Atoi (ValueString (gm_ClusterID plan)) of
        Inl err \<Rightarrow> (failure ''Invalid cluster ID'' err, w)
      | Inr clusterID \<Rightarrow>
          let grantReq = \<lparr>grreq_Username = ValueString (gm_Username plan),
                          grreq_Database = ValueString (gm_Database plan),
                          grreq_Access = ValueString (gm_Access plan)\<rparr>
          in (case ConfigureWithRetry env clusterID
                     (ConfigureRequest0\<lparr>req_Grants := [grantReq]\<rparr>) (2 * minute) w of
                (Inl err, w1) \<Rightarrow> (failure ''Error updating cluster grant'' err, w1)
              | (Inr configResp, w1) \<Rightarrow>
                  (case (if resp_JobID configResp > 0
                         then WaitForJobComplete env clusterID (5 * minute) w1
                         else (None, w1)) of
                     (Some err, w2) \<Rightarrow> (failure ''Error waiting for grant update'' err, w2)
                   | (None, w2) \<Rightarrow> (done_with (SetState plan), w2))))"

definition clusterGrantResource_Delete ::
  "remote \<Rightarrow> clusterGrantResourceModel \<Rightarrow> world \<Rightarrow> clusterGrantResourceModel response \<times> world" where
  "clusterGrantResource_Delete env state w =
     (done_with Untouched,
      tflog Warn (''Grant revocation is not supported by the Rivestack API. The grant '' @
        ''remains on the cluster but is removed from Terraform state.'') w)"

section \<open>Resource: cluster firewall\<close>

text \<open>
  \<open>fm_SourceIPs\<close> is the result of \<open>plan.SourceIPs.ElementsAs(ctx, &sourceIPs, false)\<close>:
  the elements, or \<open>None\<close> when the conversion reports an error diagnostic.
\<close>

record clusterFirewallResourceModel =
  fm_ID :: tfstring
  fm_ClusterID :: tfstring
  fm_SourceIPs :: "string list option"

definition conversion_failure :: "'m response" where
  "conversion_failure = \<lparr>Diagnostics = [AddError ''Value Conversion Error'' None], State = Untouched\<rparr>"

definition clusterFirewallResource_Create ::
  "remote \<Rightarrow> clusterFirewallResourceModel \<Rightarrow> world \<Rightarrow>
   clusterFirewallResourceModel response \<times> world" where
  "clusterFirewallResource_Create env plan w =
     (case Atoi (ValueString (fm_ClusterID plan)) of
        Inl err \<Rightarrow> (failure ''Invalid cluster ID'' err, w)
      | Inr clusterID \<Rightarrow>
          (case fm_SourceIPs plan of
             None \<Rightarrow> (conversion_failure, w)
           | Some sourceIPs \<Rightarrow>
               let w0 = tflog Info ''Setting cluster firewall rules'' w
               in (case ConfigureWithRetry env clusterID
                          (ConfigureRequest0\<lparr>req_SourceIPs := sourceIPs, req_ReplaceIPs := True\<rparr>)
                          (2 * minute) w0 of
                     (Inl err, w1) \<Rightarrow> (failure ''Error setting cluster firewall'' err, w1)
                   | (Inr configResp, w1) \<Rightarrow>
                       (done_with (SetState (plan\<lparr>fm_ID :=
                          StringValue (ValueString (fm_ClusterID plan))\<rparr>)), w1))))"

definition clusterFirewallResource_Update ::
  "remote \<Rightarrow> clusterFirewallResourceModel \<Rightarrow> world \<Rightarrow>
   clusterFirewallResourceModel response \<times> world" where
  "clusterFirewallResource_Update env plan w =
     (case Atoi (ValueString (fm_ClusterID plan)) of
        Inl err \<Rightarrow> (failure ''Invalid cluster ID'' err, w)
      | Inr clusterID \<Rightarrow>
          (case fm_SourceIPs plan of
             None \<Rightarrow> (conversion_failure, w)
           | Some sourceIPs \<Rightarrow>
               let w0 = tflog Info ''Updating cluster firewall rules'' w
               in (case ConfigureWithRetry env clusterID
                          (ConfigureRequest0\<lparr>req_SourceIPs := sourceIPs, req_ReplaceIPs := True\<rparr>)
                          (2 * minute) w0 of
                     (Inl err, w1) \<Rightarrow> (failure ''Error updating cluster firewall'' err, w1)
                   | (Inr configResp, w1) \<Rightarrow> (done_with (SetState plan), w1))))"

definition clusterFirewallResource_Delete ::
  "remote \<Rightarrow> clusterFirewallResourceModel \<Rightarrow> world \<Rightarrow>
   clusterFirewallResourceModel response \<times> world" where
  "clusterFirewallResource_Delete env state w =
     (case Atoi (ValueString (fm_ClusterID state)) of
        Inl err \<Rightarrow> (failure ''Invalid cluster ID'' err, w)
      | Inr clusterID \<Rightarrow>
          let w0 = tflog Info ''Resetting cluster firewall to allow all'' w
          in (case ConfigureWithRetry env clusterID
                     (ConfigureRequest0\<lparr>req_SourceIPs := [''0.0.0.0/0''], req_ReplaceIPs := True\<rparr>)
                     (2 * minute) w0 of
                (Inl err, w1) \<Rightarrow>
                  if IsNotFound err \<or> IsGone err then (done_with Untouched, w1)
                  else (failure ''Error resetting cluster firewall'' err, w1)
              | (Inr configResp, w1) \<Rightarrow> (done_with Untouched, w1)))"

section \<open>Resource: cluster backup configuration\<close>

record clusterBackupConfigResourceModel =
  bm_ID :: tfstring
  bm_ClusterID :: tfstring

definition clusterBackupConfigResource_Delete ::
  "remote \<Rightarrow> clusterBackupConfigResourceModel \<Rightarrow> world \<Rightarrow>
   clusterBackupConfigResourceModel response \<times> world" where
  "clusterBackupConfigResource_Delete env state w =
     (case Atoi (ValueString (bm_ClusterID state)) of
        Inl err \<Rightarrow> (failure ''Invalid cluster ID'' err, w)
      | Inr clusterID \<Rightarrow>
          let w0 = tflog Info ''Disabling cluster backups'' w
          in (case UpdateBackupConfig env clusterID
                     \<lparr>bk_Enabled = Some False, bk_Schedule = [], bk_RetentionFull = None\<rparr> w0 of
                (Some err, w1) \<Rightarrow>
                  if IsNotFound err \<or> IsGone err then (done_with Untouched, w1)
                  else (failure ''Error disabling backups'' err, w1)
              | (None, w1) \<Rightarrow> (done_with Untouched, w1)))"

section \<open>Resource: cluster\<close>

text \<open>
  The attributes of \<open>clusterResourceModel\<close> that \<open>Update\<close> and \<open>Delete\<close> read or that
  \<open>mapClusterToState\<close> writes from the modelled fields of \<open>Cluster\<close>. \<open>rm_NodeCount\<close>
  is the attribute's \<open>ValueInt64()\<close>.
\<close>

record clusterResourceModel =
  rm_ID :: tfstring
  rm_NodeCount :: int
  rm_DBName :: tfstring
  rm_TenantID :: tfstring
  rm_Status :: tfstring

definition mapClusterToState :: "Cluster \<Rightarrow> clusterResourceModel \<Rightarrow> clusterResourceModel" where
  "mapClusterToState c state =
     state\<lparr>rm_ID := StringValue (Itoa (c_ID c)),
           rm_NodeCount := c_NodeCount c,
           rm_DBName := StringValue (c_DBName c),
           rm_TenantID := StringValue (c_TenantID c),
           rm_Status := StringValue (c_Status c)\<rparr>"

text \<open>\<open>for i := oldCount; i < newCount; i++\<close>, from the iteration with counter \<open>i\<close>.\<close>

function add_nodes :: "remote \<Rightarrow> int \<Rightarrow> int \<Rightarrow> int \<Rightarrow> world \<Rightarrow> diag option \<times> world" where
  "add_nodes env ident i newCount w =
     (if i < newCount then
        (case AddNode env ident w of
           (Some err, w1) \<Rightarrow> (Some (AddError ''Error adding node'' (Some err)), w1)
         | (None, w1) \<Rightarrow>
             (case WaitForJobComplete env ident (10 * minute) w1 of
                (Some err, w2) \<Rightarrow>
                  (Some (AddError ''Error waiting for add-node job'' (Some err)), w2)
              | (None, w2) \<Rightarrow> add_nodes env ident (i + 1) newCount w2))
      else (None, w))"
  by pat_completeness auto
termination
  by (relation "measure (\<lambda>(env, ident, i, newCount, w). nat (newCount - i))") auto

declare add_nodes.simps [simp del]

text \<open>\<open>for i := oldCount; i > newCount; i--\<close>, from the iteration with counter \<open>i\<close>.\<close>

function remove_nodes ::
  "remote \<Rightarrow> int \<Rightarrow> Cluster \<Rightarrow> int \<Rightarrow> int \<Rightarrow> world \<Rightarrow> diag option \<times> world" where
  "remove_nodes env ident cluster i newCount w =
     (if i > newCount then
        (let nodeName = c_TenantID cluster @ ''-db-'' @ Itoa i
         in (case RemoveNode env ident nodeName w of
               (Some err, w1) \<Rightarrow> (Some (AddError ''Error removing node'' (Some err)), w1)
             | (None, w1) \<Rightarrow>
                 (case WaitForJobComplete env ident (10 * minute) w1 of
                    (Some err, w2) \<Rightarrow>
                      (Some (AddError ''Error waiting for remove-node job'' (Some err)), w2)
                  | (None, w2) \<Rightarrow> remove_nodes env ident cluster (i - 1) newCount w2)))
      else (None, w))"
  by pat_completeness auto
termination
  by (relation "measure (\<lambda>(env, ident, cluster, i, newCount, w). nat (i - newCount))") auto

declare remove_nodes.simps [simp del]

definition clusterResource_Update ::
  "remote \<Rightarrow> clusterResourceModel \<Rightarrow> clusterResourceModel \<Rightarrow> world \<Rightarrow>
   clusterResourceModel response \<times> world" where
  "clusterResource_Update env plan state w =
     (case Atoi (ValueString (rm_ID state)) of
        Inl err \<Rightarrow> (failure ''Invalid cluster ID'' err, w)
      | Inr ident \<Rightarrow>
          let oldCount = rm_NodeCount state;
              newCount = rm_NodeCount plan
          in (case (if newCount \<noteq> oldCount then
                      (let w0 = tflog Info ''Scaling cluster nodes'' w
                       in if newCount > oldCount then add_nodes env ident oldCount newCount w0
                          else (case GetCluster env ident w0 of
                                  (Inl err, w1) \<Rightarrow>
                                    (Some (AddError ''Error reading cluster'' (Some err)), w1)
                                | (Inr cluster, w1) \<Rightarrow>
                                    remove_nodes env ident cluster oldCount newCount w1))
                    else (None, w)) of
                (Some d, w2) \<Rightarrow> (\<lparr>Diagnostics = [d], State = Untouched\<rparr>, w2)
              | (None, w2) \<Rightarrow>
                  (case GetCluster env ident w2 of
                     (Inl err, w3) \<Rightarrow> (failure ''Error reading cluster after update'' err, w3)
                   | (Inr cluster, w3) \<Rightarrow>
                       (done_with (SetState (mapClusterToState cluster plan)), w3))))"

definition clusterResource_Delete ::
  "remote \<Rightarrow> clusterResourceModel \<Rightarrow> world \<Rightarrow> clusterResourceModel response \<times> world" where
  "clusterResource_Delete env state w =
     (case Atoi (ValueString (rm_ID state)) of
        Inl err \<Rightarrow> (failure ''Invalid cluster ID'' err, w)
      | Inr ident \<Rightarrow>
          let w0 = tflog Info ''Deleting cluster'' w
          in (case DeleteCluster env ident w0 of
                (Some err, w1) \<Rightarrow>
                  if IsNotFound err \<or> IsGone err then (done_with Untouched, w1)
                  else (failure ''Error deleting cluster'' err, w1)
              | (None, w1) \<Rightarrow>
                  (case WaitForClusterDeleted env ident (10 * minute) w1 of
                     (Some err, w2) \<Rightarrow> (failure ''Error waiting for cluster deletion'' err, w2)
                   | (None, w2) \<Rightarrow> (done_with Untouched, w2))))"

section \<open>Notions used to state the properties of the identifier parsers\<close>





section \<open>Notions used to state the properties of the job wait\<close>

text \<open>
  \<open>poll_start env cid w k\<close> is the world in which poll \<open>k + 1\<close> of a job wait entered at
  \<open>w\<close> starts, each of the \<open>k\<close> polls before it being followed by the sleep.
  \<open>pending_before\<close> says that each of the first \<open>k\<close> polls started before the deadline,
  saw a non-empty list without a failed job, and that the sleep after it was not cut short
  by the context. \<open>job_failure_seen env cid timeout w j\<close>: some poll of the wait entered
  at \<open>w\<close> is reached, starts before the deadline and lists jobs of which \<open>j\<close> is the
  first with status \<open>failed\<close>. \<open>job_error j\<close> is the error built from such a job, and
  \<open>polls cid w\<close> counts the job-list requests for the cluster in the trace.
\<close>

fun poll_start :: "remote \<Rightarrow> int \<Rightarrow> world \<Rightarrow> nat \<Rightarrow> world" where
  "poll_start env cid w 0 = w"
| "poll_start env cid w (Suc k) =
     poll_start env cid (snd (select_sleep env pollInterval (snd (GetJobs env cid w)))) k"

definition pending_before :: "remote \<Rightarrow> int \<Rightarrow> int \<Rightarrow> world \<Rightarrow> nat \<Rightarrow> bool" where
  "pending_before env cid deadline w k =
     (\<forall>i<k. clock (poll_start env cid w i) < deadline \<and>
        (\<exists>jobs. fst (GetJobs env cid (poll_start env cid w i)) = Inr jobs \<and> jobs \<noteq> [] \<and>
           check_failed jobs = None) \<and>
        \<not> fst (select_sleep env pollInterval (snd (GetJobs env cid (poll_start env cid w i)))))"

definition job_failure_seen :: "remote \<Rightarrow> int \<Rightarrow> int \<Rightarrow> world \<Rightarrow> Job \<Rightarrow> bool" where
  "job_failure_seen env cid timeout w j =
     (\<exists>k jobs. pending_before env cid (clock w + timeout) w k \<and>
        clock (poll_start env cid w k) < clock w + timeout \<and>
        fst (GetJobs env cid (poll_start env cid w k)) = Inr jobs \<and>
        find (\<lambda>job. job_Status job = ''failed'') jobs = Some j)"

definition job_error :: "Job \<Rightarrow> error" where
  "job_error j = JobFailed (job_ID j) (job_JobType j) (job_ErrorMessage j)"

definition polls :: "int \<Rightarrow> world \<Rightarrow> nat" where
  "polls cid w = count_list (trace w) (GetJobsCall cid)"

section \<open>Notions used to state the resolution of remotely generated values\<close>

text \<open>
  \<open>first_present\<close> is the fallback chain: the first candidate that is present, and the
  empty placeholder when none is. \<open>nonempty\<close> reads an empty string as absent. The
  candidates: the entry of the configure response, the entry of a re-read cluster (absent
  when the re-read failed), and the planned value or the cluster's default database.
\<close>

fun first_present :: "string option list \<Rightarrow> string" where
  "first_present [] = []"
| "first_present (None # xs) = first_present xs"
| "first_present (Some s # xs) = s"

definition nonempty :: "string \<Rightarrow> string option" where
  "nonempty s = (if s = [] then None else Some s)"

definition response_database :: "string \<Rightarrow> ConfigureResponse \<Rightarrow> string option" where
  "response_database ext resp =
     (case find (\<lambda>e. er_Extension e = ext) (resp_Extensions resp) of
        None \<Rightarrow> None | Some e \<Rightarrow> nonempty (er_Database e))"

definition cluster_database :: "string \<Rightarrow> error + Cluster \<Rightarrow> string option" where
  "cluster_database ext r =
     (case r of
        Inl err \<Rightarrow> None
      | Inr c \<Rightarrow> (case find (\<lambda>e. ce_Extension e = ext) (c_Extensions c) of
                    None \<Rightarrow> None | Some e \<Rightarrow> nonempty (ce_Database e)))"

definition default_database :: "tfstring \<Rightarrow> error + Cluster \<Rightarrow> string option" where
  "default_database planned r =
     (if known planned then nonempty (ValueString planned)
      else (case r of Inl err \<Rightarrow> None | Inr c \<Rightarrow> nonempty (c_DBName c)))"

definition response_owner :: "string \<Rightarrow> ConfigureResponse \<Rightarrow> string option" where
  "response_owner name resp =
     map_option dr_Owner (find (\<lambda>d. dr_Name d = name) (resp_Databases resp))"

definition planned_owner :: "tfstring \<Rightarrow> string option" where
  "planned_owner planned = (if known planned then Some (ValueString planned) else None)"

definition cluster_owner :: "string \<Rightarrow> error + Cluster \<Rightarrow> string option" where
  "cluster_owner name r =
     (case r of
        Inl err \<Rightarrow> None
      | Inr c \<Rightarrow> map_option cd_Owner (find (\<lambda>d. cd_DBName d = name) (c_Databases c)))"

definition response_password :: "string \<Rightarrow> ConfigureResponse \<Rightarrow> string option" where
  "response_password name resp =
     map_option ur_Password (find (\<lambda>u. ur_Username u = name) (resp_Users resp))"

text \<open>The job wait of the create operations, entered only for a positive job identifier.\<close>

definition job_wait :: "remote \<Rightarrow> int \<Rightarrow> ConfigureResponse \<Rightarrow> world \<Rightarrow> error option \<times> world" where
  "job_wait env cid resp w =
     (if resp_JobID resp > 0 then WaitForJobComplete env cid (5 * minute) w else (None, w))"

section \<open>Notions used to state the properties of node scaling\<close>

text \<open>
  A round of scaling out is an add-node request followed by the wait for its job; a round
  of scaling in removes the node named after the tenant and the counter, then waits.
  \<open>after_adds env ident w n\<close> is the world after \<open>n\<close> rounds from \<open>w\<close>, and
  \<open>adds_ok env ident w n\<close> says that the request and the wait of each of these rounds
  succeeded; \<open>after_removes\<close> and \<open>removes_ok\<close> are the same for scaling in, the counter
  going down from \<open>i\<close>. \<open>add_round_calls ident m\<close> and \<open>remove_round_calls ident tenant
  (i, m)\<close> are the requests of one round whose wait polled \<open>m\<close> times, and \<open>countdown i
  n\<close> is \<open>[i, i - 1, ...]\<close>, of length \<open>n\<close>.
\<close>

definition nodeName :: "string \<Rightarrow> int \<Rightarrow> string" where
  "nodeName tenant i = tenant @ ''-db-'' @ Itoa i"

definition add_round :: "remote \<Rightarrow> int \<Rightarrow> world \<Rightarrow> error option \<times> world" where
  "add_round env ident w = WaitForJobComplete env ident (10 * minute) (snd (AddNode env ident w))"

definition add_round_ok :: "remote \<Rightarrow> int \<Rightarrow> world \<Rightarrow> bool" where
  "add_round_ok env ident w =
     (fst (AddNode env ident w) = None \<and> fst (add_round env ident w) = None)"

fun after_adds :: "remote \<Rightarrow> int \<Rightarrow> world \<Rightarrow> nat \<Rightarrow> world" where
  "after_adds env ident w 0 = w"
| "after_adds env ident w (Suc n) = after_adds env ident (snd (add_round env ident w)) n"

fun adds_ok :: "remote \<Rightarrow> int \<Rightarrow> world \<Rightarrow> nat \<Rightarrow> bool" where
  "adds_ok env ident w 0 = True"
| "adds_ok env ident w (Suc n) =
     (add_round_ok env ident w \<and> adds_ok env ident (snd (add_round env ident w)) n)"

definition remove_round :: "remote \<Rightarrow> int \<Rightarrow> string \<Rightarrow> int \<Rightarrow> world \<Rightarrow> error option \<times> world" where
  "remove_round env ident tenant i w =
     WaitForJobComplete env ident (10 * minute) (snd (RemoveNode env ident (nodeName tenant i) w))"

definition remove_round_ok :: "remote \<Rightarrow> int \<Rightarrow> string \<Rightarrow> int \<Rightarrow> world \<Rightarrow> bool" where
  "remove_round_ok env ident tenant i w =
     (fst (RemoveNode env ident (nodeName tenant i) w) = None \<and>
      fst (remove_round env ident tenant i w) = None)"

fun after_removes :: "remote \<Rightarrow> int \<Rightarrow> string \<Rightarrow> int \<Rightarrow> world \<Rightarrow> nat \<Rightarrow> world" where
  "after_removes env ident tenant i w 0 = w"
| "after_removes env ident tenant i w (Suc n) =
     after_removes env ident tenant (i - 1) (snd (remove_round env ident tenant i w)) n"

fun removes_ok :: "remote \<Rightarrow> int \<Rightarrow> string \<Rightarrow> int \<Rightarrow> world \<Rightarrow> nat \<Rightarrow> bool" where
  "removes_ok env ident tenant i w 0 = True"
| "removes_ok env ident tenant i w (Suc n) =
     (remove_round_ok env ident tenant i w \<and>
      removes_ok env ident tenant (i - 1) (snd (remove_round env ident tenant i w)) n)"

definition add_round_calls :: "int \<Rightarrow> nat \<Rightarrow> call list" where
  "add_round_calls ident m = AddNodeCall ident # replicate m (GetJobsCall ident)"

definition remove_round_calls :: "int \<Rightarrow> string \<Rightarrow> int \<times> nat \<Rightarrow> call list" where
  "remove_round_calls ident tenant im =
     RemoveNodeCall ident
       \<lparr>rn_NodeName = nodeName tenant (fst im), rn_DeleteServer = True,
        rn_RemovePostgresData = True\<rparr> #
     replicate (snd im) (GetJobsCall ident)"

fun countdown :: "int \<Rightarrow> nat \<Rightarrow> int list" where
  "countdown i 0 = []"
| "countdown i (Suc n) = i # countdown (i - 1) n"

section \<open>Scenarios\<close>

text \<open>Concrete remote systems and worlds, on which the theorems below are instantiated.\<close>

definition world0 :: world where
  "world0 = \<lparr>trace = [], clock = 0, logs = []\<rparr>"

definition ok_response :: ConfigureResponse where
  "ok_response = \<lparr>resp_JobID = 0, resp_Users = [], resp_Databases = [], resp_Extensions = []\<rparr>"

definition healthy :: remote where
  "healthy =
     \<lparr>rsp_configure = (\<lambda>w cid req. Inr ok_response),
      rsp_cluster = (\<lambda>w cid. Inl (APIError 404 ''Not Found'')),
      rsp_delete_cluster = (\<lambda>w cid. None),
      rsp_jobs = (\<lambda>w cid. Inr []),
      rsp_add_node = (\<lambda>w cid. None),
      rsp_remove_node = (\<lambda>w cid req. None),
      rsp_backup = (\<lambda>w cid req. None),
      latency = (\<lambda>w. 1000000000),
      ctx_done = None\<rparr>"

definition busy_twice :: remote where
  "busy_twice = healthy\<lparr>rsp_configure := (\<lambda>w cid req.
     if length (trace w) < 2 then Inl (APIError 409 ''Conflict'') else Inr ok_response)\<rparr>"

definition always_busy :: remote where
  "always_busy = healthy\<lparr>rsp_configure := (\<lambda>w cid req. Inl (APIError 409 ''Conflict''))\<rparr>"

definition busy_then_500 :: remote where
  "busy_then_500 = healthy\<lparr>rsp_configure := (\<lambda>w cid req.
     if length (trace w) < 1 then Inl (APIError 409 ''Conflict'')
     else Inl (APIError 500 ''Internal Server Error''))\<rparr>"

definition running_job :: Job where
  "running_job = \<lparr>job_ID = 41, job_JobType = ''configure'', job_Status = ''running'',
     job_ErrorMessage = ''''\<rparr>"

definition failed_job :: Job where
  "failed_job = \<lparr>job_ID = 42, job_JobType = ''configure'', job_Status = ''failed'',
     job_ErrorMessage = ''role already exists''\<rparr>"

text \<open>A job that is active at the first poll and gone from the active list at the second.\<close>

definition job_vanishes :: remote where
  "job_vanishes = healthy\<lparr>rsp_jobs := (\<lambda>w cid.
     if length (trace w) < 1 then Inr [running_job] else Inr [])\<rparr>"

definition job_fails :: remote where
  "job_fails = healthy\<lparr>rsp_jobs := (\<lambda>w cid. Inr [running_job, failed_job])\<rparr>"

definition cluster0 :: Cluster where
  "cluster0 = \<lparr>c_ID = 7, c_TenantID = ''acme'', c_NodeCount = 3, c_DBName = ''appdb'',
     c_Status = ''active'', c_SourceIPs = ''10.0.0.0/8'', c_ErrorMessage = '''',
     c_Users = [], c_Databases = [], c_Extensions = [], c_Grants = []\<rparr>"

definition migrating_then_deleted :: remote where
  "migrating_then_deleted = healthy\<lparr>rsp_cluster := (\<lambda>w cid.
     if length (trace w) < 1 then Inr (cluster0\<lparr>c_Status := ''migrating''\<rparr>)
     else Inr (cluster0\<lparr>c_Status := ''deleted''\<rparr>))\<rparr>"

definition gone :: remote where
  "gone = healthy
     \<lparr>rsp_configure := (\<lambda>w cid req. Inl (APIError 410 ''Gone'')),
      rsp_delete_cluster := (\<lambda>w cid. Some (APIError 404 ''Not Found'')),
      rsp_backup := (\<lambda>w cid req. Some (APIError 404 ''Not Found''))\<rparr>"

definition broken :: remote where
  "broken = healthy
     \<lparr>rsp_configure := (\<lambda>w cid req. Inl (APIError 500 ''Internal Server Error'')),
      rsp_delete_cluster := (\<lambda>w cid. Some (APIError 500 ''Internal Server Error'')),
      rsp_backup := (\<lambda>w cid req. Some (APIError 500 ''Internal Server Error''))\<rparr>"

definition firewall_plan :: "string list \<Rightarrow> clusterFirewallResourceModel" where
  "firewall_plan ips =
     \<lparr>fm_ID = StringUnknown, fm_ClusterID = StringValue ''7'', fm_SourceIPs = Some ips\<rparr>"

definition user_state :: clusterUserResourceModel where
  "user_state = \<lparr>um_ID = StringValue ''7/alice'', um_ClusterID = StringValue ''7'',
     um_Username = StringValue ''alice'', um_Password = StringValue ''s3cret''\<rparr>"

definition database_state :: clusterDatabaseResourceModel where
  "database_state = \<lparr>dm_ID = StringValue ''7/appdb'', dm_ClusterID = StringValue ''7'',
     dm_Name = StringValue ''appdb'', dm_Owner = StringValue ''alice''\<rparr>"

definition backup_state :: clusterBackupConfigResourceModel where
  "backup_state = \<lparr>bm_ID = StringValue ''7'', bm_ClusterID = StringValue ''7''\<rparr>"

definition cluster_state :: clusterResourceModel where
  "cluster_state = \<lparr>rm_ID = StringValue ''7'', rm_NodeCount = 3, rm_DBName = StringValue ''appdb'',
     rm_TenantID = StringValue ''acme'', rm_Status = StringValue ''active''\<rparr>"



definition user_plan :: clusterUserResourceModel where
  "user_plan = \<lparr>um_ID = StringUnknown, um_ClusterID = StringValue ''7'',
     um_Username = StringValue ''alice'', um_Password = StringUnknown\<rparr>"

definition database_plan :: clusterDatabaseResourceModel where
  "database_plan = \<lparr>dm_ID = StringUnknown, dm_ClusterID = StringValue ''7'',
     dm_Name = StringValue ''appdb'', dm_Owner = StringUnknown\<rparr>"

definition extension_plan :: clusterExtensionResourceModel where
  "extension_plan = \<lparr>em_ID = StringUnknown, em_ClusterID = StringValue ''7'',
     em_Extension = StringValue ''pgvector'', em_Database = StringUnknown\<rparr>"

definition grant_plan :: clusterGrantResourceModel where
  "grant_plan = \<lparr>gm_ID = StringUnknown, gm_ClusterID = StringValue ''7'',
     gm_Username = StringValue ''alice'', gm_Database = StringValue ''appdb'',
     gm_Access = StringValue ''read''\<rparr>"

text \<open>The configure call starts job 42, which is then listed as failed.\<close>

definition job_42_fails :: remote where
  "job_42_fails = job_fails\<lparr>rsp_configure := (\<lambda>w cid req. Inr (ok_response\<lparr>resp_JobID := 42\<rparr>))\<rparr>"

definition cluster1 :: Cluster where
  "cluster1 = cluster0
     \<lparr>c_Databases := [\<lparr>cd_DBName = ''appdb'', cd_Owner = ''alice''\<rparr>],
      c_Extensions := [\<lparr>ce_Extension = ''pgvector'', ce_Database = ''appdb''\<rparr>]\<rparr>"

text \<open>
  The configure response carries the generated password of the user, and nothing about
  databases or extensions; the cluster lists them.
\<close>

definition terse_response :: remote where
  "terse_response = healthy
     \<lparr>rsp_configure := (\<lambda>w cid req. Inr (ok_response
         \<lparr>resp_Users := [\<lparr>ur_Username = ''alice'', ur_Password = ''generated''\<rparr>]\<rparr>)),
      rsp_cluster := (\<lambda>w cid. Inr cluster1)\<rparr>"

text \<open>The second add-node request is refused; the job of a node removal fails.\<close>

definition second_add_fails :: remote where
  "second_add_fails = terse_response\<lparr>rsp_add_node := (\<lambda>w cid.
     if AddNodeCall cid \<in> set (trace w) then Some (APIError 500 ''Internal Server Error'')
     else None)\<rparr>"

definition removal_job_fails :: remote where
  "removal_job_fails = terse_response\<lparr>rsp_jobs := (\<lambda>w cid. Inr [failed_job])\<rparr>"

text \<open>
  Job 42 is listed as running at the first poll and as failed from the second poll on.
\<close>

definition job_42_fails_later :: remote where
  "job_42_fails_later = job_42_fails\<lparr>rsp_jobs := (\<lambda>w cid.
     if count_list (trace w) (GetJobsCall cid) < 1
     then Inr [failed_job\<lparr>job_Status := ''running''\<rparr>]
     else Inr [failed_job])\<rparr>"

text \<open>The configure response carries the job identifier \<open>-1\<close>; a failed job is listed.\<close>

definition job_minus_1_fails :: remote where
  "job_minus_1_fails =
     job_fails\<lparr>rsp_configure := (\<lambda>w cid req. Inr (ok_response\<lparr>resp_JobID := - 1\<rparr>))\<rparr>"

section \<open>Verification: the conflict-retrying mutator\<close>

lemma conflicts_before_Suc:
  "conflicts_before env cid req d w (Suc k) =
     (is_conflict_result (fst (ConfigureCluster env cid req w)) \<and>
      clock (snd (ConfigureCluster env cid req w)) \<le> d \<and>
      conflicts_before env cid req d
        (snd (select_sleep env retryInterval (snd (ConfigureCluster env cid req w)))) k)"
  unfolding conflicts_before_def attempt_def
  by (auto simp: less_Suc_eq_0_disj)

lemma select_sleep_no_cancel:
  "ctx_done env = None \<Longrightarrow> select_sleep env d w = (False, w\<lparr>clock := clock w + d\<rparr>)"
  by (simp add: select_sleep_def)

lemma loop_skip:
  "ctx_done env = None \<Longrightarrow> conflicts_before env cid req d w k \<Longrightarrow>
   ConfigureWithRetry_loop env cid req d w =
   ConfigureWithRetry_loop env cid req d (attempt_start env cid req w k)"
proof (induction k arbitrary: w)
  case 0
  then show ?case by simp
next
  case (Suc k)
  let ?w2 = "snd (select_sleep env retryInterval (snd (ConfigureCluster env cid req w)))"
  from Suc.prems have c: "is_conflict_result (fst (ConfigureCluster env cid req w))"
    and t: "clock (snd (ConfigureCluster env cid req w)) \<le> d"
    and rest: "conflicts_before env cid req d ?w2 k"
    by (simp_all add: conflicts_before_Suc)
  have "ConfigureWithRetry_loop env cid req d w = ConfigureWithRetry_loop env cid req d ?w2"
    using c t Suc.prems(1)
    by (subst ConfigureWithRetry_loop.simps)
       (auto simp: is_conflict_result_def select_sleep_no_cancel split: prod.splits sum.splits)
  also have "\<dots> = ConfigureWithRetry_loop env cid req d (attempt_start env cid req ?w2 k)"
    using Suc.IH [OF Suc.prems(1) rest] .
  finally show ?case by simp
qed

lemma trace_attempt_start:
  "trace (attempt_start env cid req w k) = trace w @ replicate k (ConfigureCall cid req)"
proof (induction k arbitrary: w)
  case 0
  then show ?case by simp
next
  case (Suc k)
  show ?case
    by (simp add: Suc.IH ConfigureCluster_def sent_def select_sleep_def replicate_app_Cons_same
        split: option.splits)
qed

lemma clock_attempt_start:
  "ctx_done env = None \<Longrightarrow>
   clock w + int k * retryInterval \<le> clock (attempt_start env cid req w k)"
proof (induction k arbitrary: w)
  case 0
  then show ?case by simp
next
  case (Suc k)
  let ?w2 = "snd (select_sleep env retryInterval (snd (ConfigureCluster env cid req w)))"
  have "clock w + retryInterval \<le> clock ?w2"
    using Suc.prems by (simp add: select_sleep_no_cancel ConfigureCluster_def sent_def)
  moreover have "clock ?w2 + int k * retryInterval \<le> clock (attempt_start env cid req ?w2 k)"
    using Suc.IH [OF Suc.prems] .
  ultimately show ?case by (simp add: algebra_simps)
qed


lemma loop_at_attempt:
  assumes nc: "ctx_done env = None"
    and cb: "conflicts_before env cid req d w k"
  shows "ConfigureWithRetry_loop env cid req d w =
     (case fst (attempt env cid req w k) of
        Inr resp \<Rightarrow> (Inr resp, snd (attempt env cid req w k))
      | Inl err \<Rightarrow>
          if \<not> IsConflict err then (Inl err, snd (attempt env cid req w k))
          else if clock (snd (attempt env cid req w k)) > d
            then (Inl (ConfigureTimeout err), snd (attempt env cid req w k))
          else ConfigureWithRetry_loop env cid req d (attempt_start env cid req w (Suc k)))"
proof -
  have shift: "attempt_start env cid req w (Suc k) =
      snd (select_sleep env retryInterval (snd (attempt env cid req w k)))"
    unfolding attempt_def
    by (induction k arbitrary: w) simp_all
  show ?thesis
    unfolding loop_skip [OF nc cb] shift
    unfolding attempt_def
    by (subst ConfigureWithRetry_loop.simps)
       (simp add: select_sleep_no_cancel [OF nc] split: prod.splits sum.splits)
qed

lemma trace_attempt:
  "trace (snd (attempt env cid req w k)) = trace w @ replicate (Suc k) (ConfigureCall cid req)"
  by (simp add: attempt_def ConfigureCluster_def sent_def trace_attempt_start
      replicate_append_same)

lemma deadline_passed:
  assumes nc: "ctx_done env = None"
  shows "\<exists>n. d < clock (snd (attempt env cid req w n))"
proof -
  define K where "K = nat (d - clock w) + 1"
  have "clock w + int K * retryInterval \<le> clock (attempt_start env cid req w K)"
    using clock_attempt_start [OF nc] .
  moreover have "int K \<le> int K * retryInterval"
    by (simp add: retryInterval_def second_def)
  moreover have "d - clock w < int K"
    by (simp add: K_def)
  moreover have "clock (attempt_start env cid req w K) \<le> clock (snd (attempt env cid req w K))"
    by (simp add: attempt_def ConfigureCluster_def sent_def)
  ultimately have "d < clock (snd (attempt env cid req w K))"
    by linarith
  then show ?thesis ..
qed

lemma always_conflict_timeout:
  assumes nc: "ctx_done env = None"
    and allc: "\<forall>i. is_conflict_result (fst (attempt env cid req w i))"
  shows "\<exists>n e. fst (attempt env cid req w n) = Inl e \<and> IsConflict e \<and>
           d < clock (snd (attempt env cid req w n)) \<and>
           ConfigureWithRetry_loop env cid req d w =
             (Inl (ConfigureTimeout e), snd (attempt env cid req w n))"
proof -
  define P where "P = (\<lambda>n. d < clock (snd (attempt env cid req w n)))"
  define n where "n = (LEAST n. P n)"
  have ex: "\<exists>n. P n"
    unfolding P_def using deadline_passed [OF nc] .
  then have Pn: "P n"
    unfolding n_def by (metis LeastI)
  have before: "\<And>i. i < n \<Longrightarrow> \<not> P i"
    unfolding n_def by (rule not_less_Least)
  have cb: "conflicts_before env cid req d w n"
    unfolding conflicts_before_def using allc before by (auto simp: P_def not_less)
  from allc have "is_conflict_result (fst (attempt env cid req w n))" ..
  then obtain e where e: "fst (attempt env cid req w n) = Inl e" "IsConflict e"
    by (cases "fst (attempt env cid req w n)") (simp_all add: is_conflict_result_def)
  have "ConfigureWithRetry_loop env cid req d w =
          (Inl (ConfigureTimeout e), snd (attempt env cid req w n))"
    using e Pn unfolding loop_at_attempt [OF nc cb] P_def
    by simp
  with e Pn show ?thesis
    unfolding P_def by blast
qed

text \<open>
  C1. With no cancellation of the context: (1) when the first \<open>k\<close> attempts are answered
  with a conflict before the deadline and attempt \<open>k + 1\<close> succeeds, \<open>ConfigureWithRetry\<close>
  returns the response of attempt \<open>k + 1\<close> after exactly \<open>k + 1\<close> configure requests;
  (2) when every attempt is answered with a conflict, it returns, after some attempt that
  ended past the deadline, the timeout error wrapping that attempt's conflict; (3) when
  the first non-conflict error comes at attempt \<open>k + 1\<close>, that error is returned as it is
  and no further request is sent; (4) when the first \<open>k\<close> attempts are answered with a
  conflict before the deadline and attempt \<open>k + 1\<close> is answered with a conflict after it,
  the timeout error wrapping the conflict of attempt \<open>k + 1\<close> is returned, whatever later
  attempts would have been answered.
\<close>

theorem ConfigureWithRetry_conflict_absorption:
  assumes nc: "ctx_done env = None"
  shows
    "(conflicts_before env cid req (clock w + maxWait) w k \<and>
      fst (attempt env cid req w k) = Inr resp \<longrightarrow>
        ConfigureWithRetry env cid req maxWait w = (Inr resp, snd (attempt env cid req w k)) \<and>
        trace (snd (ConfigureWithRetry env cid req maxWait w)) =
          trace w @ replicate (Suc k) (ConfigureCall cid req))
     \<and>
     ((\<forall>i. is_conflict_result (fst (attempt env cid req w i))) \<longrightarrow>
        (\<exists>n e. fst (attempt env cid req w n) = Inl e \<and> IsConflict e \<and>
           clock w + maxWait < clock (snd (attempt env cid req w n)) \<and>
           ConfigureWithRetry env cid req maxWait w =
             (Inl (ConfigureTimeout e), snd (attempt env cid req w n)) \<and>
           trace (snd (ConfigureWithRetry env cid req maxWait w)) =
             trace w @ replicate (Suc n) (ConfigureCall cid req)))
     \<and>
     (conflicts_before env cid req (clock w + maxWait) w k \<and>
      fst (attempt env cid req w k) = Inl err \<and> \<not> IsConflict err \<longrightarrow>
        ConfigureWithRetry env cid req maxWait w = (Inl err, snd (attempt env cid req w k)) \<and>
        trace (snd (ConfigureWithRetry env cid req maxWait w)) =
          trace w @ replicate (Suc k) (ConfigureCall cid req))
     \<and>
     (conflicts_before env cid req (clock w + maxWait) w k \<and>
      fst (attempt env cid req w k) = Inl err \<and> IsConflict err \<and>
      clock w + maxWait < clock (snd (attempt env cid req w k)) \<longrightarrow>
        ConfigureWithRetry env cid req maxWait w =
          (Inl (ConfigureTimeout err), snd (attempt env cid req w k)) \<and>
        trace (snd (ConfigureWithRetry env cid req maxWait w)) =
          trace w @ replicate (Suc k) (ConfigureCall cid req))"
proof (intro conjI impI)
  assume a: "conflicts_before env cid req (clock w + maxWait) w k \<and>
      fst (attempt env cid req w k) = Inr resp"
  then show r: "ConfigureWithRetry env cid req maxWait w = (Inr resp, snd (attempt env cid req w k))"
    unfolding ConfigureWithRetry_def
    by (simp add: loop_at_attempt [OF nc conjunct1 [OF a]])
  show "trace (snd (ConfigureWithRetry env cid req maxWait w)) =
          trace w @ replicate (Suc k) (ConfigureCall cid req)"
    unfolding r by (simp add: trace_attempt)
next
  assume "\<forall>i. is_conflict_result (fst (attempt env cid req w i))"
  from always_conflict_timeout [OF nc this, of "clock w + maxWait"]
  show "\<exists>n e. fst (attempt env cid req w n) = Inl e \<and> IsConflict e \<and>
           clock w + maxWait < clock (snd (attempt env cid req w n)) \<and>
           ConfigureWithRetry env cid req maxWait w =
             (Inl (ConfigureTimeout e), snd (attempt env cid req w n)) \<and>
           trace (snd (ConfigureWithRetry env cid req maxWait w)) =
             trace w @ replicate (Suc n) (ConfigureCall cid req)"
    unfolding ConfigureWithRetry_def by (auto simp: trace_attempt)
next
  assume a: "conflicts_before env cid req (clock w + maxWait) w k \<and>
      fst (attempt env cid req w k) = Inl err \<and> \<not> IsConflict err"
  then show r: "ConfigureWithRetry env cid req maxWait w = (Inl err, snd (attempt env cid req w k))"
    unfolding ConfigureWithRetry_def
    by (simp add: loop_at_attempt [OF nc conjunct1 [OF a]])
  show "trace (snd (ConfigureWithRetry env cid req maxWait w)) =
          trace w @ replicate (Suc k) (ConfigureCall cid req)"
    unfolding r by (simp add: trace_attempt)
next
  assume a: "conflicts_before env cid req (clock w + maxWait) w k \<and>
      fst (attempt env cid req w k) = Inl err \<and> IsConflict err \<and>
      clock w + maxWait < clock (snd (attempt env cid req w k))"
  then show r: "ConfigureWithRetry env cid req maxWait w =
      (Inl (ConfigureTimeout err), snd (attempt env cid req w k))"
    unfolding ConfigureWithRetry_def
    by (simp add: loop_at_attempt [OF nc conjunct1 [OF a]])
  show "trace (snd (ConfigureWithRetry env cid req maxWait w)) =
          trace w @ replicate (Suc k) (ConfigureCall cid req)"
    unfolding r by (simp add: trace_attempt)
qed

lemma conflicts_before_0: "conflicts_before env cid req d w 0"
  by (simp add: conflicts_before_def)

theorem ConfigureWithRetry_conflict_absorption_witness:
  "fst (ConfigureWithRetry busy_twice 7 ConfigureRequest0 (2 * minute) world0) = Inr ok_response \<and>
   trace (snd (ConfigureWithRetry busy_twice 7 ConfigureRequest0 (2 * minute) world0)) =
     [ConfigureCall 7 ConfigureRequest0, ConfigureCall 7 ConfigureRequest0,
      ConfigureCall 7 ConfigureRequest0] \<and>
   (\<exists>e w'. ConfigureWithRetry always_busy 7 ConfigureRequest0 (2 * minute) world0 =
       (Inl (ConfigureTimeout e), w') \<and> IsConflict e) \<and>
   fst (ConfigureWithRetry busy_then_500 7 ConfigureRequest0 (2 * minute) world0) =
     Inl (APIError 500 ''Internal Server Error'') \<and>
   trace (snd (ConfigureWithRetry busy_then_500 7 ConfigureRequest0 (2 * minute) world0)) =
     [ConfigureCall 7 ConfigureRequest0, ConfigureCall 7 ConfigureRequest0] \<and>
   fst (ConfigureWithRetry always_busy 7 ConfigureRequest0 (5 * second) world0) =
     Inl (ConfigureTimeout (APIError 409 ''Conflict'')) \<and>
   trace (snd (ConfigureWithRetry always_busy 7 ConfigureRequest0 (5 * second) world0)) =
     [ConfigureCall 7 ConfigureRequest0, ConfigureCall 7 ConfigureRequest0]"
proof -
  have nc1: "ctx_done busy_twice = None"
    by (simp add: busy_twice_def healthy_def)
  have nc2: "ctx_done always_busy = None"
    by (simp add: always_busy_def healthy_def)
  have nc3: "ctx_done busy_then_500 = None"
    by (simp add: busy_then_500_def healthy_def)
  have h1: "conflicts_before busy_twice 7 ConfigureRequest0 (clock world0 + 2 * minute) world0 (Suc (Suc 0))"
    by (simp add: conflicts_before_Suc conflicts_before_0 is_conflict_result_def
        ConfigureCluster_def sent_def select_sleep_def busy_twice_def healthy_def world0_def
        minute_def second_def retryInterval_def)
  have r1: "fst (attempt busy_twice 7 ConfigureRequest0 world0 (Suc (Suc 0))) = Inr ok_response"
    by (simp add: attempt_def ConfigureCluster_def sent_def select_sleep_def busy_twice_def
        healthy_def world0_def)
  have h2: "\<forall>i. is_conflict_result (fst (attempt always_busy 7 ConfigureRequest0 world0 i))"
    by (simp add: attempt_def ConfigureCluster_def always_busy_def healthy_def
        is_conflict_result_def)
  have h3: "conflicts_before busy_then_500 7 ConfigureRequest0 (clock world0 + 2 * minute) world0 (Suc 0)"
    by (simp add: conflicts_before_Suc conflicts_before_0 is_conflict_result_def
        ConfigureCluster_def sent_def select_sleep_def busy_then_500_def healthy_def world0_def
        minute_def second_def retryInterval_def)
  have r3: "fst (attempt busy_then_500 7 ConfigureRequest0 world0 (Suc 0)) =
      Inl (APIError 500 ''Internal Server Error'')"
    by (simp add: attempt_def ConfigureCluster_def sent_def select_sleep_def busy_then_500_def
        healthy_def world0_def)
  note t1 = ConfigureWithRetry_conflict_absorption [OF nc1, of 7 ConfigureRequest0 world0
      "2 * minute" "Suc (Suc 0)" ok_response]
  note t2 = ConfigureWithRetry_conflict_absorption [OF nc2, of 7 ConfigureRequest0 world0
      "2 * minute"]
  note t3 = ConfigureWithRetry_conflict_absorption [OF nc3, of 7 ConfigureRequest0 world0
      "2 * minute" "Suc 0" _ "APIError 500 ''Internal Server Error''"]
  from t1 h1 r1 have a: "fst (ConfigureWithRetry busy_twice 7 ConfigureRequest0 (2 * minute) world0) = Inr ok_response"
    by simp
  from t1 h1 r1 have "trace (snd (ConfigureWithRetry busy_twice 7 ConfigureRequest0 (2 * minute) world0)) =
     trace world0 @ replicate (Suc (Suc (Suc 0))) (ConfigureCall 7 ConfigureRequest0)"
    by blast
  then have b: "trace (snd (ConfigureWithRetry busy_twice 7 ConfigureRequest0 (2 * minute) world0)) =
     [ConfigureCall 7 ConfigureRequest0, ConfigureCall 7 ConfigureRequest0,
      ConfigureCall 7 ConfigureRequest0]"
    by (simp add: world0_def)
  from t2 h2 have c: "\<exists>e w'. ConfigureWithRetry always_busy 7 ConfigureRequest0 (2 * minute) world0 =
       (Inl (ConfigureTimeout e), w') \<and> IsConflict e"
    by blast
  from t3 h3 r3 have d: "fst (ConfigureWithRetry busy_then_500 7 ConfigureRequest0 (2 * minute) world0) =
     Inl (APIError 500 ''Internal Server Error'')"
    by simp
  have n3: "\<not> IsConflict (APIError 500 ''Internal Server Error'')"
    by simp
  from t3 h3 r3 n3 have "trace (snd (ConfigureWithRetry busy_then_500 7 ConfigureRequest0 (2 * minute) world0)) =
     trace world0 @ replicate (Suc (Suc 0)) (ConfigureCall 7 ConfigureRequest0)"
    by blast
  then have e: "trace (snd (ConfigureWithRetry busy_then_500 7 ConfigureRequest0 (2 * minute) world0)) =
     [ConfigureCall 7 ConfigureRequest0, ConfigureCall 7 ConfigureRequest0]"
    by (simp add: world0_def)
  have h4: "conflicts_before always_busy 7 ConfigureRequest0 (clock world0 + 5 * second) world0 (Suc 0)"
    by (simp add: conflicts_before_Suc conflicts_before_0 is_conflict_result_def
        ConfigureCluster_def sent_def select_sleep_def always_busy_def healthy_def world0_def
        second_def retryInterval_def)
  have r4: "fst (attempt always_busy 7 ConfigureRequest0 world0 (Suc 0)) =
      Inl (APIError 409 ''Conflict'')"
    by (simp add: attempt_def ConfigureCluster_def always_busy_def healthy_def)
  have c4: "IsConflict (APIError 409 ''Conflict'')"
    by simp
  have l4: "clock world0 + 5 * second <
      clock (snd (attempt always_busy 7 ConfigureRequest0 world0 (Suc 0)))"
    by (simp add: attempt_def ConfigureCluster_def sent_def select_sleep_def always_busy_def
        healthy_def world0_def second_def retryInterval_def)
  note t4 = ConfigureWithRetry_conflict_absorption [OF nc2, of 7 ConfigureRequest0 world0
      "5 * second" "Suc 0" _ "APIError 409 ''Conflict''"]
  from t4 h4 r4 c4 l4 have f: "fst (ConfigureWithRetry always_busy 7 ConfigureRequest0 (5 * second) world0) =
     Inl (ConfigureTimeout (APIError 409 ''Conflict''))"
    by simp
  from t4 h4 r4 c4 l4 have "trace (snd (ConfigureWithRetry always_busy 7 ConfigureRequest0 (5 * second) world0)) =
     trace world0 @ replicate (Suc (Suc 0)) (ConfigureCall 7 ConfigureRequest0)"
    by blast
  then have g: "trace (snd (ConfigureWithRetry always_busy 7 ConfigureRequest0 (5 * second) world0)) =
     [ConfigureCall 7 ConfigureRequest0, ConfigureCall 7 ConfigureRequest0]"
    by (simp add: world0_def)
  from a b c d e f g show ?thesis by blast
qed

section \<open>Verification: the job poller\<close>

lemma WaitForJobComplete_failed_only_if_seen:
  "fst (WaitForJobComplete_loop env cid timeout deadline w) = Some (JobFailed i t m) \<Longrightarrow>
   \<exists>w' jobs. clock w' < deadline \<and> fst (GetJobs env cid w') = Inr jobs \<and> jobs \<noteq> [] \<and>
      check_failed jobs = Some (JobFailed i t m)"
proof (induction env cid timeout deadline w rule: WaitForJobComplete_loop.induct)
  case (1 env clusterID timeout deadline w)
  show ?case
  proof (cases "clock w < deadline")
    case False
    with "1.prems" show ?thesis
      by (subst (asm) WaitForJobComplete_loop.simps) simp
  next
    case True
    obtain r w1 where g: "GetJobs env clusterID w = (r, w1)"
      by (cases "GetJobs env clusterID w")
    show ?thesis
    proof (cases r)
      case (Inl err)
      with "1.prems" True g show ?thesis
        by (subst (asm) WaitForJobComplete_loop.simps) simp
    next
      case (Inr jobs)
      show ?thesis
      proof (cases "jobs = []")
        case True
        with "1.prems" \<open>clock w < deadline\<close> g Inr show ?thesis
          by (subst (asm) WaitForJobComplete_loop.simps) simp
      next
        case ne: False
        show ?thesis
        proof (cases "check_failed jobs")
          case (Some e)
          with "1.prems" True g Inr ne have "e = JobFailed i t m"
            by (subst (asm) WaitForJobComplete_loop.simps) simp
          with Some True g Inr ne show ?thesis
            by (intro exI [of _ w] exI [of _ jobs]) simp
        next
          case None
          obtain b w2 where s: "select_sleep env pollInterval w1 = (b, w2)"
            by (cases "select_sleep env pollInterval w1")
          show ?thesis
          proof (cases b)
            case True
            with "1.prems" \<open>clock w < deadline\<close> g Inr ne None s show ?thesis
              by (subst (asm) WaitForJobComplete_loop.simps) simp
          next
            case False
            with "1.prems" True g Inr ne None s
            have "fst (WaitForJobComplete_loop env clusterID timeout deadline w2) =
                Some (JobFailed i t m)"
              by (subst (asm) WaitForJobComplete_loop.simps) simp
            moreover have len: "length jobs \<noteq> 0" using ne by simp
            moreover have bF: "b = False" using False by simp
            ultimately show ?thesis
              using "1.IH" [OF True g [symmetric] Inr len None s [symmetric] bF]
              by blast
          qed
        qed
      qed
    qed
  qed
qed

text \<open>
  C10. In a poll iteration of \<open>WaitForJobComplete\<close> (the loop entered before the deadline):
  an empty active-job list returns success at once; a failed job is reported when the list
  of that poll is not empty; a \<open>JobFailed\<close> result always stems from a poll that returned a
  non-empty list holding the failed job; and when a poll sees only unfailed jobs and the
  next poll, still before the deadline, sees an empty list, the wait succeeds, whatever
  became of the jobs in between.
\<close>

theorem WaitForJobComplete_empty_list_first:
  assumes "clock w < deadline"
  shows
    "(fst (GetJobs env cid w) = Inr [] \<longrightarrow>
        WaitForJobComplete_loop env cid timeout deadline w = (None, snd (GetJobs env cid w)))
     \<and>
     (fst (GetJobs env cid w) = Inr jobs \<and> jobs \<noteq> [] \<and> check_failed jobs = Some e \<longrightarrow>
        WaitForJobComplete_loop env cid timeout deadline w = (Some e, snd (GetJobs env cid w)))
     \<and>
     (fst (WaitForJobComplete_loop env cid timeout deadline w) = Some (JobFailed i t m) \<longrightarrow>
        (\<exists>w' js. clock w' < deadline \<and> fst (GetJobs env cid w') = Inr js \<and> js \<noteq> [] \<and>
           check_failed js = Some (JobFailed i t m)))
     \<and>
     (ctx_done env = None \<and>
      fst (GetJobs env cid w) = Inr jobs \<and> jobs \<noteq> [] \<and> check_failed jobs = None \<and>
      w2 = snd (select_sleep env pollInterval (snd (GetJobs env cid w))) \<and>
      clock w2 < deadline \<and> fst (GetJobs env cid w2) = Inr [] \<longrightarrow>
        WaitForJobComplete_loop env cid timeout deadline w = (None, snd (GetJobs env cid w2)))"
proof (intro conjI impI)
  assume "fst (GetJobs env cid w) = Inr []"
  with assms show "WaitForJobComplete_loop env cid timeout deadline w = (None, snd (GetJobs env cid w))"
    by (subst WaitForJobComplete_loop.simps) (auto split: prod.splits)
next
  assume "fst (GetJobs env cid w) = Inr jobs \<and> jobs \<noteq> [] \<and> check_failed jobs = Some e"
  with assms show "WaitForJobComplete_loop env cid timeout deadline w = (Some e, snd (GetJobs env cid w))"
    by (subst WaitForJobComplete_loop.simps) (auto split: prod.splits)
next
  assume "fst (WaitForJobComplete_loop env cid timeout deadline w) = Some (JobFailed i t m)"
  then show "\<exists>w' js. clock w' < deadline \<and> fst (GetJobs env cid w') = Inr js \<and> js \<noteq> [] \<and>
           check_failed js = Some (JobFailed i t m)"
    by (rule WaitForJobComplete_failed_only_if_seen)
next
  assume a: "ctx_done env = None \<and>
      fst (GetJobs env cid w) = Inr jobs \<and> jobs \<noteq> [] \<and> check_failed jobs = None \<and>
      w2 = snd (select_sleep env pollInterval (snd (GetJobs env cid w))) \<and>
      clock w2 < deadline \<and> fst (GetJobs env cid w2) = Inr []"
  then have "WaitForJobComplete_loop env cid timeout deadline w =
      WaitForJobComplete_loop env cid timeout deadline w2"
    using assms
    by (subst WaitForJobComplete_loop.simps)
       (auto simp: select_sleep_no_cancel split: prod.splits)
  also have "\<dots> = (None, snd (GetJobs env cid w2))"
    using a by (subst WaitForJobComplete_loop.simps) (auto split: prod.splits)
  finally show "WaitForJobComplete_loop env cid timeout deadline w = (None, snd (GetJobs env cid w2))" .
qed


theorem WaitForJobComplete_empty_list_first_witness:
  "fst (WaitForJobComplete healthy 7 (5 * minute) world0) = None \<and>
   trace (snd (WaitForJobComplete healthy 7 (5 * minute) world0)) = [GetJobsCall 7] \<and>
   fst (WaitForJobComplete job_fails 7 (5 * minute) world0) =
     Some (JobFailed 42 ''configure'' ''role already exists'') \<and>
   fst (WaitForJobComplete job_vanishes 7 (5 * minute) world0) = None \<and>
   trace (snd (WaitForJobComplete job_vanishes 7 (5 * minute) world0)) =
     [GetJobsCall 7, GetJobsCall 7]"
proof -
  have d: "clock world0 < clock world0 + 5 * minute"
    by (simp add: minute_def second_def)
  note t1 = WaitForJobComplete_empty_list_first [OF d, where env = healthy and cid = 7
      and timeout = "5 * minute"]
  note t2 = WaitForJobComplete_empty_list_first [OF d, where env = job_fails and cid = 7
      and timeout = "5 * minute" and jobs = "[running_job, failed_job]"
      and e = "JobFailed 42 ''configure'' ''role already exists''"]
  note t3 = WaitForJobComplete_empty_list_first [OF d, where env = job_vanishes and cid = 7
      and timeout = "5 * minute" and jobs = "[running_job]"
      and ?w2.0 = "snd (select_sleep job_vanishes pollInterval (snd (GetJobs job_vanishes 7 world0)))"]
  have a: "WaitForJobComplete healthy 7 (5 * minute) world0 = (None, snd (GetJobs healthy 7 world0))"
    unfolding WaitForJobComplete_def using t1
    by (simp add: GetJobs_def healthy_def)
  have b: "WaitForJobComplete job_fails 7 (5 * minute) world0 =
      (Some (JobFailed 42 ''configure'' ''role already exists''), snd (GetJobs job_fails 7 world0))"
    unfolding WaitForJobComplete_def using t2
    by (simp add: GetJobs_def job_fails_def healthy_def running_job_def failed_job_def)
  have c: "WaitForJobComplete job_vanishes 7 (5 * minute) world0 =
      (None, snd (GetJobs job_vanishes 7
         (snd (select_sleep job_vanishes pollInterval (snd (GetJobs job_vanishes 7 world0))))))"
    unfolding WaitForJobComplete_def using t3
    by (simp add: GetJobs_def sent_def select_sleep_def job_vanishes_def healthy_def
        running_job_def world0_def minute_def second_def pollInterval_def)
  show ?thesis
    unfolding a b c
    by (simp add: GetJobs_def sent_def select_sleep_def job_vanishes_def healthy_def world0_def)
qed

section \<open>Verification: the cluster-state pollers\<close>

lemma WaitForClusterDeleted_no_status_error:
  "fst (WaitForClusterDeleted_loop env cid timeout deadline w) \<noteq> Some (UnexpectedStatus s)"
proof (induction env cid timeout deadline w rule: WaitForClusterDeleted_loop.induct)
  case (1 env cid timeout deadline w)
  show ?case
  proof (cases "clock w < deadline")
    case False
    then show ?thesis
      by (subst WaitForClusterDeleted_loop.simps) simp
  next
    case True
    obtain r w1 where g: "GetCluster env cid w = (r, w1)"
      by (cases "GetCluster env cid w")
    obtain b w2 where sl: "select_sleep env pollInterval w1 = (b, w2)"
      by (cases "select_sleep env pollInterval w1")
    show ?thesis
    proof (cases r)
      case (Inl err)
      with True g show ?thesis
        by (subst WaitForClusterDeleted_loop.simps) simp
    next
      case (Inr cluster)
      show ?thesis
      proof (cases "c_Status cluster = ''deleted'' \<or> b")
        case True
        with \<open>clock w < deadline\<close> g Inr sl show ?thesis
          by (subst WaitForClusterDeleted_loop.simps) auto
      next
        case False
        then have nd: "c_Status cluster \<noteq> ''deleted''" and bF: "b = False"
          by simp_all
        have "fst (WaitForClusterDeleted_loop env cid timeout deadline w2) \<noteq>
            Some (UnexpectedStatus s)"
          using "1.IH" [OF True g [symmetric] Inr nd sl [symmetric] bF] .
        with True g Inr sl nd bF show ?thesis
          by (subst WaitForClusterDeleted_loop.simps) simp
      qed
    qed
  qed
qed

text \<open>
  C5, as amended. In a poll iteration that fetched a cluster: \<open>WaitForClusterActive\<close>
  fails at once with \<open>UnexpectedStatus\<close> on any status other than \<open>active\<close>,
  \<open>failed\<close> and \<open>provisioning\<close>; \<open>WaitForClusterDeleted\<close> has no set of recognised
  values: on every status other than \<open>deleted\<close> it sleeps and polls again (or returns the
  context's error), and it never returns an unexpected-status error.
\<close>

theorem cluster_pollers_status_handling:
  assumes "clock w < deadline" and "fst (GetCluster env cid w) = Inr cluster"
  shows
    "(c_Status cluster \<notin> {''active'', ''failed'', ''provisioning''} \<longrightarrow>
        WaitForClusterActive_loop env cid timeout deadline w =
          (Inl (UnexpectedStatus (c_Status cluster)), snd (GetCluster env cid w)))
     \<and>
     (c_Status cluster \<noteq> ''deleted'' \<longrightarrow>
        WaitForClusterDeleted_loop env cid timeout deadline w =
          (case select_sleep env pollInterval (snd (GetCluster env cid w)) of
             (True, w2) \<Rightarrow> (Some ContextErr, w2)
           | (False, w2) \<Rightarrow> WaitForClusterDeleted_loop env cid timeout deadline w2))
     \<and>
     (\<forall>s. fst (WaitForClusterDeleted_loop env cid timeout deadline w) \<noteq>
        Some (UnexpectedStatus s))"
proof (intro conjI impI allI)
  assume "c_Status cluster \<notin> {''active'', ''failed'', ''provisioning''}"
  with assms show "WaitForClusterActive_loop env cid timeout deadline w =
          (Inl (UnexpectedStatus (c_Status cluster)), snd (GetCluster env cid w))"
    by (subst WaitForClusterActive_loop.simps) (auto split: prod.splits)
next
  assume "c_Status cluster \<noteq> ''deleted''"
  with assms show "WaitForClusterDeleted_loop env cid timeout deadline w =
          (case select_sleep env pollInterval (snd (GetCluster env cid w)) of
             (True, w2) \<Rightarrow> (Some ContextErr, w2)
           | (False, w2) \<Rightarrow> WaitForClusterDeleted_loop env cid timeout deadline w2)"
    by (subst WaitForClusterDeleted_loop.simps) (auto split: prod.splits)
next
  fix s
  show "fst (WaitForClusterDeleted_loop env cid timeout deadline w) \<noteq> Some (UnexpectedStatus s)"
    by (rule WaitForClusterDeleted_no_status_error)
qed

text \<open>
  C5 as stated fails for \<open>WaitForClusterDeleted\<close>: a cluster reported with the unknown
  status \<open>migrating\<close> is polled again, and the wait ends in success.
\<close>

theorem WaitForClusterDeleted_unknown_status_counterexample:
  "fst (GetCluster migrating_then_deleted 7 world0) = Inr (cluster0\<lparr>c_Status := ''migrating''\<rparr>) \<and>
   WaitForClusterDeleted migrating_then_deleted 7 (10 * minute) world0 =
     (None, \<lparr>trace = [GetClusterCall 7, GetClusterCall 7], clock = 12 * second, logs = []\<rparr>)"
  unfolding WaitForClusterDeleted_def
  apply (subst WaitForClusterDeleted_loop.simps)
  apply (subst WaitForClusterDeleted_loop.simps)
  apply (simp add: GetCluster_def sent_def select_sleep_def migrating_then_deleted_def healthy_def
      world0_def cluster0_def minute_def second_def pollInterval_def)
  done

theorem cluster_pollers_status_handling_witness:
  "fst (WaitForClusterActive migrating_then_deleted 7 (25 * minute) world0) =
     Inl (UnexpectedStatus ''migrating'') \<and>
   trace (snd (WaitForClusterActive migrating_then_deleted 7 (25 * minute) world0)) =
     [GetClusterCall 7] \<and>
   WaitForClusterDeleted migrating_then_deleted 7 (10 * minute) world0 =
     WaitForClusterDeleted_loop migrating_then_deleted 7 (10 * minute) (10 * minute)
       \<lparr>trace = [GetClusterCall 7], clock = 11 * second, logs = []\<rparr>"
proof -
  have d1: "clock world0 < clock world0 + 25 * minute"
    by (simp add: minute_def second_def)
  have d2: "clock world0 < clock world0 + 10 * minute"
    by (simp add: minute_def second_def)
  have g: "fst (GetCluster migrating_then_deleted 7 world0) = Inr (cluster0\<lparr>c_Status := ''migrating''\<rparr>)"
    by (simp add: GetCluster_def migrating_then_deleted_def healthy_def world0_def)
  note t1 = cluster_pollers_status_handling [OF d1 g, where timeout = "25 * minute"]
  note t2 = cluster_pollers_status_handling [OF d2 g, where timeout = "10 * minute"]
  have a: "WaitForClusterActive migrating_then_deleted 7 (25 * minute) world0 =
      (Inl (UnexpectedStatus ''migrating''), snd (GetCluster migrating_then_deleted 7 world0))"
    unfolding WaitForClusterActive_def using t1 by simp
  have b: "WaitForClusterDeleted migrating_then_deleted 7 (10 * minute) world0 =
     WaitForClusterDeleted_loop migrating_then_deleted 7 (10 * minute) (10 * minute)
       \<lparr>trace = [GetClusterCall 7], clock = 11 * second, logs = []\<rparr>"
    unfolding WaitForClusterDeleted_def using t2
    by (simp add: GetCluster_def sent_def select_sleep_def migrating_then_deleted_def healthy_def
        world0_def pollInterval_def second_def)
  show ?thesis
    unfolding a using b
    by (simp add: GetCluster_def sent_def world0_def)
qed

section \<open>Verification: deletes without a remote counterpart\<close>

text \<open>
  C8. \<open>Delete\<close> of an extension and of a grant sends no request (the trace of requests is
  unchanged, whatever the remote system would answer), returns no diagnostic, and writes
  exactly one warning to the log.
\<close>

theorem extension_grant_Delete_local_only:
  "trace (snd (clusterExtensionResource_Delete env est w)) = trace w \<and>
   Diagnostics (fst (clusterExtensionResource_Delete env est w)) = [] \<and>
   (\<exists>msg. logs (snd (clusterExtensionResource_Delete env est w)) = logs w @ [(Warn, msg)]) \<and>
   clusterExtensionResource_Delete env est w = clusterExtensionResource_Delete env' est w \<and>
   trace (snd (clusterGrantResource_Delete env gst w)) = trace w \<and>
   Diagnostics (fst (clusterGrantResource_Delete env gst w)) = [] \<and>
   (\<exists>msg. logs (snd (clusterGrantResource_Delete env gst w)) = logs w @ [(Warn, msg)]) \<and>
   clusterGrantResource_Delete env gst w = clusterGrantResource_Delete env' gst w"
  by (simp add: clusterExtensionResource_Delete_def clusterGrantResource_Delete_def
      done_with_def tflog_def)

section \<open>Verification: firewall rules\<close>

lemma ConfigureWithRetry_loop_trace:
  "\<exists>n>0. trace (snd (ConfigureWithRetry_loop env cid req d w)) =
     trace w @ replicate n (ConfigureCall cid req)"
proof (induction env cid req d w rule: ConfigureWithRetry_loop.induct)
  case (1 env clusterID req deadline w)
  let ?c = "ConfigureCall clusterID req"
  obtain r w1 where g: "ConfigureCluster env clusterID req w = (r, w1)"
    by (cases "ConfigureCluster env clusterID req w")
  then have t1: "trace w1 = trace w @ replicate (Suc 0) ?c"
    by (auto simp: ConfigureCluster_def sent_def)
  obtain b w2 where sl: "select_sleep env retryInterval w1 = (b, w2)"
    by (cases "select_sleep env retryInterval w1")
  then have t2: "trace w2 = trace w1"
    by (auto simp: select_sleep_def split: option.splits if_splits)
  show ?case
  proof (cases "\<exists>err. r = Inl err \<and> IsConflict err \<and> \<not> deadline < clock w1 \<and> \<not> b")
    case False
    then have "trace (snd (ConfigureWithRetry_loop env clusterID req deadline w)) =
        trace w @ replicate (Suc 0) ?c"
      using g sl t1 t2
      by (subst ConfigureWithRetry_loop.simps) (auto split: sum.splits)
    then show ?thesis by blast
  next
    case True
    then obtain err where r: "r = Inl err" and c: "\<not> \<not> IsConflict err"
      and dl: "\<not> deadline < clock w1" and bF: "b = False"
      by auto
    from "1.IH" [OF g [symmetric] r c dl sl [symmetric] bF]
    obtain n where n: "trace (snd (ConfigureWithRetry_loop env clusterID req deadline w2)) =
        trace w2 @ replicate n ?c"
      by blast
    have "ConfigureWithRetry_loop env clusterID req deadline w =
        ConfigureWithRetry_loop env clusterID req deadline w2"
      using g sl r c dl bF by (subst ConfigureWithRetry_loop.simps) simp
    then have "trace (snd (ConfigureWithRetry_loop env clusterID req deadline w)) =
        trace w @ replicate (Suc n) ?c"
      using n t1 t2 by (simp add: replicate_app_Cons_same)
    then show ?thesis by blast
  qed
qed

lemma ConfigureWithRetry_trace:
  "\<exists>n>0. trace (snd (ConfigureWithRetry env cid req maxWait w)) =
     trace w @ replicate n (ConfigureCall cid req)"
  unfolding ConfigureWithRetry_def by (rule ConfigureWithRetry_loop_trace)

text \<open>
  C7. With a cluster identifier that parses: \<open>Create\<close> and \<open>Update\<close> of the firewall
  resource send one or more configure requests (the retries), each of them carrying the
  complete planned IP set in \<open>SourceIPs\<close> with \<open>ReplaceIPs\<close> set and nothing else (no
  \<open>DeleteIPs\<close>); \<open>Delete\<close> sends the one-element set \<open>0.0.0.0/0\<close> with \<open>ReplaceIPs\<close> set.
  No other request is sent.
\<close>

theorem firewall_replace_semantics:
  assumes "Atoi (ValueString (fm_ClusterID plan)) = Inr cid"
  shows
    "(fm_SourceIPs plan = Some ips \<longrightarrow>
        (\<exists>n>0. trace (snd (clusterFirewallResource_Create env plan w)) =
           trace w @ replicate n (ConfigureCall cid
             \<lparr>req_Users = [], req_DeleteUsers = [], req_Databases = [], req_DeleteDatabases = [],
              req_Extensions = [], req_Grants = [], req_SourceIPs = ips, req_DeleteIPs = [],
              req_ReplaceIPs = True\<rparr>)) \<and>
        (\<exists>n>0. trace (snd (clusterFirewallResource_Update env plan w)) =
           trace w @ replicate n (ConfigureCall cid
             \<lparr>req_Users = [], req_DeleteUsers = [], req_Databases = [], req_DeleteDatabases = [],
              req_Extensions = [], req_Grants = [], req_SourceIPs = ips, req_DeleteIPs = [],
              req_ReplaceIPs = True\<rparr>)))
     \<and>
     (\<exists>n>0. trace (snd (clusterFirewallResource_Delete env plan w)) =
        trace w @ replicate n (ConfigureCall cid
          \<lparr>req_Users = [], req_DeleteUsers = [], req_Databases = [], req_DeleteDatabases = [],
           req_Extensions = [], req_Grants = [], req_SourceIPs = [''0.0.0.0/0''],
           req_DeleteIPs = [], req_ReplaceIPs = True\<rparr>))"
proof (intro conjI impI)
  assume ips: "fm_SourceIPs plan = Some ips"
  let ?req = "ConfigureRequest0\<lparr>req_SourceIPs := ips, req_ReplaceIPs := True\<rparr>"
  have eq: "?req = \<lparr>req_Users = [], req_DeleteUsers = [], req_Databases = [], req_DeleteDatabases = [],
              req_Extensions = [], req_Grants = [], req_SourceIPs = ips, req_DeleteIPs = [],
              req_ReplaceIPs = True\<rparr>"
    by (simp add: ConfigureRequest0_def)
  have c: "trace (snd (clusterFirewallResource_Create env plan w)) =
      trace (snd (ConfigureWithRetry env cid ?req (2 * minute) (tflog Info ''Setting cluster firewall rules'' w)))"
    using assms ips
    by (simp add: clusterFirewallResource_Create_def split: prod.splits sum.splits)
  have u: "trace (snd (clusterFirewallResource_Update env plan w)) =
      trace (snd (ConfigureWithRetry env cid ?req (2 * minute) (tflog Info ''Updating cluster firewall rules'' w)))"
    using assms ips
    by (simp add: clusterFirewallResource_Update_def split: prod.splits sum.splits)
  from ConfigureWithRetry_trace [of env cid ?req "2 * minute" "tflog Info ''Setting cluster firewall rules'' w"]
  show "\<exists>n>0. trace (snd (clusterFirewallResource_Create env plan w)) =
           trace w @ replicate n (ConfigureCall cid
             \<lparr>req_Users = [], req_DeleteUsers = [], req_Databases = [], req_DeleteDatabases = [],
              req_Extensions = [], req_Grants = [], req_SourceIPs = ips, req_DeleteIPs = [],
              req_ReplaceIPs = True\<rparr>)"
    unfolding c eq by (simp add: tflog_def)
  from ConfigureWithRetry_trace [of env cid ?req "2 * minute" "tflog Info ''Updating cluster firewall rules'' w"]
  show "\<exists>n>0. trace (snd (clusterFirewallResource_Update env plan w)) =
           trace w @ replicate n (ConfigureCall cid
             \<lparr>req_Users = [], req_DeleteUsers = [], req_Databases = [], req_DeleteDatabases = [],
              req_Extensions = [], req_Grants = [], req_SourceIPs = ips, req_DeleteIPs = [],
              req_ReplaceIPs = True\<rparr>)"
    unfolding u eq by (simp add: tflog_def)
next
  let ?req = "ConfigureRequest0\<lparr>req_SourceIPs := [''0.0.0.0/0''], req_ReplaceIPs := True\<rparr>"
  have eq: "?req = \<lparr>req_Users = [], req_DeleteUsers = [], req_Databases = [], req_DeleteDatabases = [],
           req_Extensions = [], req_Grants = [], req_SourceIPs = [''0.0.0.0/0''],
           req_DeleteIPs = [], req_ReplaceIPs = True\<rparr>"
    by (simp add: ConfigureRequest0_def)
  have d: "trace (snd (clusterFirewallResource_Delete env plan w)) =
      trace (snd (ConfigureWithRetry env cid ?req (2 * minute)
        (tflog Info ''Resetting cluster firewall to allow all'' w)))"
    using assms
    by (simp add: clusterFirewallResource_Delete_def split: prod.splits sum.splits)
  from ConfigureWithRetry_trace [of env cid ?req "2 * minute"
      "tflog Info ''Resetting cluster firewall to allow all'' w"]
  show "\<exists>n>0. trace (snd (clusterFirewallResource_Delete env plan w)) =
        trace w @ replicate n (ConfigureCall cid
          \<lparr>req_Users = [], req_DeleteUsers = [], req_Databases = [], req_DeleteDatabases = [],
           req_Extensions = [], req_Grants = [], req_SourceIPs = [''0.0.0.0/0''],
           req_DeleteIPs = [], req_ReplaceIPs = True\<rparr>)"
    unfolding d eq by (simp add: tflog_def)
qed


theorem firewall_replace_semantics_witness:
  "Atoi (ValueString (fm_ClusterID (firewall_plan [''192.168.0.0/16'']))) = Inr 7 \<and>
   (\<exists>n>0. trace (snd (clusterFirewallResource_Create healthy (firewall_plan [''10.0.0.0/8'']) world0)) =
      replicate n (ConfigureCall 7
        \<lparr>req_Users = [], req_DeleteUsers = [], req_Databases = [], req_DeleteDatabases = [],
         req_Extensions = [], req_Grants = [], req_SourceIPs = [''10.0.0.0/8''], req_DeleteIPs = [],
         req_ReplaceIPs = True\<rparr>)) \<and>
   (\<exists>n>0. trace (snd (clusterFirewallResource_Update healthy (firewall_plan [''192.168.0.0/16''])
        world0)) =
      replicate n (ConfigureCall 7
        \<lparr>req_Users = [], req_DeleteUsers = [], req_Databases = [], req_DeleteDatabases = [],
         req_Extensions = [], req_Grants = [], req_SourceIPs = [''192.168.0.0/16''],
         req_DeleteIPs = [], req_ReplaceIPs = True\<rparr>)) \<and>
   (\<exists>n>0. trace (snd (clusterFirewallResource_Delete healthy (firewall_plan [''192.168.0.0/16''])
        world0)) =
      replicate n (ConfigureCall 7
        \<lparr>req_Users = [], req_DeleteUsers = [], req_Databases = [], req_DeleteDatabases = [],
         req_Extensions = [], req_Grants = [], req_SourceIPs = [''0.0.0.0/0''],
         req_DeleteIPs = [], req_ReplaceIPs = True\<rparr>))"
proof -
  have h: "Atoi (ValueString (fm_ClusterID (firewall_plan ips))) = Inr 7" for ips
    by (simp add: firewall_plan_def Atoi_def is_digit_def digit_val_def)
  have s: "fm_SourceIPs (firewall_plan ips) = Some ips" for ips
    by (simp add: firewall_plan_def)
  note t1 = firewall_replace_semantics [OF h, of "[''10.0.0.0/8'']" "[''10.0.0.0/8'']" healthy world0]
  note t2 = firewall_replace_semantics [OF h, of "[''192.168.0.0/16'']" "[''192.168.0.0/16'']"
      healthy world0]
  have tw: "trace world0 = []"
    by (simp add: world0_def)
  from t1 t2 h s show ?thesis
    unfolding tw append_Nil by blast
qed


section \<open>Verification: deletes with a remote counterpart\<close>

text \<open>
  C6. In \<open>Delete\<close> of a user, a database, the firewall, the backup configuration and the
  cluster: when the remote deletion call (the configure call with its retries, the backup
  update, the cluster deletion) returns an error, the operation ends without a diagnostic
  if the error is not-found or gone, and with exactly one error diagnostic carrying that
  error otherwise.
\<close>

theorem Delete_absence_is_success:
  "(parseUserID (ValueString (um_ID ust)) = Inr (cid, name) \<and>
    fst (ConfigureWithRetry env cid (ConfigureRequest0\<lparr>req_DeleteUsers := [name]\<rparr>) (2 * minute)
          (tflog Info ''Deleting cluster user'' w)) = Inl err \<longrightarrow>
      Diagnostics (fst (clusterUserResource_Delete env ust w)) =
        (if IsNotFound err \<or> IsGone err then []
         else [AddError ''Error deleting cluster user'' (Some err)]))
   \<and>
   (parseDatabaseID (ValueString (dm_ID dst)) = Inr (cid, name) \<and>
    fst (ConfigureWithRetry env cid (ConfigureRequest0\<lparr>req_DeleteDatabases := [name]\<rparr>)
          (2 * minute) (tflog Info ''Deleting cluster database'' w)) = Inl err \<longrightarrow>
      Diagnostics (fst (clusterDatabaseResource_Delete env dst w)) =
        (if IsNotFound err \<or> IsGone err then []
         else [AddError ''Error deleting cluster database'' (Some err)]))
   \<and>
   (Atoi (ValueString (fm_ClusterID fwst)) = Inr cid \<and>
    fst (ConfigureWithRetry env cid
          (ConfigureRequest0\<lparr>req_SourceIPs := [''0.0.0.0/0''], req_ReplaceIPs := True\<rparr>)
          (2 * minute) (tflog Info ''Resetting cluster firewall to allow all'' w)) = Inl err \<longrightarrow>
      Diagnostics (fst (clusterFirewallResource_Delete env fwst w)) =
        (if IsNotFound err \<or> IsGone err then []
         else [AddError ''Error resetting cluster firewall'' (Some err)]))
   \<and>
   (Atoi (ValueString (bm_ClusterID bst)) = Inr cid \<and>
    fst (UpdateBackupConfig env cid
          \<lparr>bk_Enabled = Some False, bk_Schedule = [], bk_RetentionFull = None\<rparr>
          (tflog Info ''Disabling cluster backups'' w)) = Some err \<longrightarrow>
      Diagnostics (fst (clusterBackupConfigResource_Delete env bst w)) =
        (if IsNotFound err \<or> IsGone err then []
         else [AddError ''Error disabling backups'' (Some err)]))
   \<and>
   (Atoi (ValueString (rm_ID cst)) = Inr cid \<and>
    fst (DeleteCluster env cid (tflog Info ''Deleting cluster'' w)) = Some err \<longrightarrow>
      Diagnostics (fst (clusterResource_Delete env cst w)) =
        (if IsNotFound err \<or> IsGone err then []
         else [AddError ''Error deleting cluster'' (Some err)]))"
proof (intro conjI impI)
  assume "parseUserID (ValueString (um_ID ust)) = Inr (cid, name) \<and>
    fst (ConfigureWithRetry env cid (ConfigureRequest0\<lparr>req_DeleteUsers := [name]\<rparr>) (2 * minute)
          (tflog Info ''Deleting cluster user'' w)) = Inl err"
  then show "Diagnostics (fst (clusterUserResource_Delete env ust w)) =
        (if IsNotFound err \<or> IsGone err then []
         else [AddError ''Error deleting cluster user'' (Some err)])"
    by (auto simp: clusterUserResource_Delete_def failure_def done_with_def split: prod.splits)
next
  assume "parseDatabaseID (ValueString (dm_ID dst)) = Inr (cid, name) \<and>
    fst (ConfigureWithRetry env cid (ConfigureRequest0\<lparr>req_DeleteDatabases := [name]\<rparr>)
          (2 * minute) (tflog Info ''Deleting cluster database'' w)) = Inl err"
  then show "Diagnostics (fst (clusterDatabaseResource_Delete env dst w)) =
        (if IsNotFound err \<or> IsGone err then []
         else [AddError ''Error deleting cluster database'' (Some err)])"
    by (auto simp: clusterDatabaseResource_Delete_def failure_def done_with_def split: prod.splits)
next
  assume "Atoi (ValueString (fm_ClusterID fwst)) = Inr cid \<and>
    fst (ConfigureWithRetry env cid
          (ConfigureRequest0\<lparr>req_SourceIPs := [''0.0.0.0/0''], req_ReplaceIPs := True\<rparr>)
          (2 * minute) (tflog Info ''Resetting cluster firewall to allow all'' w)) = Inl err"
  then show "Diagnostics (fst (clusterFirewallResource_Delete env fwst w)) =
        (if IsNotFound err \<or> IsGone err then []
         else [AddError ''Error resetting cluster firewall'' (Some err)])"
    by (auto simp: clusterFirewallResource_Delete_def failure_def done_with_def split: prod.splits)
next
  assume "Atoi (ValueString (bm_ClusterID bst)) = Inr cid \<and>
    fst (UpdateBackupConfig env cid
          \<lparr>bk_Enabled = Some False, bk_Schedule = [], bk_RetentionFull = None\<rparr>
          (tflog Info ''Disabling cluster backups'' w)) = Some err"
  then show "Diagnostics (fst (clusterBackupConfigResource_Delete env bst w)) =
        (if IsNotFound err \<or> IsGone err then []
         else [AddError ''Error disabling backups'' (Some err)])"
    by (auto simp: clusterBackupConfigResource_Delete_def failure_def done_with_def
        split: prod.splits)
next
  assume "Atoi (ValueString (rm_ID cst)) = Inr cid \<and>
    fst (DeleteCluster env cid (tflog Info ''Deleting cluster'' w)) = Some err"
  then show "Diagnostics (fst (clusterResource_Delete env cst w)) =
        (if IsNotFound err \<or> IsGone err then []
         else [AddError ''Error deleting cluster'' (Some err)])"
    by (auto simp: clusterResource_Delete_def failure_def done_with_def split: prod.splits)
qed

lemma ConfigureWithRetry_first_error:
  "rsp_configure env w cid req = Inl err \<Longrightarrow> \<not> IsConflict err \<Longrightarrow>
   ConfigureWithRetry env cid req maxWait w = (Inl err, sent env (ConfigureCall cid req) w)"
  unfolding ConfigureWithRetry_def
  by (subst ConfigureWithRetry_loop.simps) (simp add: ConfigureCluster_def)

lemma Atoi_7: "Atoi ''7'' = Inr 7"
  by (simp add: Atoi_def is_digit_def digit_val_def)

theorem Delete_absence_is_success_witness:
  "Diagnostics (fst (clusterUserResource_Delete gone user_state world0)) = [] \<and>
   Diagnostics (fst (clusterDatabaseResource_Delete gone database_state world0)) = [] \<and>
   Diagnostics (fst (clusterFirewallResource_Delete gone (firewall_plan []) world0)) = [] \<and>
   Diagnostics (fst (clusterBackupConfigResource_Delete gone backup_state world0)) = [] \<and>
   Diagnostics (fst (clusterResource_Delete gone cluster_state world0)) = [] \<and>
   Diagnostics (fst (clusterUserResource_Delete broken user_state world0)) =
     [AddError ''Error deleting cluster user'' (Some (APIError 500 ''Internal Server Error''))] \<and>
   Diagnostics (fst (clusterResource_Delete broken cluster_state world0)) =
     [AddError ''Error deleting cluster'' (Some (APIError 500 ''Internal Server Error''))]"
proof -
  have pu: "parseUserID (ValueString (um_ID user_state)) = Inr (7, ''alice'')"
    by (simp add: parseUserID_def user_state_def numeral_2_eq_2 Atoi_7)
  have pd: "parseDatabaseID (ValueString (dm_ID database_state)) = Inr (7, ''appdb'')"
    by (simp add: parseDatabaseID_def database_state_def numeral_2_eq_2 Atoi_7)
  have pf: "Atoi (ValueString (fm_ClusterID (firewall_plan []))) = Inr 7"
    by (simp add: firewall_plan_def Atoi_7)
  have pb: "Atoi (ValueString (bm_ClusterID backup_state)) = Inr 7"
    by (simp add: backup_state_def Atoi_7)
  have pc: "Atoi (ValueString (rm_ID cluster_state)) = Inr 7"
    by (simp add: cluster_state_def Atoi_7)
  have g: "fst (ConfigureWithRetry gone 7 req (2 * minute) w) = Inl (APIError 410 ''Gone'')" for req w
    by (simp add: ConfigureWithRetry_first_error gone_def healthy_def)
  have b: "fst (ConfigureWithRetry broken 7 req (2 * minute) w) =
      Inl (APIError 500 ''Internal Server Error'')" for req w
    by (simp add: ConfigureWithRetry_first_error broken_def healthy_def)
  have gb: "fst (UpdateBackupConfig gone 7 req w) = Some (APIError 404 ''Not Found'')" for req w
    by (simp add: UpdateBackupConfig_def gone_def healthy_def)
  have gc: "fst (DeleteCluster gone 7 w) = Some (APIError 404 ''Not Found'')" for w
    by (simp add: DeleteCluster_def gone_def healthy_def)
  have bc: "fst (DeleteCluster broken 7 w) = Some (APIError 500 ''Internal Server Error'')" for w
    by (simp add: DeleteCluster_def broken_def healthy_def)
  note t1 = Delete_absence_is_success [where env = gone and w = world0 and cid = 7
      and ust = user_state and dst = database_state and fwst = "firewall_plan []"
      and bst = backup_state and cst = cluster_state]
  note t2 = Delete_absence_is_success [where env = broken and w = world0 and cid = 7
      and ust = user_state and cst = cluster_state
      and err = "APIError 500 ''Internal Server Error''" and name = "''alice''"]
  have u: "Diagnostics (fst (clusterUserResource_Delete gone user_state world0)) = []"
    using t1 [where name = "''alice''" and err = "APIError 410 ''Gone''"] pu g by simp
  have d: "Diagnostics (fst (clusterDatabaseResource_Delete gone database_state world0)) = []"
    using t1 [where name = "''appdb''" and err = "APIError 410 ''Gone''"] pd g by simp
  have f: "Diagnostics (fst (clusterFirewallResource_Delete gone (firewall_plan []) world0)) = []"
    using t1 [where err = "APIError 410 ''Gone''"] pf g by simp
  have k: "Diagnostics (fst (clusterBackupConfigResource_Delete gone backup_state world0)) = []"
    using t1 [where err = "APIError 404 ''Not Found''"] pb gb by simp
  have c: "Diagnostics (fst (clusterResource_Delete gone cluster_state world0)) = []"
    using t1 [where err = "APIError 404 ''Not Found''"] pc gc by simp
  have u': "Diagnostics (fst (clusterUserResource_Delete broken user_state world0)) =
     [AddError ''Error deleting cluster user'' (Some (APIError 500 ''Internal Server Error''))]"
    using t2 pu b by simp
  have c': "Diagnostics (fst (clusterResource_Delete broken cluster_state world0)) =
     [AddError ''Error deleting cluster'' (Some (APIError 500 ''Internal Server Error''))]"
    using t2 pc bc by simp
  from u d f k c u' c' show ?thesis by blast
qed

section \<open>Verification: composite identifiers\<close>





















section \<open>Verification: job-failure propagation\<close>

lemma pending_before_Suc:
  "pending_before env cid d w (Suc k) =
     (clock w < d \<and>
      (\<exists>jobs. fst (GetJobs env cid w) = Inr jobs \<and> jobs \<noteq> [] \<and> check_failed jobs = None) \<and>
      \<not> fst (select_sleep env pollInterval (snd (GetJobs env cid w))) \<and>
      pending_before env cid d (snd (select_sleep env pollInterval (snd (GetJobs env cid w)))) k)"
  unfolding pending_before_def
  by (auto simp: less_Suc_eq_0_disj)

lemma wait_skip:
  "pending_before env cid d w k \<Longrightarrow>
   WaitForJobComplete_loop env cid t d w =
   WaitForJobComplete_loop env cid t d (poll_start env cid w k)"
proof (induction k arbitrary: w)
  case 0
  then show ?case by simp
next
  case (Suc k)
  let ?w2 = "snd (select_sleep env pollInterval (snd (GetJobs env cid w)))"
  from Suc.prems obtain jobs where c: "clock w < d"
    and j: "fst (GetJobs env cid w) = Inr jobs" "jobs \<noteq> []" "check_failed jobs = None"
    and s: "\<not> fst (select_sleep env pollInterval (snd (GetJobs env cid w)))"
    and rest: "pending_before env cid d ?w2 k"
    by (auto simp: pending_before_Suc)
  have "WaitForJobComplete_loop env cid t d w = WaitForJobComplete_loop env cid t d ?w2"
    using c j s
    by (subst WaitForJobComplete_loop.simps) (auto split: prod.splits)
  also have "\<dots> = WaitForJobComplete_loop env cid t d (poll_start env cid ?w2 k)"
    using Suc.IH [OF rest] .
  finally show ?case by simp
qed

lemma check_failed_find:
  "check_failed jobs = map_option job_error (find (\<lambda>job. job_Status job = ''failed'') jobs)"
  by (induction jobs) (simp_all add: job_error_def)

lemma job_failure_seen_result:
  assumes "job_failure_seen env cid timeout w j"
  shows "fst (WaitForJobComplete env cid timeout w) = Some (job_error j)"
proof -
  from assms obtain k jobs where p: "pending_before env cid (clock w + timeout) w k"
    and c: "clock (poll_start env cid w k) < clock w + timeout"
    and g: "fst (GetJobs env cid (poll_start env cid w k)) = Inr jobs"
    and f: "find (\<lambda>job. job_Status job = ''failed'') jobs = Some j"
    unfolding job_failure_seen_def by blast
  from f have ne: "jobs \<noteq> []" by auto
  from f have cf: "check_failed jobs = Some (job_error j)"
    by (simp add: check_failed_find)
  show ?thesis
    unfolding WaitForJobComplete_def wait_skip [OF p]
    using c g ne cf
    by (subst WaitForJobComplete_loop.simps) (auto split: prod.splits)
qed

lemma WaitForJobComplete_loop_trace:
  "\<exists>n. trace (snd (WaitForJobComplete_loop env cid t d w)) =
     trace w @ replicate n (GetJobsCall cid)"
proof (induction env cid t d w rule: WaitForJobComplete_loop.induct)
  case (1 env clusterID timeout deadline w)
  let ?c = "GetJobsCall clusterID"
  obtain r w1 where g: "GetJobs env clusterID w = (r, w1)"
    by (cases "GetJobs env clusterID w")
  then have t1: "trace w1 = trace w @ replicate (Suc 0) ?c"
    by (auto simp: GetJobs_def sent_def)
  obtain b w2 where sl: "select_sleep env pollInterval w1 = (b, w2)"
    by (cases "select_sleep env pollInterval w1")
  then have t2: "trace w2 = trace w1"
    by (auto simp: select_sleep_def split: option.splits if_splits)
  show ?case
  proof (cases "clock w < deadline")
    case False
    then have "trace (snd (WaitForJobComplete_loop env clusterID timeout deadline w)) =
        trace w @ replicate 0 ?c"
      by (subst WaitForJobComplete_loop.simps) simp
    then show ?thesis by blast
  next
    case True
    show ?thesis
    proof (cases "\<exists>jobs. r = Inr jobs \<and> length jobs \<noteq> 0 \<and> check_failed jobs = None \<and> \<not> b")
      case False
      then have "trace (snd (WaitForJobComplete_loop env clusterID timeout deadline w)) =
          trace w @ replicate (Suc 0) ?c"
        using True g sl t1 t2
        by (subst WaitForJobComplete_loop.simps) (auto split: sum.splits option.splits)
      then show ?thesis by blast
    next
      case ex: True
      then obtain jobs where r: "r = Inr jobs" and len: "length jobs \<noteq> 0"
        and cf: "check_failed jobs = None" and bF: "b = False"
        by auto
      from "1.IH" [OF True g [symmetric] r len cf sl [symmetric] bF]
      obtain n where n: "trace (snd (WaitForJobComplete_loop env clusterID timeout deadline w2)) =
          trace w2 @ replicate n ?c"
        by blast
      have "WaitForJobComplete_loop env clusterID timeout deadline w =
          WaitForJobComplete_loop env clusterID timeout deadline w2"
        using True g sl r len cf bF by (subst WaitForJobComplete_loop.simps) simp
      then have "trace (snd (WaitForJobComplete_loop env clusterID timeout deadline w)) =
          trace w @ replicate (Suc n) ?c"
        using n t1 t2 by (simp add: replicate_app_Cons_same)
      then show ?thesis by blast
    qed
  qed
qed

lemma WaitForJobComplete_trace:
  "\<exists>n. trace (snd (WaitForJobComplete env cid t w)) = trace w @ replicate n (GetJobsCall cid)"
  unfolding WaitForJobComplete_def by (rule WaitForJobComplete_loop_trace)

lemma polls_GetCluster: "polls cid (snd (GetCluster env c w)) = polls cid w"
  by (simp add: polls_def GetCluster_def sent_def)

lemma polls_tflog: "polls cid (tflog l m w) = polls cid w"
  by (simp add: polls_def tflog_def)


lemma polls_ConfigureWithRetry:
  "polls c (snd (ConfigureWithRetry env cid req maxWait w)) = polls c w"
proof -
  have r: "count_list (replicate n x) y = 0" if "x \<noteq> y" for n and x y :: call
    using that by (induction n) simp_all
  from ConfigureWithRetry_trace [of env cid req maxWait w] obtain n
    where "trace (snd (ConfigureWithRetry env cid req maxWait w)) =
      trace w @ replicate n (ConfigureCall cid req)"
    by blast
  then show ?thesis
    by (simp add: polls_def r)
qed

lemma firewall_never_polls:
  "(polls c (snd (clusterFirewallResource_Create env fp w)) = polls c w \<and>
    polls c (snd (clusterFirewallResource_Update env fp w)) = polls c w \<and>
    polls c (snd (clusterFirewallResource_Delete env fp w)) = polls c w)"
proof (intro conjI)
  show "polls c (snd (clusterFirewallResource_Create env fp w)) = polls c w"
    by (simp add: clusterFirewallResource_Create_def Let_def split_beta polls_ConfigureWithRetry
        polls_tflog split: sum.splits option.splits prod.splits)
  show "polls c (snd (clusterFirewallResource_Update env fp w)) = polls c w"
    by (simp add: clusterFirewallResource_Update_def Let_def split_beta polls_ConfigureWithRetry
        polls_tflog split: sum.splits option.splits prod.splits)
  show "polls c (snd (clusterFirewallResource_Delete env fp w)) = polls c w"
    by (simp add: clusterFirewallResource_Delete_def Let_def split_beta polls_ConfigureWithRetry
        polls_tflog split: sum.splits option.splits prod.splits)
qed

lemma count_list_replicate_same: "count_list (replicate n x) x = n"
  by (induction n) simp_all

lemma WaitForJobComplete_polls:
  assumes "0 < t"
  shows "polls cid w < polls cid (snd (WaitForJobComplete env cid t w))"
proof -
  let ?d = "clock w + t"
  obtain r w1 where g: "GetJobs env cid w = (r, w1)"
    by (cases "GetJobs env cid w")
  then have p1: "polls cid w1 = Suc (polls cid w)"
    by (auto simp: polls_def GetJobs_def sent_def)
  obtain b w2 where sl: "select_sleep env pollInterval w1 = (b, w2)"
    by (cases "select_sleep env pollInterval w1")
  then have p2: "polls cid w2 = polls cid w1"
    by (auto simp: polls_def select_sleep_def split: option.splits if_splits)
  from WaitForJobComplete_loop_trace [of env cid t ?d w2]
  obtain n where "trace (snd (WaitForJobComplete_loop env cid t ?d w2)) =
      trace w2 @ replicate n (GetJobsCall cid)"
    by blast
  then have p3: "polls cid (snd (WaitForJobComplete_loop env cid t ?d w2)) = polls cid w2 + n"
    by (simp add: polls_def count_list_replicate_same)
  have c: "clock w < ?d"
    using assms by simp
  show ?thesis
    unfolding WaitForJobComplete_def
    using c g sl p1 p2 p3
    by (subst WaitForJobComplete_loop.simps)
       (auto split: sum.splits option.splits bool.splits)
qed

lemma clusterUserResource_Create_job_wait:
  "(Atoi (ValueString (um_ClusterID up)) = Inr cid \<and>
    ConfigureWithRetry env cid (ConfigureRequest0\<lparr>req_Users := [ValueString (um_Username
      up)]\<rparr>) (2 * minute) (tflog Info ''Creating cluster user'' w) = (Inr resp, w1) \<longrightarrow>
      (resp_JobID resp \<le> 0 \<longrightarrow>
         polls cid (snd (clusterUserResource_Create env up w)) = polls cid w1 \<and>
         Diagnostics (fst (clusterUserResource_Create env up w)) = []) \<and>
      (0 < resp_JobID resp \<longrightarrow>
         polls cid w1 < polls cid (snd (clusterUserResource_Create env up w))) \<and>
      (0 < resp_JobID resp \<and> job_failure_seen env cid (5 * minute) w1 j \<longrightarrow>
         Diagnostics (fst (clusterUserResource_Create env up w)) =
           [AddError ''Error waiting for user creation''
              (Some (JobFailed (job_ID j) (job_JobType j) (job_ErrorMessage j)))] \<and>
         State (fst (clusterUserResource_Create env up w)) = Untouched))"
proof (intro impI, elim conjE)
  assume p: "Atoi (ValueString (um_ClusterID up)) = Inr cid"
    and c: "ConfigureWithRetry env cid (ConfigureRequest0\<lparr>req_Users := [ValueString
        (um_Username up)]\<rparr>) (2 * minute) (tflog Info ''Creating cluster user'' w) = (Inr
        resp, w1)"
  show "(resp_JobID resp \<le> 0 \<longrightarrow>
         polls cid (snd (clusterUserResource_Create env up w)) = polls cid w1 \<and>
         Diagnostics (fst (clusterUserResource_Create env up w)) = []) \<and>
      (0 < resp_JobID resp \<longrightarrow>
         polls cid w1 < polls cid (snd (clusterUserResource_Create env up w))) \<and>
      (0 < resp_JobID resp \<and> job_failure_seen env cid (5 * minute) w1 j \<longrightarrow>
         Diagnostics (fst (clusterUserResource_Create env up w)) =
           [AddError ''Error waiting for user creation''
              (Some (JobFailed (job_ID j) (job_JobType j) (job_ErrorMessage j)))] \<and>
         State (fst (clusterUserResource_Create env up w)) = Untouched)"
  proof (intro conjI impI)
    assume "resp_JobID resp \<le> 0"
    then have n: "\<not> 0 < resp_JobID resp"
      by simp
    show "polls cid (snd (clusterUserResource_Create env up w)) = polls cid w1"
      using p c n
      by (simp add: clusterUserResource_Create_def Let_def split_beta done_with_def polls_def
          GetCluster_def sent_def split: sum.splits option.splits)
    show "Diagnostics (fst (clusterUserResource_Create env up w)) = []"
      using p c n
      by (simp add: clusterUserResource_Create_def Let_def split_beta done_with_def polls_def
          GetCluster_def sent_def split: sum.splits option.splits)
  next
    assume pos: "0 < resp_JobID resp"
    obtain r w2 where wj: "WaitForJobComplete env cid (5 * minute) w1 = (r, w2)"
      by (cases "WaitForJobComplete env cid (5 * minute) w1")
    have "polls cid w1 < polls cid (snd (WaitForJobComplete env cid (5 * minute) w1))"
      by (rule WaitForJobComplete_polls) (simp add: minute_def second_def)
    then have lt: "polls cid w1 < polls cid w2"
      by (simp add: wj)
    show "polls cid w1 < polls cid (snd (clusterUserResource_Create env up w))"
      using p c pos wj lt
      by (simp add: clusterUserResource_Create_def Let_def split_beta polls_GetCluster polls_tflog
          split: sum.splits option.splits)
  next
    assume a: "0 < resp_JobID resp \<and> job_failure_seen env cid (5 * minute) w1 j"
    then have "fst (WaitForJobComplete env cid (5 * minute) w1) = Some (job_error j)"
      by (simp add: job_failure_seen_result)
    then obtain w2 where wj: "WaitForJobComplete env cid (5 * minute) w1 = (Some (job_error j), w2)"
      by (cases "WaitForJobComplete env cid (5 * minute) w1") auto
    from a have pos: "0 < resp_JobID resp"
      by simp
    from p c pos wj show "Diagnostics (fst (clusterUserResource_Create env up w)) =
           [AddError ''Error waiting for user creation''
              (Some (JobFailed (job_ID j) (job_JobType j) (job_ErrorMessage j)))]"
      by (simp add: clusterUserResource_Create_def failure_def job_error_def)
    from p c pos wj show "State (fst (clusterUserResource_Create env up w)) = Untouched"
      by (simp add: clusterUserResource_Create_def failure_def)
  qed
qed

lemma clusterUserResource_Delete_job_wait:
  "(parseUserID (ValueString (um_ID ust)) = Inr (cid, name) \<and>
    ConfigureWithRetry env cid (ConfigureRequest0\<lparr>req_DeleteUsers := [name]\<rparr>) (2 *
      minute) (tflog Info ''Deleting cluster user'' w) = (Inr resp, w1) \<longrightarrow>
      (resp_JobID resp \<le> 0 \<longrightarrow>
         polls cid (snd (clusterUserResource_Delete env ust w)) = polls cid w1 \<and>
         Diagnostics (fst (clusterUserResource_Delete env ust w)) = []) \<and>
      (0 < resp_JobID resp \<longrightarrow>
         polls cid w1 < polls cid (snd (clusterUserResource_Delete env ust w))) \<and>
      (0 < resp_JobID resp \<and> job_failure_seen env cid (5 * minute) w1 j \<longrightarrow>
         Diagnostics (fst (clusterUserResource_Delete env ust w)) =
           [AddError ''Error waiting for user deletion''
              (Some (JobFailed (job_ID j) (job_JobType j) (job_ErrorMessage j)))] \<and>
         State (fst (clusterUserResource_Delete env ust w)) = Untouched))"
proof (intro impI, elim conjE)
  assume p: "parseUserID (ValueString (um_ID ust)) = Inr (cid, name)"
    and c: "ConfigureWithRetry env cid (ConfigureRequest0\<lparr>req_DeleteUsers := [name]\<rparr>) (2
        * minute) (tflog Info ''Deleting cluster user'' w) = (Inr resp, w1)"
  show "(resp_JobID resp \<le> 0 \<longrightarrow>
         polls cid (snd (clusterUserResource_Delete env ust w)) = polls cid w1 \<and>
         Diagnostics (fst (clusterUserResource_Delete env ust w)) = []) \<and>
      (0 < resp_JobID resp \<longrightarrow>
         polls cid w1 < polls cid (snd (clusterUserResource_Delete env ust w))) \<and>
      (0 < resp_JobID resp \<and> job_failure_seen env cid (5 * minute) w1 j \<longrightarrow>
         Diagnostics (fst (clusterUserResource_Delete env ust w)) =
           [AddError ''Error waiting for user deletion''
              (Some (JobFailed (job_ID j) (job_JobType j) (job_ErrorMessage j)))] \<and>
         State (fst (clusterUserResource_Delete env ust w)) = Untouched)"
  proof (intro conjI impI)
    assume "resp_JobID resp \<le> 0"
    then have n: "\<not> 0 < resp_JobID resp"
      by simp
    show "polls cid (snd (clusterUserResource_Delete env ust w)) = polls cid w1"
      using p c n
      by (simp add: clusterUserResource_Delete_def Let_def split_beta done_with_def polls_def
          GetCluster_def sent_def split: sum.splits option.splits)
    show "Diagnostics (fst (clusterUserResource_Delete env ust w)) = []"
      using p c n
      by (simp add: clusterUserResource_Delete_def Let_def split_beta done_with_def polls_def
          GetCluster_def sent_def split: sum.splits option.splits)
  next
    assume pos: "0 < resp_JobID resp"
    obtain r w2 where wj: "WaitForJobComplete env cid (5 * minute) w1 = (r, w2)"
      by (cases "WaitForJobComplete env cid (5 * minute) w1")
    have "polls cid w1 < polls cid (snd (WaitForJobComplete env cid (5 * minute) w1))"
      by (rule WaitForJobComplete_polls) (simp add: minute_def second_def)
    then have lt: "polls cid w1 < polls cid w2"
      by (simp add: wj)
    show "polls cid w1 < polls cid (snd (clusterUserResource_Delete env ust w))"
      using p c pos wj lt
      by (simp add: clusterUserResource_Delete_def Let_def split_beta polls_GetCluster polls_tflog
          split: sum.splits option.splits)
  next
    assume a: "0 < resp_JobID resp \<and> job_failure_seen env cid (5 * minute) w1 j"
    then have "fst (WaitForJobComplete env cid (5 * minute) w1) = Some (job_error j)"
      by (simp add: job_failure_seen_result)
    then obtain w2 where wj: "WaitForJobComplete env cid (5 * minute) w1 = (Some (job_error j), w2)"
      by (cases "WaitForJobComplete env cid (5 * minute) w1") auto
    from a have pos: "0 < resp_JobID resp"
      by simp
    from p c pos wj show "Diagnostics (fst (clusterUserResource_Delete env ust w)) =
           [AddError ''Error waiting for user deletion''
              (Some (JobFailed (job_ID j) (job_JobType j) (job_ErrorMessage j)))]"
      by (simp add: clusterUserResource_Delete_def failure_def job_error_def)
    from p c pos wj show "State (fst (clusterUserResource_Delete env ust w)) = Untouched"
      by (simp add: clusterUserResource_Delete_def failure_def)
  qed
qed

lemma clusterDatabaseResource_Create_job_wait:
  "(Atoi (ValueString (dm_ClusterID dp)) = Inr cid \<and>
    ConfigureWithRetry env cid (ConfigureRequest0\<lparr>req_Databases := [\<lparr>dbreq_Name =
      ValueString (dm_Name dp), dbreq_Owner = (if \<not> IsNull (dm_Owner dp) \<and> \<not>
      IsUnknown (dm_Owner dp) then ValueString (dm_Owner dp) else [])\<rparr>]\<rparr>) (2 *
      minute) (tflog Info ''Creating cluster database'' w) = (Inr resp, w1) \<longrightarrow>
      (resp_JobID resp \<le> 0 \<longrightarrow>
         polls cid (snd (clusterDatabaseResource_Create env dp w)) = polls cid w1 \<and>
         Diagnostics (fst (clusterDatabaseResource_Create env dp w)) = []) \<and>
      (0 < resp_JobID resp \<longrightarrow>
         polls cid w1 < polls cid (snd (clusterDatabaseResource_Create env dp w))) \<and>
      (0 < resp_JobID resp \<and> job_failure_seen env cid (5 * minute) w1 j \<longrightarrow>
         Diagnostics (fst (clusterDatabaseResource_Create env dp w)) =
           [AddError ''Error waiting for database creation''
              (Some (JobFailed (job_ID j) (job_JobType j) (job_ErrorMessage j)))] \<and>
         State (fst (clusterDatabaseResource_Create env dp w)) = Untouched))"
proof (intro impI, elim conjE)
  assume p: "Atoi (ValueString (dm_ClusterID dp)) = Inr cid"
    and c: "ConfigureWithRetry env cid (ConfigureRequest0\<lparr>req_Databases := [\<lparr>dbreq_Name
        = ValueString (dm_Name dp), dbreq_Owner = (if \<not> IsNull (dm_Owner dp) \<and> \<not>
        IsUnknown (dm_Owner dp) then ValueString (dm_Owner dp) else [])\<rparr>]\<rparr>) (2 *
        minute) (tflog Info ''Creating cluster database'' w) = (Inr resp, w1)"
  show "(resp_JobID resp \<le> 0 \<longrightarrow>
         polls cid (snd (clusterDatabaseResource_Create env dp w)) = polls cid w1 \<and>
         Diagnostics (fst (clusterDatabaseResource_Create env dp w)) = []) \<and>
      (0 < resp_JobID resp \<longrightarrow>
         polls cid w1 < polls cid (snd (clusterDatabaseResource_Create env dp w))) \<and>
      (0 < resp_JobID resp \<and> job_failure_seen env cid (5 * minute) w1 j \<longrightarrow>
         Diagnostics (fst (clusterDatabaseResource_Create env dp w)) =
           [AddError ''Error waiting for database creation''
              (Some (JobFailed (job_ID j) (job_JobType j) (job_ErrorMessage j)))] \<and>
         State (fst (clusterDatabaseResource_Create env dp w)) = Untouched)"
  proof (intro conjI impI)
    assume "resp_JobID resp \<le> 0"
    then have n: "\<not> 0 < resp_JobID resp"
      by simp
    show "polls cid (snd (clusterDatabaseResource_Create env dp w)) = polls cid w1"
      using p c n
      by (simp add: clusterDatabaseResource_Create_def Let_def split_beta done_with_def polls_def
          GetCluster_def sent_def split: sum.splits option.splits)
    show "Diagnostics (fst (clusterDatabaseResource_Create env dp w)) = []"
      using p c n
      by (simp add: clusterDatabaseResource_Create_def Let_def split_beta done_with_def polls_def
          GetCluster_def sent_def split: sum.splits option.splits)
  next
    assume pos: "0 < resp_JobID resp"
    obtain r w2 where wj: "WaitForJobComplete env cid (5 * minute) w1 = (r, w2)"
      by (cases "WaitForJobComplete env cid (5 * minute) w1")
    have "polls cid w1 < polls cid (snd (WaitForJobComplete env cid (5 * minute) w1))"
      by (rule WaitForJobComplete_polls) (simp add: minute_def second_def)
    then have lt: "polls cid w1 < polls cid w2"
      by (simp add: wj)
    show "polls cid w1 < polls cid (snd (clusterDatabaseResource_Create env dp w))"
      using p c pos wj lt
      by (simp add: clusterDatabaseResource_Create_def Let_def split_beta polls_GetCluster polls_tflog
          split: sum.splits option.splits)
  next
    assume a: "0 < resp_JobID resp \<and> job_failure_seen env cid (5 * minute) w1 j"
    then have "fst (WaitForJobComplete env cid (5 * minute) w1) = Some (job_error j)"
      by (simp add: job_failure_seen_result)
    then obtain w2 where wj: "WaitForJobComplete env cid (5 * minute) w1 = (Some (job_error j), w2)"
      by (cases "WaitForJobComplete env cid (5 * minute) w1") auto
    from a have pos: "0 < resp_JobID resp"
      by simp
    from p c pos wj show "Diagnostics (fst (clusterDatabaseResource_Create env dp w)) =
           [AddError ''Error waiting for database creation''
              (Some (JobFailed (job_ID j) (job_JobType j) (job_ErrorMessage j)))]"
      by (simp add: clusterDatabaseResource_Create_def failure_def job_error_def)
    from p c pos wj show "State (fst (clusterDatabaseResource_Create env dp w)) = Untouched"
      by (simp add: clusterDatabaseResource_Create_def failure_def)
  qed
qed

lemma clusterDatabaseResource_Update_job_wait:
  "(Atoi (ValueString (dm_ClusterID dp)) = Inr cid \<and>
    ConfigureWithRetry env cid (ConfigureRequest0\<lparr>req_Databases := [\<lparr>dbreq_Name =
      ValueString (dm_Name dp), dbreq_Owner = ValueString (dm_Owner dp)\<rparr>]\<rparr>) (2 *
      minute) w = (Inr resp, w1) \<longrightarrow>
      (resp_JobID resp \<le> 0 \<longrightarrow>
         polls cid (snd (clusterDatabaseResource_Update env dp w)) = polls cid w1 \<and>
         Diagnostics (fst (clusterDatabaseResource_Update env dp w)) = []) \<and>
      (0 < resp_JobID resp \<longrightarrow>
         polls cid w1 < polls cid (snd (clusterDatabaseResource_Update env dp w))) \<and>
      (0 < resp_JobID resp \<and> job_failure_seen env cid (5 * minute) w1 j \<longrightarrow>
         Diagnostics (fst (clusterDatabaseResource_Update env dp w)) =
           [AddError ''Error waiting for database update''
              (Some (JobFailed (job_ID j) (job_JobType j) (job_ErrorMessage j)))] \<and>
         State (fst (clusterDatabaseResource_Update env dp w)) = Untouched))"
proof (intro impI, elim conjE)
  assume p: "Atoi (ValueString (dm_ClusterID dp)) = Inr cid"
    and c: "ConfigureWithRetry env cid (ConfigureRequest0\<lparr>req_Databases := [\<lparr>dbreq_Name
        = ValueString (dm_Name dp), dbreq_Owner = ValueString (dm_Owner dp)\<rparr>]\<rparr>) (2 *
        minute) w = (Inr resp, w1)"
  show "(resp_JobID resp \<le> 0 \<longrightarrow>
         polls cid (snd (clusterDatabaseResource_Update env dp w)) = polls cid w1 \<and>
         Diagnostics (fst (clusterDatabaseResource_Update env dp w)) = []) \<and>
      (0 < resp_JobID resp \<longrightarrow>
         polls cid w1 < polls cid (snd (clusterDatabaseResource_Update env dp w))) \<and>
      (0 < resp_JobID resp \<and> job_failure_seen env cid (5 * minute) w1 j \<longrightarrow>
         Diagnostics (fst (clusterDatabaseResource_Update env dp w)) =
           [AddError ''Error waiting for database update''
              (Some (JobFailed (job_ID j) (job_JobType j) (job_ErrorMessage j)))] \<and>
         State (fst (clusterDatabaseResource_Update env dp w)) = Untouched)"
  proof (intro conjI impI)
    assume "resp_JobID resp \<le> 0"
    then have n: "\<not> 0 < resp_JobID resp"
      by simp
    show "polls cid (snd (clusterDatabaseResource_Update env dp w)) = polls cid w1"
      using p c n
      by (simp add: clusterDatabaseResource_Update_def Let_def split_beta done_with_def polls_def
          GetCluster_def sent_def split: sum.splits option.splits)
    show "Diagnostics (fst (clusterDatabaseResource_Update env dp w)) = []"
      using p c n
      by (simp add: clusterDatabaseResource_Update_def Let_def split_beta done_with_def polls_def
          GetCluster_def sent_def split: sum.splits option.splits)
  next
    assume pos: "0 < resp_JobID resp"
    obtain r w2 where wj: "WaitForJobComplete env cid (5 * minute) w1 = (r, w2)"
      by (cases "WaitForJobComplete env cid (5 * minute) w1")
    have "polls cid w1 < polls cid (snd (WaitForJobComplete env cid (5 * minute) w1))"
      by (rule WaitForJobComplete_polls) (simp add: minute_def second_def)
    then have lt: "polls cid w1 < polls cid w2"
      by (simp add: wj)
    show "polls cid w1 < polls cid (snd (clusterDatabaseResource_Update env dp w))"
      using p c pos wj lt
      by (simp add: clusterDatabaseResource_Update_def Let_def split_beta polls_GetCluster polls_tflog
          split: sum.splits option.splits)
  next
    assume a: "0 < resp_JobID resp \<and> job_failure_seen env cid (5 * minute) w1 j"
    then have "fst (WaitForJobComplete env cid (5 * minute) w1) = Some (job_error j)"
      by (simp add: job_failure_seen_result)
    then obtain w2 where wj: "WaitForJobComplete env cid (5 * minute) w1 = (Some (job_error j), w2)"
      by (cases "WaitForJobComplete env cid (5 * minute) w1") auto
    from a have pos: "0 < resp_JobID resp"
      by simp
    from p c pos wj show "Diagnostics (fst (clusterDatabaseResource_Update env dp w)) =
           [AddError ''Error waiting for database update''
              (Some (JobFailed (job_ID j) (job_JobType j) (job_ErrorMessage j)))]"
      by (simp add: clusterDatabaseResource_Update_def failure_def job_error_def)
    from p c pos wj show "State (fst (clusterDatabaseResource_Update env dp w)) = Untouched"
      by (simp add: clusterDatabaseResource_Update_def failure_def)
  qed
qed

lemma clusterDatabaseResource_Delete_job_wait:
  "(parseDatabaseID (ValueString (dm_ID dst)) = Inr (cid, name) \<and>
    ConfigureWithRetry env cid (ConfigureRequest0\<lparr>req_DeleteDatabases := [name]\<rparr>)
      (2 * minute) (tflog Info ''Deleting cluster database'' w) = (Inr resp, w1) \<longrightarrow>
      (resp_JobID resp \<le> 0 \<longrightarrow>
         polls cid (snd (clusterDatabaseResource_Delete env dst w)) = polls cid w1 \<and>
         Diagnostics (fst (clusterDatabaseResource_Delete env dst w)) = []) \<and>
      (0 < resp_JobID resp \<longrightarrow>
         polls cid w1 < polls cid (snd (clusterDatabaseResource_Delete env dst w))) \<and>
      (0 < resp_JobID resp \<and> job_failure_seen env cid (5 * minute) w1 j \<longrightarrow>
         Diagnostics (fst (clusterDatabaseResource_Delete env dst w)) =
           [AddError ''Error waiting for database deletion''
              (Some (JobFailed (job_ID j) (job_JobType j) (job_ErrorMessage j)))] \<and>
         State (fst (clusterDatabaseResource_Delete env dst w)) = Untouched))"
proof (intro impI, elim conjE)
  assume p: "parseDatabaseID (ValueString (dm_ID dst)) = Inr (cid, name)"
    and c: "ConfigureWithRetry env cid (ConfigureRequest0\<lparr>req_DeleteDatabases :=
        [name]\<rparr>) (2 * minute) (tflog Info ''Deleting cluster database'' w) = (Inr resp, w1)"
  show "(resp_JobID resp \<le> 0 \<longrightarrow>
         polls cid (snd (clusterDatabaseResource_Delete env dst w)) = polls cid w1 \<and>
         Diagnostics (fst (clusterDatabaseResource_Delete env dst w)) = []) \<and>
      (0 < resp_JobID resp \<longrightarrow>
         polls cid w1 < polls cid (snd (clusterDatabaseResource_Delete env dst w))) \<and>
      (0 < resp_JobID resp \<and> job_failure_seen env cid (5 * minute) w1 j \<longrightarrow>
         Diagnostics (fst (clusterDatabaseResource_Delete env dst w)) =
           [AddError ''Error waiting for database deletion''
              (Some (JobFailed (job_ID j) (job_JobType j) (job_ErrorMessage j)))] \<and>
         State (fst (clusterDatabaseResource_Delete env dst w)) = Untouched)"
  proof (intro conjI impI)
    assume "resp_JobID resp \<le> 0"
    then have n: "\<not> 0 < resp_JobID resp"
      by simp
    show "polls cid (snd (clusterDatabaseResource_Delete env dst w)) = polls cid w1"
      using p c n
      by (simp add: clusterDatabaseResource_Delete_def Let_def split_beta done_with_def polls_def
          GetCluster_def sent_def split: sum.splits option.splits)
    show "Diagnostics (fst (clusterDatabaseResource_Delete env dst w)) = []"
      using p c n
      by (simp add: clusterDatabaseResource_Delete_def Let_def split_beta done_with_def polls_def
          GetCluster_def sent_def split: sum.splits option.splits)
  next
    assume pos: "0 < resp_JobID resp"
    obtain r w2 where wj: "WaitForJobComplete env cid (5 * minute) w1 = (r, w2)"
      by (cases "WaitForJobComplete env cid (5 * minute) w1")
    have "polls cid w1 < polls cid (snd (WaitForJobComplete env cid (5 * minute) w1))"
      by (rule WaitForJobComplete_polls) (simp add: minute_def second_def)
    then have lt: "polls cid w1 < polls cid w2"
      by (simp add: wj)
    show "polls cid w1 < polls cid (snd (clusterDatabaseResource_Delete env dst w))"
      using p c pos wj lt
      by (simp add: clusterDatabaseResource_Delete_def Let_def split_beta polls_GetCluster polls_tflog
          split: sum.splits option.splits)
  next
    assume a: "0 < resp_JobID resp \<and> job_failure_seen env cid (5 * minute) w1 j"
    then have "fst (WaitForJobComplete env cid (5 * minute) w1) = Some (job_error j)"
      by (simp add: job_failure_seen_result)
    then obtain w2 where wj: "WaitForJobComplete env cid (5 * minute) w1 = (Some (job_error j), w2)"
      by (cases "WaitForJobComplete env cid (5 * minute) w1") auto
    from a have pos: "0 < resp_JobID resp"
      by simp
    from p c pos wj show "Diagnostics (fst (clusterDatabaseResource_Delete env dst w)) =
           [AddError ''Error waiting for database deletion''
              (Some (JobFailed (job_ID j) (job_JobType j) (job_ErrorMessage j)))]"
      by (simp add: clusterDatabaseResource_Delete_def failure_def job_error_def)
    from p c pos wj show "State (fst (clusterDatabaseResource_Delete env dst w)) = Untouched"
      by (simp add: clusterDatabaseResource_Delete_def failure_def)
  qed
qed

lemma clusterExtensionResource_Create_job_wait:
  "(Atoi (ValueString (em_ClusterID ep)) = Inr cid \<and>
    ConfigureWithRetry env cid (ConfigureRequest0\<lparr>req_Extensions :=
      [\<lparr>extreq_Extension = ValueString (em_Extension ep), extreq_Database = (if \<not>
      IsNull (em_Database ep) \<and> \<not> IsUnknown (em_Database ep) then ValueString
      (em_Database ep) else [])\<rparr>]\<rparr>) (2 * minute) (tflog Info
      ''Creating cluster extension'' w) = (Inr resp, w1) \<longrightarrow>
      (resp_JobID resp \<le> 0 \<longrightarrow>
         polls cid (snd (clusterExtensionResource_Create env ep w)) = polls cid w1 \<and>
         Diagnostics (fst (clusterExtensionResource_Create env ep w)) = []) \<and>
      (0 < resp_JobID resp \<longrightarrow>
         polls cid w1 < polls cid (snd (clusterExtensionResource_Create env ep w))) \<and>
      (0 < resp_JobID resp \<and> job_failure_seen env cid (5 * minute) w1 j \<longrightarrow>
         Diagnostics (fst (clusterExtensionResource_Create env ep w)) =
           [AddError ''Error waiting for extension installation''
              (Some (JobFailed (job_ID j) (job_JobType j) (job_ErrorMessage j)))] \<and>
         State (fst (clusterExtensionResource_Create env ep w)) = Untouched))"
proof (intro impI, elim conjE)
  assume p: "Atoi (ValueString (em_ClusterID ep)) = Inr cid"
    and c: "ConfigureWithRetry env cid (ConfigureRequest0\<lparr>req_Extensions :=
        [\<lparr>extreq_Extension = ValueString (em_Extension ep), extreq_Database = (if \<not>
        IsNull (em_Database ep) \<and> \<not> IsUnknown (em_Database ep) then ValueString
        (em_Database ep) else [])\<rparr>]\<rparr>) (2 * minute) (tflog Info
        ''Creating cluster extension'' w) = (Inr resp, w1)"
  show "(resp_JobID resp \<le> 0 \<longrightarrow>
         polls cid (snd (clusterExtensionResource_Create env ep w)) = polls cid w1 \<and>
         Diagnostics (fst (clusterExtensionResource_Create env ep w)) = []) \<and>
      (0 < resp_JobID resp \<longrightarrow>
         polls cid w1 < polls cid (snd (clusterExtensionResource_Create env ep w))) \<and>
      (0 < resp_JobID resp \<and> job_failure_seen env cid (5 * minute) w1 j \<longrightarrow>
         Diagnostics (fst (clusterExtensionResource_Create env ep w)) =
           [AddError ''Error waiting for extension installation''
              (Some (JobFailed (job_ID j) (job_JobType j) (job_ErrorMessage j)))] \<and>
         State (fst (clusterExtensionResource_Create env ep w)) = Untouched)"
  proof (intro conjI impI)
    assume "resp_JobID resp \<le> 0"
    then have n: "\<not> 0 < resp_JobID resp"
      by simp
    show "polls cid (snd (clusterExtensionResource_Create env ep w)) = polls cid w1"
      using p c n
      by (simp add: clusterExtensionResource_Create_def Let_def split_beta done_with_def polls_def
          GetCluster_def sent_def split: sum.splits option.splits)
    show "Diagnostics (fst (clusterExtensionResource_Create env ep w)) = []"
      using p c n
      by (simp add: clusterExtensionResource_Create_def Let_def split_beta done_with_def polls_def
          GetCluster_def sent_def split: sum.splits option.splits)
  next
    assume pos: "0 < resp_JobID resp"
    obtain r w2 where wj: "WaitForJobComplete env cid (5 * minute) w1 = (r, w2)"
      by (cases "WaitForJobComplete env cid (5 * minute) w1")
    have "polls cid w1 < polls cid (snd (WaitForJobComplete env cid (5 * minute) w1))"
      by (rule WaitForJobComplete_polls) (simp add: minute_def second_def)
    then have lt: "polls cid w1 < polls cid w2"
      by (simp add: wj)
    show "polls cid w1 < polls cid (snd (clusterExtensionResource_Create env ep w))"
      using p c pos wj lt
      by (simp add: clusterExtensionResource_Create_def Let_def split_beta polls_GetCluster polls_tflog
          split: sum.splits option.splits)
  next
    assume a: "0 < resp_JobID resp \<and> job_failure_seen env cid (5 * minute) w1 j"
    then have "fst (WaitForJobComplete env cid (5 * minute) w1) = Some (job_error j)"
      by (simp add: job_failure_seen_result)
    then obtain w2 where wj: "WaitForJobComplete env cid (5 * minute) w1 = (Some (job_error j), w2)"
      by (cases "WaitForJobComplete env cid (5 * minute) w1") auto
    from a have pos: "0 < resp_JobID resp"
      by simp
    from p c pos wj show "Diagnostics (fst (clusterExtensionResource_Create env ep w)) =
           [AddError ''Error waiting for extension installation''
              (Some (JobFailed (job_ID j) (job_JobType j) (job_ErrorMessage j)))]"
      by (simp add: clusterExtensionResource_Create_def failure_def job_error_def)
    from p c pos wj show "State (fst (clusterExtensionResource_Create env ep w)) = Untouched"
      by (simp add: clusterExtensionResource_Create_def failure_def)
  qed
qed

lemma clusterGrantResource_Create_job_wait:
  "(Atoi (ValueString (gm_ClusterID gp)) = Inr cid \<and>
    ConfigureWithRetry env cid (ConfigureRequest0\<lparr>req_Grants := [\<lparr>grreq_Username =
      ValueString (gm_Username gp), grreq_Database = ValueString (gm_Database gp), grreq_Access =
      ValueString (gm_Access gp)\<rparr>]\<rparr>) (2 * minute) (tflog Info
      ''Creating cluster grant'' w) = (Inr resp, w1) \<longrightarrow>
      (resp_JobID resp \<le> 0 \<longrightarrow>
         polls cid (snd (clusterGrantResource_Create env gp w)) = polls cid w1 \<and>
         Diagnostics (fst (clusterGrantResource_Create env gp w)) = []) \<and>
      (0 < resp_JobID resp \<longrightarrow>
         polls cid w1 < polls cid (snd (clusterGrantResource_Create env gp w))) \<and>
      (0 < resp_JobID resp \<and> job_failure_seen env cid (5 * minute) w1 j \<longrightarrow>
         Diagnostics (fst (clusterGrantResource_Create env gp w)) =
           [AddError ''Error waiting for grant creation''
              (Some (JobFailed (job_ID j) (job_JobType j) (job_ErrorMessage j)))] \<and>
         State (fst (clusterGrantResource_Create env gp w)) = Untouched))"
proof (intro impI, elim conjE)
  assume p: "Atoi (ValueString (gm_ClusterID gp)) = Inr cid"
    and c: "ConfigureWithRetry env cid (ConfigureRequest0\<lparr>req_Grants := [\<lparr>grreq_Username
        = ValueString (gm_Username gp), grreq_Database = ValueString (gm_Database gp),
        grreq_Access = ValueString (gm_Access gp)\<rparr>]\<rparr>) (2 * minute) (tflog Info
        ''Creating cluster grant'' w) = (Inr resp, w1)"
  show "(resp_JobID resp \<le> 0 \<longrightarrow>
         polls cid (snd (clusterGrantResource_Create env gp w)) = polls cid w1 \<and>
         Diagnostics (fst (clusterGrantResource_Create env gp w)) = []) \<and>
      (0 < resp_JobID resp \<longrightarrow>
         polls cid w1 < polls cid (snd (clusterGrantResource_Create env gp w))) \<and>
      (0 < resp_JobID resp \<and> job_failure_seen env cid (5 * minute) w1 j \<longrightarrow>
         Diagnostics (fst (clusterGrantResource_Create env gp w)) =
           [AddError ''Error waiting for grant creation''
              (Some (JobFailed (job_ID j) (job_JobType j) (job_ErrorMessage j)))] \<and>
         State (fst (clusterGrantResource_Create env gp w)) = Untouched)"
  proof (intro conjI impI)
    assume "resp_JobID resp \<le> 0"
    then have n: "\<not> 0 < resp_JobID resp"
      by simp
    show "polls cid (snd (clusterGrantResource_Create env gp w)) = polls cid w1"
      using p c n
      by (simp add: clusterGrantResource_Create_def Let_def split_beta done_with_def polls_def
          GetCluster_def sent_def split: sum.splits option.splits)
    show "Diagnostics (fst (clusterGrantResource_Create env gp w)) = []"
      using p c n
      by (simp add: clusterGrantResource_Create_def Let_def split_beta done_with_def polls_def
          GetCluster_def sent_def split: sum.splits option.splits)
  next
    assume pos: "0 < resp_JobID resp"
    obtain r w2 where wj: "WaitForJobComplete env cid (5 * minute) w1 = (r, w2)"
      by (cases "WaitForJobComplete env cid (5 * minute) w1")
    have "polls cid w1 < polls cid (snd (WaitForJobComplete env cid (5 * minute) w1))"
      by (rule WaitForJobComplete_polls) (simp add: minute_def second_def)
    then have lt: "polls cid w1 < polls cid w2"
      by (simp add: wj)
    show "polls cid w1 < polls cid (snd (clusterGrantResource_Create env gp w))"
      using p c pos wj lt
      by (simp add: clusterGrantResource_Create_def Let_def split_beta polls_GetCluster polls_tflog
          split: sum.splits option.splits)
  next
    assume a: "0 < resp_JobID resp \<and> job_failure_seen env cid (5 * minute) w1 j"
    then have "fst (WaitForJobComplete env cid (5 * minute) w1) = Some (job_error j)"
      by (simp add: job_failure_seen_result)
    then obtain w2 where wj: "WaitForJobComplete env cid (5 * minute) w1 = (Some (job_error j), w2)"
      by (cases "WaitForJobComplete env cid (5 * minute) w1") auto
    from a have pos: "0 < resp_JobID resp"
      by simp
    from p c pos wj show "Diagnostics (fst (clusterGrantResource_Create env gp w)) =
           [AddError ''Error waiting for grant creation''
              (Some (JobFailed (job_ID j) (job_JobType j) (job_ErrorMessage j)))]"
      by (simp add: clusterGrantResource_Create_def failure_def job_error_def)
    from p c pos wj show "State (fst (clusterGrantResource_Create env gp w)) = Untouched"
      by (simp add: clusterGrantResource_Create_def failure_def)
  qed
qed

lemma clusterGrantResource_Update_job_wait:
  "(Atoi (ValueString (gm_ClusterID gp)) = Inr cid \<and>
    ConfigureWithRetry env cid (ConfigureRequest0\<lparr>req_Grants := [\<lparr>grreq_Username =
      ValueString (gm_Username gp), grreq_Database = ValueString (gm_Database gp), grreq_Access =
      ValueString (gm_Access gp)\<rparr>]\<rparr>) (2 * minute) w = (Inr resp, w1) \<longrightarrow>
      (resp_JobID resp \<le> 0 \<longrightarrow>
         polls cid (snd (clusterGrantResource_Update env gp w)) = polls cid w1 \<and>
         Diagnostics (fst (clusterGrantResource_Update env gp w)) = []) \<and>
      (0 < resp_JobID resp \<longrightarrow>
         polls cid w1 < polls cid (snd (clusterGrantResource_Update env gp w))) \<and>
      (0 < resp_JobID resp \<and> job_failure_seen env cid (5 * minute) w1 j \<longrightarrow>
         Diagnostics (fst (clusterGrantResource_Update env gp w)) =
           [AddError ''Error waiting for grant update''
              (Some (JobFailed (job_ID j) (job_JobType j) (job_ErrorMessage j)))] \<and>
         State (fst (clusterGrantResource_Update env gp w)) = Untouched))"
proof (intro impI, elim conjE)
  assume p: "Atoi (ValueString (gm_ClusterID gp)) = Inr cid"
    and c: "ConfigureWithRetry env cid (ConfigureRequest0\<lparr>req_Grants := [\<lparr>grreq_Username
        = ValueString (gm_Username gp), grreq_Database = ValueString (gm_Database gp),
        grreq_Access = ValueString (gm_Access gp)\<rparr>]\<rparr>) (2 * minute) w = (Inr resp,
        w1)"
  show "(resp_JobID resp \<le> 0 \<longrightarrow>
         polls cid (snd (clusterGrantResource_Update env gp w)) = polls cid w1 \<and>
         Diagnostics (fst (clusterGrantResource_Update env gp w)) = []) \<and>
      (0 < resp_JobID resp \<longrightarrow>
         polls cid w1 < polls cid (snd (clusterGrantResource_Update env gp w))) \<and>
      (0 < resp_JobID resp \<and> job_failure_seen env cid (5 * minute) w1 j \<longrightarrow>
         Diagnostics (fst (clusterGrantResource_Update env gp w)) =
           [AddError ''Error waiting for grant update''
              (Some (JobFailed (job_ID j) (job_JobType j) (job_ErrorMessage j)))] \<and>
         State (fst (clusterGrantResource_Update env gp w)) = Untouched)"
  proof (intro conjI impI)
    assume "resp_JobID resp \<le> 0"
    then have n: "\<not> 0 < resp_JobID resp"
      by simp
    show "polls cid (snd (clusterGrantResource_Update env gp w)) = polls cid w1"
      using p c n
      by (simp add: clusterGrantResource_Update_def Let_def split_beta done_with_def polls_def
          GetCluster_def sent_def split: sum.splits option.splits)
    show "Diagnostics (fst (clusterGrantResource_Update env gp w)) = []"
      using p c n
      by (simp add: clusterGrantResource_Update_def Let_def split_beta done_with_def polls_def
          GetCluster_def sent_def split: sum.splits option.splits)
  next
    assume pos: "0 < resp_JobID resp"
    obtain r w2 where wj: "WaitForJobComplete env cid (5 * minute) w1 = (r, w2)"
      by (cases "WaitForJobComplete env cid (5 * minute) w1")
    have "polls cid w1 < polls cid (snd (WaitForJobComplete env cid (5 * minute) w1))"
      by (rule WaitForJobComplete_polls) (simp add: minute_def second_def)
    then have lt: "polls cid w1 < polls cid w2"
      by (simp add: wj)
    show "polls cid w1 < polls cid (snd (clusterGrantResource_Update env gp w))"
      using p c pos wj lt
      by (simp add: clusterGrantResource_Update_def Let_def split_beta polls_GetCluster polls_tflog
          split: sum.splits option.splits)
  next
    assume a: "0 < resp_JobID resp \<and> job_failure_seen env cid (5 * minute) w1 j"
    then have "fst (WaitForJobComplete env cid (5 * minute) w1) = Some (job_error j)"
      by (simp add: job_failure_seen_result)
    then obtain w2 where wj: "WaitForJobComplete env cid (5 * minute) w1 = (Some (job_error j), w2)"
      by (cases "WaitForJobComplete env cid (5 * minute) w1") auto
    from a have pos: "0 < resp_JobID resp"
      by simp
    from p c pos wj show "Diagnostics (fst (clusterGrantResource_Update env gp w)) =
           [AddError ''Error waiting for grant update''
              (Some (JobFailed (job_ID j) (job_JobType j) (job_ErrorMessage j)))]"
      by (simp add: clusterGrantResource_Update_def failure_def job_error_def)
    from p c pos wj show "State (fst (clusterGrantResource_Update env gp w)) = Untouched"
      by (simp add: clusterGrantResource_Update_def failure_def)
  qed
qed

lemma clusterFirewallResource_Create_ignores_job:
  "(Atoi (ValueString (fm_ClusterID fp)) = Inr cid \<and> fm_SourceIPs fp = Some ips \<and>
    ConfigureWithRetry env cid (ConfigureRequest0\<lparr>req_SourceIPs := ips, req_ReplaceIPs :=
      True\<rparr>) (2 * minute) (tflog Info ''Setting cluster firewall rules'' w) = (Inr resp,
      w1) \<longrightarrow>
      Diagnostics (fst (clusterFirewallResource_Create env fp w)) = [] \<and>
      snd (clusterFirewallResource_Create env fp w) = w1)"
  by (simp add: clusterFirewallResource_Create_def done_with_def)

lemma clusterFirewallResource_Update_ignores_job:
  "(Atoi (ValueString (fm_ClusterID fp)) = Inr cid \<and> fm_SourceIPs fp = Some ips \<and>
    ConfigureWithRetry env cid (ConfigureRequest0\<lparr>req_SourceIPs := ips, req_ReplaceIPs :=
      True\<rparr>) (2 * minute) (tflog Info ''Updating cluster firewall rules'' w) = (Inr resp,
      w1) \<longrightarrow>
      Diagnostics (fst (clusterFirewallResource_Update env fp w)) = [] \<and>
      snd (clusterFirewallResource_Update env fp w) = w1)"
  by (simp add: clusterFirewallResource_Update_def done_with_def)

lemma clusterFirewallResource_Delete_ignores_job:
  "(Atoi (ValueString (fm_ClusterID fp)) = Inr cid \<and>
    ConfigureWithRetry env cid (ConfigureRequest0\<lparr>req_SourceIPs := [''0.0.0.0/0''],
      req_ReplaceIPs := True\<rparr>) (2 * minute) (tflog Info
      ''Resetting cluster firewall to allow all'' w) = (Inr resp, w1) \<longrightarrow>
      Diagnostics (fst (clusterFirewallResource_Delete env fp w)) = [] \<and>
      snd (clusterFirewallResource_Delete env fp w) = w1)"
  by (simp add: clusterFirewallResource_Delete_def done_with_def)

text \<open>
  C3. For the entity operations that wait for the configure job (\<open>Create\<close> and
  \<open>Delete\<close> of a user, \<open>Create\<close>, \<open>Update\<close> and \<open>Delete\<close> of a database, \<open>Create\<close> of
  an extension, \<open>Create\<close> and \<open>Update\<close> of a grant), once the configure call has
  succeeded with response \<open>resp\<close> in world \<open>w1\<close>: if the job identifier is zero or
  negative, the operation sends no job-list request and ends without a diagnostic; if it
  is positive, the operation sends at least one job-list request, and when a poll of that
  wait lists a failed job \<open>j\<close>, the operation ends with exactly one error diagnostic, which
  carries the identifier, type and message of \<open>j\<close>, and sets no state. \<open>Create\<close>,
  \<open>Update\<close> and \<open>Delete\<close> of the firewall resource, which also go through the configure
  call, discard its response: once the configure call has succeeded they end without a
  diagnostic and without any further request, whatever the job identifier, and they never
  send a job-list request.
\<close>

theorem job_failure_propagation:
  "(Atoi (ValueString (um_ClusterID up)) = Inr cid \<and>
    ConfigureWithRetry env cid (ConfigureRequest0\<lparr>req_Users := [ValueString (um_Username
      up)]\<rparr>) (2 * minute) (tflog Info ''Creating cluster user'' w) = (Inr resp, w1) \<longrightarrow>
      (resp_JobID resp \<le> 0 \<longrightarrow>
         polls cid (snd (clusterUserResource_Create env up w)) = polls cid w1 \<and>
         Diagnostics (fst (clusterUserResource_Create env up w)) = []) \<and>
      (0 < resp_JobID resp \<longrightarrow>
         polls cid w1 < polls cid (snd (clusterUserResource_Create env up w))) \<and>
      (0 < resp_JobID resp \<and> job_failure_seen env cid (5 * minute) w1 j \<longrightarrow>
         Diagnostics (fst (clusterUserResource_Create env up w)) =
           [AddError ''Error waiting for user creation''
              (Some (JobFailed (job_ID j) (job_JobType j) (job_ErrorMessage j)))] \<and>
         State (fst (clusterUserResource_Create env up w)) = Untouched)) \<and>
   (parseUserID (ValueString (um_ID ust)) = Inr (cid, name) \<and>
    ConfigureWithRetry env cid (ConfigureRequest0\<lparr>req_DeleteUsers := [name]\<rparr>) (2 *
      minute) (tflog Info ''Deleting cluster user'' w) = (Inr resp, w1) \<longrightarrow>
      (resp_JobID resp \<le> 0 \<longrightarrow>
         polls cid (snd (clusterUserResource_Delete env ust w)) = polls cid w1 \<and>
         Diagnostics (fst (clusterUserResource_Delete env ust w)) = []) \<and>
      (0 < resp_JobID resp \<longrightarrow>
         polls cid w1 < polls cid (snd (clusterUserResource_Delete env ust w))) \<and>
      (0 < resp_JobID resp \<and> job_failure_seen env cid (5 * minute) w1 j \<longrightarrow>
         Diagnostics (fst (clusterUserResource_Delete env ust w)) =
           [AddError ''Error waiting for user deletion''
              (Some (JobFailed (job_ID j) (job_JobType j) (job_ErrorMessage j)))] \<and>
         State (fst (clusterUserResource_Delete env ust w)) = Untouched)) \<and>
   (Atoi (ValueString (dm_ClusterID dp)) = Inr cid \<and>
    ConfigureWithRetry env cid (ConfigureRequest0\<lparr>req_Databases := [\<lparr>dbreq_Name =
      ValueString (dm_Name dp), dbreq_Owner = (if \<not> IsNull (dm_Owner dp) \<and> \<not>
      IsUnknown (dm_Owner dp) then ValueString (dm_Owner dp) else [])\<rparr>]\<rparr>) (2 *
      minute) (tflog Info ''Creating cluster database'' w) = (Inr resp, w1) \<longrightarrow>
      (resp_JobID resp \<le> 0 \<longrightarrow>
         polls cid (snd (clusterDatabaseResource_Create env dp w)) = polls cid w1 \<and>
         Diagnostics (fst (clusterDatabaseResource_Create env dp w)) = []) \<and>
      (0 < resp_JobID resp \<longrightarrow>
         polls cid w1 < polls cid (snd (clusterDatabaseResource_Create env dp w))) \<and>
      (0 < resp_JobID resp \<and> job_failure_seen env cid (5 * minute) w1 j \<longrightarrow>
         Diagnostics (fst (clusterDatabaseResource_Create env dp w)) =
           [AddError ''Error waiting for database creation''
              (Some (JobFailed (job_ID j) (job_JobType j) (job_ErrorMessage j)))] \<and>
         State (fst (clusterDatabaseResource_Create env dp w)) = Untouched)) \<and>
   (Atoi (ValueString (dm_ClusterID dp)) = Inr cid \<and>
    ConfigureWithRetry env cid (ConfigureRequest0\<lparr>req_Databases := [\<lparr>dbreq_Name =
      ValueString (dm_Name dp), dbreq_Owner = ValueString (dm_Owner dp)\<rparr>]\<rparr>) (2 *
      minute) w = (Inr resp, w1) \<longrightarrow>
      (resp_JobID resp \<le> 0 \<longrightarrow>
         polls cid (snd (clusterDatabaseResource_Update env dp w)) = polls cid w1 \<and>
         Diagnostics (fst (clusterDatabaseResource_Update env dp w)) = []) \<and>
      (0 < resp_JobID resp \<longrightarrow>
         polls cid w1 < polls cid (snd (clusterDatabaseResource_Update env dp w))) \<and>
      (0 < resp_JobID resp \<and> job_failure_seen env cid (5 * minute) w1 j \<longrightarrow>
         Diagnostics (fst (clusterDatabaseResource_Update env dp w)) =
           [AddError ''Error waiting for database update''
              (Some (JobFailed (job_ID j) (job_JobType j) (job_ErrorMessage j)))] \<and>
         State (fst (clusterDatabaseResource_Update env dp w)) = Untouched)) \<and>
   (parseDatabaseID (ValueString (dm_ID dst)) = Inr (cid, name) \<and>
    ConfigureWithRetry env cid (ConfigureRequest0\<lparr>req_DeleteDatabases := [name]\<rparr>)
      (2 * minute) (tflog Info ''Deleting cluster database'' w) = (Inr resp, w1) \<longrightarrow>
      (resp_JobID resp \<le> 0 \<longrightarrow>
         polls cid (snd (clusterDatabaseResource_Delete env dst w)) = polls cid w1 \<and>
         Diagnostics (fst (clusterDatabaseResource_Delete env dst w)) = []) \<and>
      (0 < resp_JobID resp \<longrightarrow>
         polls cid w1 < polls cid (snd (clusterDatabaseResource_Delete env dst w))) \<and>
      (0 < resp_JobID resp \<and> job_failure_seen env cid (5 * minute) w1 j \<longrightarrow>
         Diagnostics (fst (clusterDatabaseResource_Delete env dst w)) =
           [AddError ''Error waiting for database deletion''
              (Some (JobFailed (job_ID j) (job_JobType j) (job_ErrorMessage j)))] \<and>
         State (fst (clusterDatabaseResource_Delete env dst w)) = Untouched)) \<and>
   (Atoi (ValueString (em_ClusterID ep)) = Inr cid \<and>
    ConfigureWithRetry env cid (ConfigureRequest0\<lparr>req_Extensions :=
      [\<lparr>extreq_Extension = ValueString (em_Extension ep), extreq_Database = (if \<not>
      IsNull (em_Database ep) \<and> \<not> IsUnknown (em_Database ep) then ValueString
      (em_Database ep) else [])\<rparr>]\<rparr>) (2 * minute) (tflog Info
      ''Creating cluster extension'' w) = (Inr resp, w1) \<longrightarrow>
      (resp_JobID resp \<le> 0 \<longrightarrow>
         polls cid (snd (clusterExtensionResource_Create env ep w)) = polls cid w1 \<and>
         Diagnostics (fst (clusterExtensionResource_Create env ep w)) = []) \<and>
      (0 < resp_JobID resp \<longrightarrow>
         polls cid w1 < polls cid (snd (clusterExtensionResource_Create env ep w))) \<and>
      (0 < resp_JobID resp \<and> job_failure_seen env cid (5 * minute) w1 j \<longrightarrow>
         Diagnostics (fst (clusterExtensionResource_Create env ep w)) =
           [AddError ''Error waiting for extension installation''
              (Some (JobFailed (job_ID j) (job_JobType j) (job_ErrorMessage j)))] \<and>
         State (fst (clusterExtensionResource_Create env ep w)) = Untouched)) \<and>
   (Atoi (ValueString (gm_ClusterID gp)) = Inr cid \<and>
    ConfigureWithRetry env cid (ConfigureRequest0\<lparr>req_Grants := [\<lparr>grreq_Username =
      ValueString (gm_Username gp), grreq_Database = ValueString (gm_Database gp), grreq_Access =
      ValueString (gm_Access gp)\<rparr>]\<rparr>) (2 * minute) (tflog Info
      ''Creating cluster grant'' w) = (Inr resp, w1) \<longrightarrow>
      (resp_JobID resp \<le> 0 \<longrightarrow>
         polls cid (snd (clusterGrantResource_Create env gp w)) = polls cid w1 \<and>
         Diagnostics (fst (clusterGrantResource_Create env gp w)) = []) \<and>
      (0 < resp_JobID resp \<longrightarrow>
         polls cid w1 < polls cid (snd (clusterGrantResource_Create env gp w))) \<and>
      (0 < resp_JobID resp \<and> job_failure_seen env cid (5 * minute) w1 j \<longrightarrow>
         Diagnostics (fst (clusterGrantResource_Create env gp w)) =
           [AddError ''Error waiting for grant creation''
              (Some (JobFailed (job_ID j) (job_JobType j) (job_ErrorMessage j)))] \<and>
         State (fst (clusterGrantResource_Create env gp w)) = Untouched)) \<and>
   (Atoi (ValueString (gm_ClusterID gp)) = Inr cid \<and>
    ConfigureWithRetry env cid (ConfigureRequest0\<lparr>req_Grants := [\<lparr>grreq_Username =
      ValueString (gm_Username gp), grreq_Database = ValueString (gm_Database gp), grreq_Access =
      ValueString (gm_Access gp)\<rparr>]\<rparr>) (2 * minute) w = (Inr resp, w1) \<longrightarrow>
      (resp_JobID resp \<le> 0 \<longrightarrow>
         polls cid (snd (clusterGrantResource_Update env gp w)) = polls cid w1 \<and>
         Diagnostics (fst (clusterGrantResource_Update env gp w)) = []) \<and>
      (0 < resp_JobID resp \<longrightarrow>
         polls cid w1 < polls cid (snd (clusterGrantResource_Update env gp w))) \<and>
      (0 < resp_JobID resp \<and> job_failure_seen env cid (5 * minute) w1 j \<longrightarrow>
         Diagnostics (fst (clusterGrantResource_Update env gp w)) =
           [AddError ''Error waiting for grant update''
              (Some (JobFailed (job_ID j) (job_JobType j) (job_ErrorMessage j)))] \<and>
         State (fst (clusterGrantResource_Update env gp w)) = Untouched)) \<and>
   (Atoi (ValueString (fm_ClusterID fp)) = Inr cid \<and> fm_SourceIPs fp = Some ips \<and>
    ConfigureWithRetry env cid (ConfigureRequest0\<lparr>req_SourceIPs := ips, req_ReplaceIPs :=
      True\<rparr>) (2 * minute) (tflog Info ''Setting cluster firewall rules'' w) = (Inr resp,
      w1) \<longrightarrow>
      Diagnostics (fst (clusterFirewallResource_Create env fp w)) = [] \<and>
      snd (clusterFirewallResource_Create env fp w) = w1) \<and>
   (Atoi (ValueString (fm_ClusterID fp)) = Inr cid \<and> fm_SourceIPs fp = Some ips \<and>
    ConfigureWithRetry env cid (ConfigureRequest0\<lparr>req_SourceIPs := ips, req_ReplaceIPs :=
      True\<rparr>) (2 * minute) (tflog Info ''Updating cluster firewall rules'' w) = (Inr resp,
      w1) \<longrightarrow>
      Diagnostics (fst (clusterFirewallResource_Update env fp w)) = [] \<and>
      snd (clusterFirewallResource_Update env fp w) = w1) \<and>
   (Atoi (ValueString (fm_ClusterID fp)) = Inr cid \<and>
    ConfigureWithRetry env cid (ConfigureRequest0\<lparr>req_SourceIPs := [''0.0.0.0/0''],
      req_ReplaceIPs := True\<rparr>) (2 * minute) (tflog Info
      ''Resetting cluster firewall to allow all'' w) = (Inr resp, w1) \<longrightarrow>
      Diagnostics (fst (clusterFirewallResource_Delete env fp w)) = [] \<and>
      snd (clusterFirewallResource_Delete env fp w) = w1) \<and>
   (polls c (snd (clusterFirewallResource_Create env fp w)) = polls c w \<and>
    polls c (snd (clusterFirewallResource_Update env fp w)) = polls c w \<and>
    polls c (snd (clusterFirewallResource_Delete env fp w)) = polls c w)"
  by (intro conjI clusterUserResource_Create_job_wait
      clusterUserResource_Delete_job_wait
      clusterDatabaseResource_Create_job_wait
      clusterDatabaseResource_Update_job_wait
      clusterDatabaseResource_Delete_job_wait
      clusterExtensionResource_Create_job_wait
      clusterGrantResource_Create_job_wait
      clusterGrantResource_Update_job_wait
      clusterFirewallResource_Create_ignores_job
      clusterFirewallResource_Update_ignores_job
      clusterFirewallResource_Delete_ignores_job
      firewall_never_polls)

theorem job_failure_propagation_witness:
  "Diagnostics (fst (clusterUserResource_Create job_42_fails user_plan world0)) =
     [AddError ''Error waiting for user creation'' (Some (JobFailed 42 ''configure'' ''role already exists''))] \<and>
   State (fst (clusterUserResource_Create job_42_fails user_plan world0)) = Untouched \<and>
   0 < polls 7 (snd (clusterUserResource_Create job_42_fails user_plan world0)) \<and>
   polls 7 (snd (clusterUserResource_Create healthy user_plan world0)) = 0 \<and>
   Diagnostics (fst (clusterUserResource_Create healthy user_plan world0)) = [] \<and>
   Diagnostics (fst (clusterUserResource_Delete job_42_fails user_state world0)) =
     [AddError ''Error waiting for user deletion'' (Some (JobFailed 42 ''configure'' ''role already exists''))] \<and>
   State (fst (clusterUserResource_Delete job_42_fails user_state world0)) = Untouched \<and>
   0 < polls 7 (snd (clusterUserResource_Delete job_42_fails user_state world0)) \<and>
   polls 7 (snd (clusterUserResource_Delete healthy user_state world0)) = 0 \<and>
   Diagnostics (fst (clusterUserResource_Delete healthy user_state world0)) = [] \<and>
   Diagnostics (fst (clusterDatabaseResource_Create job_42_fails database_plan world0)) =
     [AddError ''Error waiting for database creation'' (Some (JobFailed 42 ''configure'' ''role already exists''))] \<and>
   State (fst (clusterDatabaseResource_Create job_42_fails database_plan world0)) = Untouched \<and>
   0 < polls 7 (snd (clusterDatabaseResource_Create job_42_fails database_plan world0)) \<and>
   polls 7 (snd (clusterDatabaseResource_Create healthy database_plan world0)) = 0 \<and>
   Diagnostics (fst (clusterDatabaseResource_Create healthy database_plan world0)) = [] \<and>
   Diagnostics (fst (clusterDatabaseResource_Update job_42_fails database_plan world0)) =
     [AddError ''Error waiting for database update'' (Some (JobFailed 42 ''configure'' ''role already exists''))] \<and>
   State (fst (clusterDatabaseResource_Update job_42_fails database_plan world0)) = Untouched \<and>
   0 < polls 7 (snd (clusterDatabaseResource_Update job_42_fails database_plan world0)) \<and>
   polls 7 (snd (clusterDatabaseResource_Update healthy database_plan world0)) = 0 \<and>
   Diagnostics (fst (clusterDatabaseResource_Update healthy database_plan world0)) = [] \<and>
   Diagnostics (fst (clusterDatabaseResource_Delete job_42_fails database_state world0)) =
     [AddError ''Error waiting for database deletion'' (Some (JobFailed 42 ''configure'' ''role already exists''))] \<and>
   State (fst (clusterDatabaseResource_Delete job_42_fails database_state world0)) = Untouched \<and>
   0 < polls 7 (snd (clusterDatabaseResource_Delete job_42_fails database_state world0)) \<and>
   polls 7 (snd (clusterDatabaseResource_Delete healthy database_state world0)) = 0 \<and>
   Diagnostics (fst (clusterDatabaseResource_Delete healthy database_state world0)) = [] \<and>
   Diagnostics (fst (clusterExtensionResource_Create job_42_fails extension_plan world0)) =
     [AddError ''Error waiting for extension installation'' (Some (JobFailed 42 ''configure'' ''role already exists''))] \<and>
   State (fst (clusterExtensionResource_Create job_42_fails extension_plan world0)) = Untouched \<and>
   0 < polls 7 (snd (clusterExtensionResource_Create job_42_fails extension_plan world0)) \<and>
   polls 7 (snd (clusterExtensionResource_Create healthy extension_plan world0)) = 0 \<and>
   Diagnostics (fst (clusterExtensionResource_Create healthy extension_plan world0)) = [] \<and>
   Diagnostics (fst (clusterGrantResource_Create job_42_fails grant_plan world0)) =
     [AddError ''Error waiting for grant creation'' (Some (JobFailed 42 ''configure'' ''role already exists''))] \<and>
   State (fst (clusterGrantResource_Create job_42_fails grant_plan world0)) = Untouched \<and>
   0 < polls 7 (snd (clusterGrantResource_Create job_42_fails grant_plan world0)) \<and>
   polls 7 (snd (clusterGrantResource_Create healthy grant_plan world0)) = 0 \<and>
   Diagnostics (fst (clusterGrantResource_Create healthy grant_plan world0)) = [] \<and>
   Diagnostics (fst (clusterGrantResource_Update job_42_fails grant_plan world0)) =
     [AddError ''Error waiting for grant update'' (Some (JobFailed 42 ''configure'' ''role already exists''))] \<and>
   State (fst (clusterGrantResource_Update job_42_fails grant_plan world0)) = Untouched \<and>
   0 < polls 7 (snd (clusterGrantResource_Update job_42_fails grant_plan world0)) \<and>
   polls 7 (snd (clusterGrantResource_Update healthy grant_plan world0)) = 0 \<and>
   Diagnostics (fst (clusterGrantResource_Update healthy grant_plan world0)) = [] \<and>
   Diagnostics (fst (clusterFirewallResource_Create job_42_fails (firewall_plan [''10.0.0.0/8'']) world0)) = [] \<and>
   trace (snd (clusterFirewallResource_Create job_42_fails (firewall_plan [''10.0.0.0/8'']) world0)) =
     [ConfigureCall 7 (ConfigureRequest0\<lparr>req_SourceIPs := [''10.0.0.0/8''], req_ReplaceIPs := True\<rparr>)] \<and>
   Diagnostics (fst (clusterFirewallResource_Update job_42_fails (firewall_plan [''10.0.0.0/8'']) world0)) = [] \<and>
   trace (snd (clusterFirewallResource_Update job_42_fails (firewall_plan [''10.0.0.0/8'']) world0)) =
     [ConfigureCall 7 (ConfigureRequest0\<lparr>req_SourceIPs := [''10.0.0.0/8''], req_ReplaceIPs := True\<rparr>)] \<and>
   Diagnostics (fst (clusterFirewallResource_Delete job_42_fails (firewall_plan [''10.0.0.0/8'']) world0)) = [] \<and>
   trace (snd (clusterFirewallResource_Delete job_42_fails (firewall_plan [''10.0.0.0/8'']) world0)) =
     [ConfigureCall 7 (ConfigureRequest0\<lparr>req_SourceIPs := [''0.0.0.0/0''], req_ReplaceIPs := True\<rparr>)] \<and>
   Diagnostics (fst (clusterUserResource_Create job_42_fails_later user_plan world0)) =
     [AddError ''Error waiting for user creation'' (Some (JobFailed 42 ''configure'' ''role already exists''))] \<and>
   State (fst (clusterUserResource_Create job_42_fails_later user_plan world0)) = Untouched"
proof -
  note plans = user_plan_def user_state_def database_plan_def database_state_def
    extension_plan_def grant_plan_def
  have cf: "ConfigureWithRetry job_42_fails 7 req (2 * minute) w =
      (Inr (ok_response\<lparr>resp_JobID := 42\<rparr>), sent job_42_fails (ConfigureCall 7 req) w)" for req w
    unfolding ConfigureWithRetry_def
    by (subst ConfigureWithRetry_loop.simps)
       (simp add: ConfigureCluster_def job_42_fails_def job_fails_def healthy_def)
  have ch: "ConfigureWithRetry healthy 7 req (2 * minute) w =
      (Inr ok_response, sent healthy (ConfigureCall 7 req) w)" for req w
    unfolding ConfigureWithRetry_def
    by (subst ConfigureWithRetry_loop.simps) (simp add: ConfigureCluster_def healthy_def)
  have seen: "job_failure_seen job_42_fails 7 (5 * minute) w failed_job" for w
    unfolding job_failure_seen_def
    by (intro exI [of _ 0] exI [of _ "[running_job, failed_job]"])
       (simp add: pending_before_def GetJobs_def job_42_fails_def job_fails_def healthy_def
          running_job_def failed_job_def minute_def second_def)
  have ucp: "Atoi (ValueString (um_ClusterID user_plan)) = Inr 7"
    by (simp add: plans Atoi_7 parseUserID_def parseDatabaseID_def numeral_2_eq_2)
  have uc1: "Diagnostics (fst (clusterUserResource_Create job_42_fails user_plan world0)) =
       [AddError ''Error waiting for user creation'' (Some (JobFailed 42 ''configure'' ''role already exists''))] \<and>
     State (fst (clusterUserResource_Create job_42_fails user_plan world0)) = Untouched \<and>
     0 < polls 7 (snd (clusterUserResource_Create job_42_fails user_plan world0))"
    using job_failure_propagation [where env = job_42_fails and w = world0 and cid = 7
        and resp = "ok_response\<lparr>resp_JobID := 42\<rparr>" and j = failed_job and up = user_plan
        and ?w1.0 = "sent job_42_fails (ConfigureCall 7
         (ConfigureRequest0\<lparr>req_Users := [ValueString (um_Username user_plan)]\<rparr>)) (tflog Info ''Creating cluster user'' world0)", THEN conjunct1]
      ucp cf seen
    by (simp add: polls_def sent_def tflog_def world0_def failed_job_def)
  have uc2: "polls 7 (snd (clusterUserResource_Create healthy user_plan world0)) = 0 \<and>
     Diagnostics (fst (clusterUserResource_Create healthy user_plan world0)) = []"
    using job_failure_propagation [where env = healthy and w = world0 and cid = 7
        and resp = ok_response and up = user_plan
        and ?w1.0 = "sent healthy (ConfigureCall 7
         (ConfigureRequest0\<lparr>req_Users := [ValueString (um_Username user_plan)]\<rparr>)) (tflog Info ''Creating cluster user'' world0)", THEN conjunct1]
      ucp ch
    by (simp add: ok_response_def polls_def sent_def tflog_def world0_def)

  have udp: "parseUserID (ValueString (um_ID user_state)) = Inr (7, ''alice'')"
    by (simp add: plans Atoi_7 parseUserID_def parseDatabaseID_def numeral_2_eq_2)
  have ud1: "Diagnostics (fst (clusterUserResource_Delete job_42_fails user_state world0)) =
       [AddError ''Error waiting for user deletion'' (Some (JobFailed 42 ''configure'' ''role already exists''))] \<and>
     State (fst (clusterUserResource_Delete job_42_fails user_state world0)) = Untouched \<and>
     0 < polls 7 (snd (clusterUserResource_Delete job_42_fails user_state world0))"
    using job_failure_propagation [where env = job_42_fails and w = world0 and cid = 7
        and resp = "ok_response\<lparr>resp_JobID := 42\<rparr>" and j = failed_job and ust = user_state and name = "''alice''"
        and ?w1.0 = "sent job_42_fails (ConfigureCall 7
         (ConfigureRequest0\<lparr>req_DeleteUsers := [''alice'']\<rparr>)) (tflog Info ''Deleting cluster user'' world0)", THEN conjunct2, THEN conjunct1]
      udp cf seen
    by (simp add: polls_def sent_def tflog_def world0_def failed_job_def)
  have ud2: "polls 7 (snd (clusterUserResource_Delete healthy user_state world0)) = 0 \<and>
     Diagnostics (fst (clusterUserResource_Delete healthy user_state world0)) = []"
    using job_failure_propagation [where env = healthy and w = world0 and cid = 7
        and resp = ok_response and ust = user_state and name = "''alice''"
        and ?w1.0 = "sent healthy (ConfigureCall 7
         (ConfigureRequest0\<lparr>req_DeleteUsers := [''alice'']\<rparr>)) (tflog Info ''Deleting cluster user'' world0)", THEN conjunct2, THEN conjunct1]
      udp ch
    by (simp add: ok_response_def polls_def sent_def tflog_def world0_def)

  have dcp: "Atoi (ValueString (dm_ClusterID database_plan)) = Inr 7"
    by (simp add: plans Atoi_7 parseUserID_def parseDatabaseID_def numeral_2_eq_2)
  have dc1: "Diagnostics (fst (clusterDatabaseResource_Create job_42_fails database_plan world0)) =
       [AddError ''Error waiting for database creation'' (Some (JobFailed 42 ''configure'' ''role already exists''))] \<and>
     State (fst (clusterDatabaseResource_Create job_42_fails database_plan world0)) = Untouched \<and>
     0 < polls 7 (snd (clusterDatabaseResource_Create job_42_fails database_plan world0))"
    using job_failure_propagation [where env = job_42_fails and w = world0 and cid = 7
        and resp = "ok_response\<lparr>resp_JobID := 42\<rparr>" and j = failed_job and dp = database_plan
        and ?w1.0 = "sent job_42_fails (ConfigureCall 7
         (ConfigureRequest0\<lparr>req_Databases := [\<lparr>dbreq_Name = ValueString (dm_Name
            database_plan), dbreq_Owner = (if \<not> IsNull (dm_Owner database_plan) \<and> \<not>
            IsUnknown (dm_Owner database_plan) then ValueString (dm_Owner database_plan) else
            [])\<rparr>]\<rparr>)) (tflog Info ''Creating cluster database'' world0)", THEN conjunct2, THEN conjunct2, THEN conjunct1]
      dcp cf seen
    by (simp add: polls_def sent_def tflog_def world0_def failed_job_def)
  have dc2: "polls 7 (snd (clusterDatabaseResource_Create healthy database_plan world0)) = 0 \<and>
     Diagnostics (fst (clusterDatabaseResource_Create healthy database_plan world0)) = []"
    using job_failure_propagation [where env = healthy and w = world0 and cid = 7
        and resp = ok_response and dp = database_plan
        and ?w1.0 = "sent healthy (ConfigureCall 7
         (ConfigureRequest0\<lparr>req_Databases := [\<lparr>dbreq_Name = ValueString (dm_Name
            database_plan), dbreq_Owner = (if \<not> IsNull (dm_Owner database_plan) \<and> \<not>
            IsUnknown (dm_Owner database_plan) then ValueString (dm_Owner database_plan) else
            [])\<rparr>]\<rparr>)) (tflog Info ''Creating cluster database'' world0)", THEN conjunct2, THEN conjunct2, THEN conjunct1]
      dcp ch
    by (simp add: ok_response_def polls_def sent_def tflog_def world0_def)

  have dup: "Atoi (ValueString (dm_ClusterID database_plan)) = Inr 7"
    by (simp add: plans Atoi_7 parseUserID_def parseDatabaseID_def numeral_2_eq_2)
  have du1: "Diagnostics (fst (clusterDatabaseResource_Update job_42_fails database_plan world0)) =
       [AddError ''Error waiting for database update'' (Some (JobFailed 42 ''configure'' ''role already exists''))] \<and>
     State (fst (clusterDatabaseResource_Update job_42_fails database_plan world0)) = Untouched \<and>
     0 < polls 7 (snd (clusterDatabaseResource_Update job_42_fails database_plan world0))"
    using job_failure_propagation [where env = job_42_fails and w = world0 and cid = 7
        and resp = "ok_response\<lparr>resp_JobID := 42\<rparr>" and j = failed_job and dp = database_plan
        and ?w1.0 = "sent job_42_fails (ConfigureCall 7
         (ConfigureRequest0\<lparr>req_Databases := [\<lparr>dbreq_Name = ValueString (dm_Name
            database_plan), dbreq_Owner = ValueString (dm_Owner database_plan)\<rparr>]\<rparr>)) world0", THEN conjunct2, THEN conjunct2, THEN conjunct2, THEN conjunct1]
      dup cf seen
    by (simp add: polls_def sent_def tflog_def world0_def failed_job_def)
  have du2: "polls 7 (snd (clusterDatabaseResource_Update healthy database_plan world0)) = 0 \<and>
     Diagnostics (fst (clusterDatabaseResource_Update healthy database_plan world0)) = []"
    using job_failure_propagation [where env = healthy and w = world0 and cid = 7
        and resp = ok_response and dp = database_plan
        and ?w1.0 = "sent healthy (ConfigureCall 7
         (ConfigureRequest0\<lparr>req_Databases := [\<lparr>dbreq_Name = ValueString (dm_Name
            database_plan), dbreq_Owner = ValueString (dm_Owner database_plan)\<rparr>]\<rparr>)) world0", THEN conjunct2, THEN conjunct2, THEN conjunct2, THEN conjunct1]
      dup ch
    by (simp add: ok_response_def polls_def sent_def tflog_def world0_def)

  have ddp: "parseDatabaseID (ValueString (dm_ID database_state)) = Inr (7, ''appdb'')"
    by (simp add: plans Atoi_7 parseUserID_def parseDatabaseID_def numeral_2_eq_2)
  have dd1: "Diagnostics (fst (clusterDatabaseResource_Delete job_42_fails database_state world0)) =
       [AddError ''Error waiting for database deletion'' (Some (JobFailed 42 ''configure'' ''role already exists''))] \<and>
     State (fst (clusterDatabaseResource_Delete job_42_fails database_state world0)) = Untouched \<and>
     0 < polls 7 (snd (clusterDatabaseResource_Delete job_42_fails database_state world0))"
    using job_failure_propagation [where env = job_42_fails and w = world0 and cid = 7
        and resp = "ok_response\<lparr>resp_JobID := 42\<rparr>" and j = failed_job and dst = database_state and name = "''appdb''"
        and ?w1.0 = "sent job_42_fails (ConfigureCall 7
         (ConfigureRequest0\<lparr>req_DeleteDatabases := [''appdb'']\<rparr>)) (tflog Info ''Deleting cluster database'' world0)", THEN conjunct2, THEN conjunct2, THEN conjunct2, THEN conjunct2, THEN conjunct1]
      ddp cf seen
    by (simp add: polls_def sent_def tflog_def world0_def failed_job_def)
  have dd2: "polls 7 (snd (clusterDatabaseResource_Delete healthy database_state world0)) = 0 \<and>
     Diagnostics (fst (clusterDatabaseResource_Delete healthy database_state world0)) = []"
    using job_failure_propagation [where env = healthy and w = world0 and cid = 7
        and resp = ok_response and dst = database_state and name = "''appdb''"
        and ?w1.0 = "sent healthy (ConfigureCall 7
         (ConfigureRequest0\<lparr>req_DeleteDatabases := [''appdb'']\<rparr>)) (tflog Info ''Deleting cluster database'' world0)", THEN conjunct2, THEN conjunct2, THEN conjunct2, THEN conjunct2, THEN conjunct1]
      ddp ch
    by (simp add: ok_response_def polls_def sent_def tflog_def world0_def)

  have ecp: "Atoi (ValueString (em_ClusterID extension_plan)) = Inr 7"
    by (simp add: plans Atoi_7 parseUserID_def parseDatabaseID_def numeral_2_eq_2)
  have ec1: "Diagnostics (fst (clusterExtensionResource_Create job_42_fails extension_plan world0)) =
       [AddError ''Error waiting for extension installation'' (Some (JobFailed 42 ''configure'' ''role already exists''))] \<and>
     State (fst (clusterExtensionResource_Create job_42_fails extension_plan world0)) = Untouched \<and>
     0 < polls 7 (snd (clusterExtensionResource_Create job_42_fails extension_plan world0))"
    using job_failure_propagation [where env = job_42_fails and w = world0 and cid = 7
        and resp = "ok_response\<lparr>resp_JobID := 42\<rparr>" and j = failed_job and ep = extension_plan
        and ?w1.0 = "sent job_42_fails (ConfigureCall 7
         (ConfigureRequest0\<lparr>req_Extensions := [\<lparr>extreq_Extension = ValueString
            (em_Extension extension_plan), extreq_Database = (if \<not> IsNull (em_Database
            extension_plan) \<and> \<not> IsUnknown (em_Database extension_plan) then ValueString
            (em_Database extension_plan) else [])\<rparr>]\<rparr>)) (tflog Info ''Creating cluster extension'' world0)", THEN conjunct2, THEN conjunct2, THEN conjunct2, THEN conjunct2, THEN conjunct2, THEN conjunct1]
      ecp cf seen
    by (simp add: polls_def sent_def tflog_def world0_def failed_job_def)
  have ec2: "polls 7 (snd (clusterExtensionResource_Create healthy extension_plan world0)) = 0 \<and>
     Diagnostics (fst (clusterExtensionResource_Create healthy extension_plan world0)) = []"
    using job_failure_propagation [where env = healthy and w = world0 and cid = 7
        and resp = ok_response and ep = extension_plan
        and ?w1.0 = "sent healthy (ConfigureCall 7
         (ConfigureRequest0\<lparr>req_Extensions := [\<lparr>extreq_Extension = ValueString
            (em_Extension extension_plan), extreq_Database = (if \<not> IsNull (em_Database
            extension_plan) \<and> \<not> IsUnknown (em_Database extension_plan) then ValueString
            (em_Database extension_plan) else [])\<rparr>]\<rparr>)) (tflog Info ''Creating cluster extension'' world0)", THEN conjunct2, THEN conjunct2, THEN conjunct2, THEN conjunct2, THEN conjunct2, THEN conjunct1]
      ecp ch
    by (simp add: ok_response_def polls_def sent_def tflog_def world0_def)

  have gcp: "Atoi (ValueString (gm_ClusterID grant_plan)) = Inr 7"
    by (simp add: plans Atoi_7 parseUserID_def parseDatabaseID_def numeral_2_eq_2)
  have gc1: "Diagnostics (fst (clusterGrantResource_Create job_42_fails grant_plan world0)) =
       [AddError ''Error waiting for grant creation'' (Some (JobFailed 42 ''configure'' ''role already exists''))] \<and>
     State (fst (clusterGrantResource_Create job_42_fails grant_plan world0)) = Untouched \<and>
     0 < polls 7 (snd (clusterGrantResource_Create job_42_fails grant_plan world0))"
    using job_failure_propagation [where env = job_42_fails and w = world0 and cid = 7
        and resp = "ok_response\<lparr>resp_JobID := 42\<rparr>" and j = failed_job and gp = grant_plan
        and ?w1.0 = "sent job_42_fails (ConfigureCall 7
         (ConfigureRequest0\<lparr>req_Grants := [\<lparr>grreq_Username = ValueString
            (gm_Username grant_plan), grreq_Database = ValueString (gm_Database grant_plan),
            grreq_Access = ValueString (gm_Access grant_plan)\<rparr>]\<rparr>)) (tflog Info ''Creating cluster grant'' world0)", THEN conjunct2, THEN conjunct2, THEN conjunct2, THEN conjunct2, THEN conjunct2, THEN conjunct2, THEN conjunct1]
      gcp cf seen
    by (simp add: polls_def sent_def tflog_def world0_def failed_job_def)
  have gc2: "polls 7 (snd (clusterGrantResource_Create healthy grant_plan world0)) = 0 \<and>
     Diagnostics (fst (clusterGrantResource_Create healthy grant_plan world0)) = []"
    using job_failure_propagation [where env = healthy and w = world0 and cid = 7
        and resp = ok_response and gp = grant_plan
        and ?w1.0 = "sent healthy (ConfigureCall 7
         (ConfigureRequest0\<lparr>req_Grants := [\<lparr>grreq_Username = ValueString
            (gm_Username grant_plan), grreq_Database = ValueString (gm_Database grant_plan),
            grreq_Access = ValueString (gm_Access grant_plan)\<rparr>]\<rparr>)) (tflog Info ''Creating cluster grant'' world0)", THEN conjunct2, THEN conjunct2, THEN conjunct2, THEN conjunct2, THEN conjunct2, THEN conjunct2, THEN conjunct1]
      gcp ch
    by (simp add: ok_response_def polls_def sent_def tflog_def world0_def)

  have gup: "Atoi (ValueString (gm_ClusterID grant_plan)) = Inr 7"
    by (simp add: plans Atoi_7 parseUserID_def parseDatabaseID_def numeral_2_eq_2)
  have gu1: "Diagnostics (fst (clusterGrantResource_Update job_42_fails grant_plan world0)) =
       [AddError ''Error waiting for grant update'' (Some (JobFailed 42 ''configure'' ''role already exists''))] \<and>
     State (fst (clusterGrantResource_Update job_42_fails grant_plan world0)) = Untouched \<and>
     0 < polls 7 (snd (clusterGrantResource_Update job_42_fails grant_plan world0))"
    using job_failure_propagation [where env = job_42_fails and w = world0 and cid = 7
        and resp = "ok_response\<lparr>resp_JobID := 42\<rparr>" and j = failed_job and gp = grant_plan
        and ?w1.0 = "sent job_42_fails (ConfigureCall 7
         (ConfigureRequest0\<lparr>req_Grants := [\<lparr>grreq_Username = ValueString
            (gm_Username grant_plan), grreq_Database = ValueString (gm_Database grant_plan),
            grreq_Access = ValueString (gm_Access grant_plan)\<rparr>]\<rparr>)) world0", THEN conjunct2, THEN conjunct2, THEN conjunct2, THEN conjunct2, THEN conjunct2, THEN conjunct2, THEN conjunct2, THEN conjunct1]
      gup cf seen
    by (simp add: polls_def sent_def tflog_def world0_def failed_job_def)
  have gu2: "polls 7 (snd (clusterGrantResource_Update healthy grant_plan world0)) = 0 \<and>
     Diagnostics (fst (clusterGrantResource_Update healthy grant_plan world0)) = []"
    using job_failure_propagation [where env = healthy and w = world0 and cid = 7
        and resp = ok_response and gp = grant_plan
        and ?w1.0 = "sent healthy (ConfigureCall 7
         (ConfigureRequest0\<lparr>req_Grants := [\<lparr>grreq_Username = ValueString
            (gm_Username grant_plan), grreq_Database = ValueString (gm_Database grant_plan),
            grreq_Access = ValueString (gm_Access grant_plan)\<rparr>]\<rparr>)) world0", THEN conjunct2, THEN conjunct2, THEN conjunct2, THEN conjunct2, THEN conjunct2, THEN conjunct2, THEN conjunct2, THEN conjunct1]
      gup ch
    by (simp add: ok_response_def polls_def sent_def tflog_def world0_def)

  have fcp: "Atoi (ValueString (fm_ClusterID (firewall_plan [''10.0.0.0/8'']))) = Inr 7 \<and> fm_SourceIPs (firewall_plan [''10.0.0.0/8'']) = Some [''10.0.0.0/8'']"
    by (simp add: firewall_plan_def Atoi_7)
  have fc1: "Diagnostics (fst (clusterFirewallResource_Create job_42_fails (firewall_plan [''10.0.0.0/8'']) world0)) = [] \<and>
     trace (snd (clusterFirewallResource_Create job_42_fails (firewall_plan [''10.0.0.0/8'']) world0)) =
       [ConfigureCall 7 (ConfigureRequest0\<lparr>req_SourceIPs := [''10.0.0.0/8''], req_ReplaceIPs := True\<rparr>)]"
    using job_failure_propagation [where env = job_42_fails and w = world0 and cid = 7
        and resp = "ok_response\<lparr>resp_JobID := 42\<rparr>" and fp = "firewall_plan [''10.0.0.0/8'']" and ips = "[''10.0.0.0/8'']"
        and ?w1.0 = "sent job_42_fails (ConfigureCall 7
         (ConfigureRequest0\<lparr>req_SourceIPs := [''10.0.0.0/8''], req_ReplaceIPs :=
            True\<rparr>)) (tflog Info ''Setting cluster firewall rules'' world0)", THEN conjunct2, THEN conjunct2, THEN conjunct2, THEN conjunct2, THEN conjunct2, THEN conjunct2, THEN conjunct2, THEN conjunct2, THEN conjunct1]
      fcp cf
    by (simp add: sent_def tflog_def world0_def)

  have fup: "Atoi (ValueString (fm_ClusterID (firewall_plan [''10.0.0.0/8'']))) = Inr 7 \<and> fm_SourceIPs (firewall_plan [''10.0.0.0/8'']) = Some [''10.0.0.0/8'']"
    by (simp add: firewall_plan_def Atoi_7)
  have fu1: "Diagnostics (fst (clusterFirewallResource_Update job_42_fails (firewall_plan [''10.0.0.0/8'']) world0)) = [] \<and>
     trace (snd (clusterFirewallResource_Update job_42_fails (firewall_plan [''10.0.0.0/8'']) world0)) =
       [ConfigureCall 7 (ConfigureRequest0\<lparr>req_SourceIPs := [''10.0.0.0/8''], req_ReplaceIPs := True\<rparr>)]"
    using job_failure_propagation [where env = job_42_fails and w = world0 and cid = 7
        and resp = "ok_response\<lparr>resp_JobID := 42\<rparr>" and fp = "firewall_plan [''10.0.0.0/8'']" and ips = "[''10.0.0.0/8'']"
        and ?w1.0 = "sent job_42_fails (ConfigureCall 7
         (ConfigureRequest0\<lparr>req_SourceIPs := [''10.0.0.0/8''], req_ReplaceIPs :=
            True\<rparr>)) (tflog Info ''Updating cluster firewall rules'' world0)", THEN conjunct2, THEN conjunct2, THEN conjunct2, THEN conjunct2, THEN conjunct2, THEN conjunct2, THEN conjunct2, THEN conjunct2, THEN conjunct2, THEN conjunct1]
      fup cf
    by (simp add: sent_def tflog_def world0_def)

  have fdp: "Atoi (ValueString (fm_ClusterID (firewall_plan [''10.0.0.0/8'']))) = Inr 7"
    by (simp add: firewall_plan_def Atoi_7)
  have fd1: "Diagnostics (fst (clusterFirewallResource_Delete job_42_fails (firewall_plan [''10.0.0.0/8'']) world0)) = [] \<and>
     trace (snd (clusterFirewallResource_Delete job_42_fails (firewall_plan [''10.0.0.0/8'']) world0)) =
       [ConfigureCall 7 (ConfigureRequest0\<lparr>req_SourceIPs := [''0.0.0.0/0''], req_ReplaceIPs := True\<rparr>)]"
    using job_failure_propagation [where env = job_42_fails and w = world0 and cid = 7
        and resp = "ok_response\<lparr>resp_JobID := 42\<rparr>" and fp = "firewall_plan [''10.0.0.0/8'']"
        and ?w1.0 = "sent job_42_fails (ConfigureCall 7
         (ConfigureRequest0\<lparr>req_SourceIPs := [''0.0.0.0/0''], req_ReplaceIPs :=
            True\<rparr>)) (tflog Info ''Resetting cluster firewall to allow all'' world0)", THEN conjunct2, THEN conjunct2, THEN conjunct2, THEN conjunct2, THEN conjunct2, THEN conjunct2, THEN conjunct2, THEN conjunct2, THEN conjunct2, THEN conjunct2, THEN conjunct1]
      fdp cf
    by (simp add: sent_def tflog_def world0_def)

  have cl: "ConfigureWithRetry job_42_fails_later 7 req (2 * minute) w =
      (Inr (ok_response\<lparr>resp_JobID := 42\<rparr>), sent job_42_fails_later (ConfigureCall 7 req) w)" for req w
    unfolding ConfigureWithRetry_def
    by (subst ConfigureWithRetry_loop.simps)
       (simp add: ConfigureCluster_def job_42_fails_later_def job_42_fails_def job_fails_def
          healthy_def)
  have pl: "pending_before job_42_fails_later 7
      (clock (sent job_42_fails_later (ConfigureCall 7 req) (tflog Info msg world0)) + 5 * minute)
      (sent job_42_fails_later (ConfigureCall 7 req) (tflog Info msg world0)) (Suc 0)" for req msg
    by (simp add: pending_before_def GetJobs_def select_sleep_def sent_def tflog_def world0_def
        job_42_fails_later_def job_42_fails_def job_fails_def healthy_def failed_job_def
        minute_def second_def pollInterval_def)
  have seenl: "job_failure_seen job_42_fails_later 7 (5 * minute)
      (sent job_42_fails_later (ConfigureCall 7 req) (tflog Info msg world0)) failed_job" for req msg
    unfolding job_failure_seen_def
    by (intro exI [of _ "Suc 0"] exI [of _ "[failed_job]"] conjI pl)
       (simp_all add: GetJobs_def select_sleep_def sent_def tflog_def world0_def
          job_42_fails_later_def job_42_fails_def job_fails_def healthy_def failed_job_def
          minute_def second_def pollInterval_def)
  have ul: "Diagnostics (fst (clusterUserResource_Create job_42_fails_later user_plan world0)) =
       [AddError ''Error waiting for user creation'' (Some (JobFailed 42 ''configure'' ''role already exists''))] \<and>
     State (fst (clusterUserResource_Create job_42_fails_later user_plan world0)) = Untouched"
    using job_failure_propagation [where env = job_42_fails_later and w = world0 and cid = 7
        and resp = "ok_response\<lparr>resp_JobID := 42\<rparr>" and j = failed_job and up = user_plan
        and ?w1.0 = "sent job_42_fails_later (ConfigureCall 7
         (ConfigureRequest0\<lparr>req_Users := [ValueString (um_Username user_plan)]\<rparr>)) (tflog Info ''Creating cluster user'' world0)", THEN conjunct1]
      ucp cl seenl
    by (simp add: failed_job_def)

  from uc1 uc2 ud1 ud2 dc1 dc2 du1 du2 dd1 dd2 ec1 ec2 gc1 gc2 gu1 gu2 fc1 fu1 fd1 ul show ?thesis
    by simp
qed

text \<open>
  Two runs in which the configure call succeeds with a job identifier other than zero and
  every poll of the cluster's jobs would list the failed job 42, and the operation ends
  without a diagnostic and without having sent a job-list request: \<open>Create\<close> of the
  firewall resource, which discards the response carrying the identifier 42, and \<open>Create\<close>
  of a user when the identifier is \<open>-1\<close>.
\<close>

theorem job_failure_not_propagated_counterexample:
  "fst (ConfigureWithRetry job_42_fails 7
      (ConfigureRequest0\<lparr>req_SourceIPs := [''10.0.0.0/8''], req_ReplaceIPs := True\<rparr>)
      (2 * minute) (tflog Info ''Setting cluster firewall rules'' world0)) =
     Inr (ok_response\<lparr>resp_JobID := 42\<rparr>) \<and>
   job_failure_seen job_42_fails 7 (5 * minute)
     (snd (ConfigureWithRetry job_42_fails 7
        (ConfigureRequest0\<lparr>req_SourceIPs := [''10.0.0.0/8''], req_ReplaceIPs := True\<rparr>)
        (2 * minute) (tflog Info ''Setting cluster firewall rules'' world0))) failed_job \<and>
   Diagnostics (fst (clusterFirewallResource_Create job_42_fails (firewall_plan [''10.0.0.0/8''])
     world0)) = [] \<and>
   State (fst (clusterFirewallResource_Create job_42_fails (firewall_plan [''10.0.0.0/8''])
     world0)) = SetState ((firewall_plan [''10.0.0.0/8''])\<lparr>fm_ID := StringValue ''7''\<rparr>) \<and>
   trace (snd (clusterFirewallResource_Create job_42_fails (firewall_plan [''10.0.0.0/8''])
     world0)) =
     [ConfigureCall 7 (ConfigureRequest0\<lparr>req_SourceIPs := [''10.0.0.0/8''], req_ReplaceIPs := True\<rparr>)] \<and>
   fst (ConfigureWithRetry job_minus_1_fails 7 (ConfigureRequest0\<lparr>req_Users := [''alice'']\<rparr>)
      (2 * minute) (tflog Info ''Creating cluster user'' world0)) =
     Inr (ok_response\<lparr>resp_JobID := - 1\<rparr>) \<and>
   job_failure_seen job_minus_1_fails 7 (5 * minute)
     (snd (ConfigureWithRetry job_minus_1_fails 7 (ConfigureRequest0\<lparr>req_Users := [''alice'']\<rparr>)
        (2 * minute) (tflog Info ''Creating cluster user'' world0))) failed_job \<and>
   Diagnostics (fst (clusterUserResource_Create job_minus_1_fails user_plan world0)) = [] \<and>
   trace (snd (clusterUserResource_Create job_minus_1_fails user_plan world0)) =
     [ConfigureCall 7 (ConfigureRequest0\<lparr>req_Users := [''alice'']\<rparr>)]"
proof -
  have cf: "ConfigureWithRetry job_42_fails 7 req (2 * minute) w =
      (Inr (ok_response\<lparr>resp_JobID := 42\<rparr>), sent job_42_fails (ConfigureCall 7 req) w)" for req w
    unfolding ConfigureWithRetry_def
    by (subst ConfigureWithRetry_loop.simps)
       (simp add: ConfigureCluster_def job_42_fails_def job_fails_def healthy_def)
  have cm: "ConfigureWithRetry job_minus_1_fails 7 req (2 * minute) w =
      (Inr (ok_response\<lparr>resp_JobID := - 1\<rparr>), sent job_minus_1_fails (ConfigureCall 7 req) w)" for req w
    unfolding ConfigureWithRetry_def
    by (subst ConfigureWithRetry_loop.simps)
       (simp add: ConfigureCluster_def job_minus_1_fails_def job_fails_def healthy_def)
  have seen: "job_failure_seen job_42_fails 7 (5 * minute) w failed_job" for w
    unfolding job_failure_seen_def
    by (intro exI [of _ 0] exI [of _ "[running_job, failed_job]"])
       (simp add: pending_before_def GetJobs_def job_42_fails_def job_fails_def healthy_def
          running_job_def failed_job_def minute_def second_def)
  have seenm: "job_failure_seen job_minus_1_fails 7 (5 * minute) w failed_job" for w
    unfolding job_failure_seen_def
    by (intro exI [of _ 0] exI [of _ "[running_job, failed_job]"])
       (simp add: pending_before_def GetJobs_def job_minus_1_fails_def job_fails_def healthy_def
          running_job_def failed_job_def minute_def second_def)
  have f: "clusterFirewallResource_Create job_42_fails (firewall_plan [''10.0.0.0/8'']) world0 =
      (\<lparr>Diagnostics = [],
        State = SetState ((firewall_plan [''10.0.0.0/8''])\<lparr>fm_ID := StringValue ''7''\<rparr>)\<rparr>,
       sent job_42_fails (ConfigureCall 7 (ConfigureRequest0\<lparr>req_SourceIPs := [''10.0.0.0/8''], req_ReplaceIPs := True\<rparr>))
         (tflog Info ''Setting cluster firewall rules'' world0))"
    by (simp add: clusterFirewallResource_Create_def firewall_plan_def Atoi_7 cf done_with_def)
  have u: "Diagnostics (fst (clusterUserResource_Create job_minus_1_fails user_plan world0)) = [] \<and>
      snd (clusterUserResource_Create job_minus_1_fails user_plan world0) =
        sent job_minus_1_fails (ConfigureCall 7 (ConfigureRequest0\<lparr>req_Users := [''alice'']\<rparr>))
          (tflog Info ''Creating cluster user'' world0)"
    by (simp add: clusterUserResource_Create_def user_plan_def Atoi_7 cm done_with_def Let_def)
  have t0: "trace (sent env c (tflog l m world0)) = [c]" for env c l m
    by (simp add: sent_def tflog_def world0_def)
  show ?thesis
    by (simp add: cf cm seen seenm f u t0)
qed


section \<open>Verification: remotely generated values\<close>

lemma extension_database_resolution:
  assumes p: "Atoi (ValueString (em_ClusterID ep)) = Inr cid"
    and c: "ConfigureWithRetry env cid
        (ConfigureRequest0\<lparr>req_Extensions := [\<lparr>extreq_Extension = ValueString (em_Extension ep),
           extreq_Database = (if \<not> IsNull (em_Database ep) \<and> \<not> IsUnknown (em_Database ep)
                              then ValueString (em_Database ep) else [])\<rparr>]\<rparr>)
        (2 * minute) (tflog Info ''Creating cluster extension'' w) = (Inr resp, w1)"
    and j: "job_wait env cid resp w1 = (None, w2)"
  shows "clusterExtensionResource_Create env ep w =
     (let ext = ValueString (em_Extension ep);
          w3 = sent env (GetClusterCall cid) w2;
          a = response_database ext resp;
          b = cluster_database ext (rsp_cluster env w2 cid);
          d = default_database (em_Database ep) (rsp_cluster env w3 cid);
          database = first_present [a, b, d]
      in (done_with (SetState (ep\<lparr>em_Database := StringValue database,
               em_ID := StringValue (Itoa cid @ ''/'' @ ext @ ''/'' @ database)\<rparr>)),
          if a \<noteq> None then w2
          else if b \<noteq> None \<or> known (em_Database ep) then w3
          else sent env (GetClusterCall cid) w3))"
proof -
  let ?ext = "ValueString (em_Extension ep)"
  let ?w3 = "sent env (GetClusterCall cid) w2"
  note j' = j [unfolded job_wait_def]
  note defs = clusterExtensionResource_Create_def Let_def GetCluster_def
    response_database_def cluster_database_def default_database_def nonempty_def known_def
  show ?thesis
  proof (cases "response_database ?ext resp")
    case (Some s)
    then show ?thesis
      using p c j'
      by (auto simp: defs split: option.splits if_splits)
  next
    case a: None
    then have d1: "(case find (\<lambda>e. er_Extension e = ?ext) (resp_Extensions resp) of
        None \<Rightarrow> [] | Some e \<Rightarrow> er_Database e) = []"
      by (auto simp: response_database_def nonempty_def split: option.splits if_splits)
    show ?thesis
    proof (cases "cluster_database ?ext (rsp_cluster env w2 cid)")
      case (Some s)
      then obtain cl e where r: "rsp_cluster env w2 cid = Inr cl"
        and f: "find (\<lambda>e. ce_Extension e = ?ext) (c_Extensions cl) = Some e"
        and s: "ce_Database e = s" "s \<noteq> []"
        by (auto simp: cluster_database_def nonempty_def split: sum.splits option.splits if_splits)
      show ?thesis
        using p c j' d1 a Some r f s
        by (simp add: clusterExtensionResource_Create_def Let_def GetCluster_def)
    next
      case b: None
      then have d2: "(case rsp_cluster env w2 cid of
          Inl err \<Rightarrow> []
        | Inr cl \<Rightarrow> (case find (\<lambda>e. ce_Extension e = ?ext) (c_Extensions cl) of
                       None \<Rightarrow> [] | Some e \<Rightarrow> ce_Database e)) = []"
        by (auto simp: cluster_database_def nonempty_def split: sum.splits option.splits if_splits)
      have step2: "(case GetCluster env cid w2 of
            (Inl err, w') \<Rightarrow> ([], w')
          | (Inr cluster, w') \<Rightarrow>
              (case find (\<lambda>ext. ce_Extension ext = ?ext) (c_Extensions cluster) of
                 None \<Rightarrow> [] | Some ext \<Rightarrow> ce_Database ext, w')) = ([], ?w3)"
        using d2 by (simp add: GetCluster_def split: sum.splits)
      show ?thesis
      proof (cases "known (em_Database ep)")
        case True
        then show ?thesis
          using p c j' d1 a b step2
          by (simp add: clusterExtensionResource_Create_def Let_def default_database_def
              nonempty_def known_def)
      next
        case False
        then have nk: "\<not> (\<not> IsNull (em_Database ep) \<and> \<not> IsUnknown (em_Database ep))"
          by (simp add: known_def)
        have step3: "(case GetCluster env cid ?w3 of
              (Inl err, w') \<Rightarrow> ([], w')
            | (Inr cluster, w') \<Rightarrow> (c_DBName cluster, w')) =
            (first_present [default_database (em_Database ep) (rsp_cluster env ?w3 cid)],
             sent env (GetClusterCall cid) ?w3)"
          using False
          by (simp add: GetCluster_def default_database_def nonempty_def split: sum.splits)
        show ?thesis
          using p c j' d1 a b step2 False
          by (simp add: clusterExtensionResource_Create_def Let_def nk step3)
      qed
    qed
  qed
qed


lemma database_owner_resolution:
  assumes p: "Atoi (ValueString (dm_ClusterID dp)) = Inr cid"
    and c: "ConfigureWithRetry env cid
        (ConfigureRequest0\<lparr>req_Databases := [\<lparr>dbreq_Name = ValueString (dm_Name dp),
           dbreq_Owner = (if \<not> IsNull (dm_Owner dp) \<and> \<not> IsUnknown (dm_Owner dp)
                          then ValueString (dm_Owner dp) else [])\<rparr>]\<rparr>)
        (2 * minute) (tflog Info ''Creating cluster database'' w) = (Inr resp, w1)"
    and j: "job_wait env cid resp w1 = (None, w2)"
  shows "clusterDatabaseResource_Create env dp w =
     (let name = ValueString (dm_Name dp);
          a = response_owner name resp;
          b = planned_owner (dm_Owner dp);
          d = cluster_owner name (rsp_cluster env w2 cid)
      in (done_with (SetState (dp\<lparr>dm_ID := StringValue (Itoa cid @ ''/'' @ name),
               dm_Owner := StringValue (first_present [a, b, d])\<rparr>)),
          if a = None \<and> b = None then sent env (GetClusterCall cid) w2 else w2))"
proof -
  let ?name = "ValueString (dm_Name dp)"
  note j' = j [unfolded job_wait_def]
  show ?thesis
  proof (cases "find (\<lambda>d. dr_Name d = ?name) (resp_Databases resp)")
    case (Some db)
    then show ?thesis
      using p c j'
      by (simp add: clusterDatabaseResource_Create_def Let_def response_owner_def)
  next
    case a: None
    show ?thesis
    proof (cases "dm_Owner dp")
      case (StringValue v)
      then show ?thesis
        using p c j' a
        by (cases dp)
           (simp add: clusterDatabaseResource_Create_def Let_def response_owner_def
             planned_owner_def known_def)
    next
      case StringNull
      show ?thesis
      proof (cases "rsp_cluster env w2 cid")
        case (Inl err)
        then show ?thesis
          using p c j' a StringNull
          by (simp add: clusterDatabaseResource_Create_def Let_def response_owner_def
              planned_owner_def known_def cluster_owner_def GetCluster_def)
      next
        case (Inr cl)
        then show ?thesis
          using p c j' a StringNull
          by (cases "find (\<lambda>d. cd_DBName d = ?name) (c_Databases cl)")
             (simp_all add: clusterDatabaseResource_Create_def Let_def response_owner_def
               planned_owner_def known_def cluster_owner_def GetCluster_def)
      qed
    next
      case StringUnknown
      show ?thesis
      proof (cases "rsp_cluster env w2 cid")
        case (Inl err)
        then show ?thesis
          using p c j' a StringUnknown
          by (simp add: clusterDatabaseResource_Create_def Let_def response_owner_def
              planned_owner_def known_def cluster_owner_def GetCluster_def)
      next
        case (Inr cl)
        then show ?thesis
          using p c j' a StringUnknown
          by (cases "find (\<lambda>d. cd_DBName d = ?name) (c_Databases cl)")
             (simp_all add: clusterDatabaseResource_Create_def Let_def response_owner_def
               planned_owner_def known_def cluster_owner_def GetCluster_def)
      qed
    qed
  qed
qed

lemma user_password_resolution:
  assumes p: "Atoi (ValueString (um_ClusterID up)) = Inr cid"
    and c: "ConfigureWithRetry env cid
        (ConfigureRequest0\<lparr>req_Users := [ValueString (um_Username up)]\<rparr>)
        (2 * minute) (tflog Info ''Creating cluster user'' w) = (Inr resp, w1)"
    and j: "job_wait env cid resp w1 = (None, w2)"
  shows "clusterUserResource_Create env up w =
     (done_with (SetState
        (case response_password (ValueString (um_Username up)) resp of
           None \<Rightarrow> up\<lparr>um_ID := StringValue (Itoa cid @ ''/'' @ ValueString (um_Username up))\<rparr>
         | Some pw \<Rightarrow>
             up\<lparr>um_ID := StringValue (Itoa cid @ ''/'' @ ValueString (um_Username up)),
                um_Password := StringValue pw\<rparr>)), w2)"
  using p c j [unfolded job_wait_def]
  by (cases "find (\<lambda>u. ur_Username u = ValueString (um_Username up)) (resp_Users resp)")
     (simp_all add: clusterUserResource_Create_def Let_def response_password_def)

text \<open>
  C4, as amended. After a configure call that succeeded with response \<open>resp\<close> and a job
  wait that succeeded in world \<open>w2\<close>:
  the database of an extension is the first non-empty one of the entry of the response,
  the entry of the cluster re-read at \<open>w2\<close>, and the planned value or, with none planned,
  the default database of a second re-read; the empty placeholder otherwise. The cluster
  is re-read once when the response has no value, and a second time when the re-read and
  the plan have none either.
  The owner of a database is the first present one of the entry of the response, the
  planned owner, and the entry of the cluster re-read at \<open>w2\<close>; the empty placeholder
  otherwise. The cluster is re-read only when neither the response nor the plan has an
  owner.
  The password of a user is the one of the response when the response has an entry for
  the user; \<open>Create\<close> of a user never re-reads the cluster.
\<close>

theorem generated_values_resolution:
  "(Atoi (ValueString (em_ClusterID ep)) = Inr cid \<and>
    ConfigureWithRetry env cid
        (ConfigureRequest0\<lparr>req_Extensions := [\<lparr>extreq_Extension = ValueString (em_Extension ep),
           extreq_Database = (if \<not> IsNull (em_Database ep) \<and> \<not> IsUnknown (em_Database ep)
                              then ValueString (em_Database ep) else [])\<rparr>]\<rparr>)
        (2 * minute) (tflog Info ''Creating cluster extension'' w) = (Inr resp, w1) \<and>
    job_wait env cid resp w1 = (None, w2) \<longrightarrow>
      clusterExtensionResource_Create env ep w =
        (let ext = ValueString (em_Extension ep);
             w3 = sent env (GetClusterCall cid) w2;
             a = response_database ext resp;
             b = cluster_database ext (rsp_cluster env w2 cid);
             d = default_database (em_Database ep) (rsp_cluster env w3 cid);
             database = first_present [a, b, d]
         in (done_with (SetState (ep\<lparr>em_Database := StringValue database,
                  em_ID := StringValue (Itoa cid @ ''/'' @ ext @ ''/'' @ database)\<rparr>)),
             if a \<noteq> None then w2
             else if b \<noteq> None \<or> known (em_Database ep) then w3
             else sent env (GetClusterCall cid) w3)))
   \<and>
   (Atoi (ValueString (dm_ClusterID dp)) = Inr cid \<and>
    ConfigureWithRetry env cid
        (ConfigureRequest0\<lparr>req_Databases := [\<lparr>dbreq_Name = ValueString (dm_Name dp),
           dbreq_Owner = (if \<not> IsNull (dm_Owner dp) \<and> \<not> IsUnknown (dm_Owner dp)
                          then ValueString (dm_Owner dp) else [])\<rparr>]\<rparr>)
        (2 * minute) (tflog Info ''Creating cluster database'' w) = (Inr resp, w1) \<and>
    job_wait env cid resp w1 = (None, w2) \<longrightarrow>
      clusterDatabaseResource_Create env dp w =
        (let name = ValueString (dm_Name dp);
             a = response_owner name resp;
             b = planned_owner (dm_Owner dp);
             d = cluster_owner name (rsp_cluster env w2 cid)
         in (done_with (SetState (dp\<lparr>dm_ID := StringValue (Itoa cid @ ''/'' @ name),
                  dm_Owner := StringValue (first_present [a, b, d])\<rparr>)),
             if a = None \<and> b = None then sent env (GetClusterCall cid) w2 else w2)))
   \<and>
   (Atoi (ValueString (um_ClusterID up)) = Inr cid \<and>
    ConfigureWithRetry env cid
        (ConfigureRequest0\<lparr>req_Users := [ValueString (um_Username up)]\<rparr>)
        (2 * minute) (tflog Info ''Creating cluster user'' w) = (Inr resp, w1) \<and>
    job_wait env cid resp w1 = (None, w2) \<longrightarrow>
      snd (clusterUserResource_Create env up w) = w2 \<and>
      (response_password (ValueString (um_Username up)) resp = Some pw \<longrightarrow>
         fst (clusterUserResource_Create env up w) =
           done_with (SetState
             (up\<lparr>um_ID := StringValue (Itoa cid @ ''/'' @ ValueString (um_Username up)),
                 um_Password := StringValue pw\<rparr>))))"
proof (intro conjI impI; elim conjE)
  assume "Atoi (ValueString (em_ClusterID ep)) = Inr cid"
    and "ConfigureWithRetry env cid
        (ConfigureRequest0\<lparr>req_Extensions := [\<lparr>extreq_Extension = ValueString (em_Extension ep),
           extreq_Database = (if \<not> IsNull (em_Database ep) \<and> \<not> IsUnknown (em_Database ep)
                              then ValueString (em_Database ep) else [])\<rparr>]\<rparr>)
        (2 * minute) (tflog Info ''Creating cluster extension'' w) = (Inr resp, w1)"
    and "job_wait env cid resp w1 = (None, w2)"
  then show "clusterExtensionResource_Create env ep w =
        (let ext = ValueString (em_Extension ep);
             w3 = sent env (GetClusterCall cid) w2;
             a = response_database ext resp;
             b = cluster_database ext (rsp_cluster env w2 cid);
             d = default_database (em_Database ep) (rsp_cluster env w3 cid);
             database = first_present [a, b, d]
         in (done_with (SetState (ep\<lparr>em_Database := StringValue database,
                  em_ID := StringValue (Itoa cid @ ''/'' @ ext @ ''/'' @ database)\<rparr>)),
             if a \<noteq> None then w2
             else if b \<noteq> None \<or> known (em_Database ep) then w3
             else sent env (GetClusterCall cid) w3))"
    by (rule extension_database_resolution)
next
  assume "Atoi (ValueString (dm_ClusterID dp)) = Inr cid"
    and "ConfigureWithRetry env cid
        (ConfigureRequest0\<lparr>req_Databases := [\<lparr>dbreq_Name = ValueString (dm_Name dp),
           dbreq_Owner = (if \<not> IsNull (dm_Owner dp) \<and> \<not> IsUnknown (dm_Owner dp)
                          then ValueString (dm_Owner dp) else [])\<rparr>]\<rparr>)
        (2 * minute) (tflog Info ''Creating cluster database'' w) = (Inr resp, w1)"
    and "job_wait env cid resp w1 = (None, w2)"
  then show "clusterDatabaseResource_Create env dp w =
        (let name = ValueString (dm_Name dp);
             a = response_owner name resp;
             b = planned_owner (dm_Owner dp);
             d = cluster_owner name (rsp_cluster env w2 cid)
         in (done_with (SetState (dp\<lparr>dm_ID := StringValue (Itoa cid @ ''/'' @ name),
                  dm_Owner := StringValue (first_present [a, b, d])\<rparr>)),
             if a = None \<and> b = None then sent env (GetClusterCall cid) w2 else w2))"
    by (rule database_owner_resolution)
next
  assume a: "Atoi (ValueString (um_ClusterID up)) = Inr cid"
    "ConfigureWithRetry env cid
        (ConfigureRequest0\<lparr>req_Users := [ValueString (um_Username up)]\<rparr>)
        (2 * minute) (tflog Info ''Creating cluster user'' w) = (Inr resp, w1)"
    "job_wait env cid resp w1 = (None, w2)"
  show "snd (clusterUserResource_Create env up w) = w2"
    unfolding user_password_resolution [OF a] by simp
  assume "response_password (ValueString (um_Username up)) resp = Some pw"
  then show "fst (clusterUserResource_Create env up w) =
           done_with (SetState
             (up\<lparr>um_ID := StringValue (Itoa cid @ ''/'' @ ValueString (um_Username up)),
                 um_Password := StringValue pw\<rparr>))"
    unfolding user_password_resolution [OF a] by simp
qed


lemma Itoa_7: "Itoa 7 = ''7''"
  by (simp add: Itoa_def show_nat.simps digit_char_def)

theorem generated_values_resolution_witness:
  "fst (clusterExtensionResource_Create terse_response extension_plan world0) =
     done_with (SetState (extension_plan\<lparr>em_Database := StringValue ''appdb'',
       em_ID := StringValue ''7/pgvector/appdb''\<rparr>)) \<and>
   fst (clusterDatabaseResource_Create terse_response database_plan world0) =
     done_with (SetState (database_plan\<lparr>dm_ID := StringValue ''7/appdb'',
       dm_Owner := StringValue ''alice''\<rparr>)) \<and>
   fst (clusterUserResource_Create terse_response user_plan world0) =
     done_with (SetState (user_plan\<lparr>um_ID := StringValue ''7/alice'',
       um_Password := StringValue ''generated''\<rparr>))"
proof -
  let ?resp = "ok_response\<lparr>resp_Users := [\<lparr>ur_Username = ''alice'', ur_Password = ''generated''\<rparr>]\<rparr>"
  have cw: "ConfigureWithRetry terse_response 7 req (2 * minute) w0 =
      (Inr ?resp, sent terse_response (ConfigureCall 7 req) w0)" for req w0
    unfolding ConfigureWithRetry_def
    by (subst ConfigureWithRetry_loop.simps)
       (simp add: ConfigureCluster_def terse_response_def healthy_def)
  have jw: "job_wait terse_response 7 ?resp w1 = (None, w1)" for w1
    by (simp add: job_wait_def ok_response_def)
  have pe: "Atoi (ValueString (em_ClusterID extension_plan)) = Inr 7"
    and pd: "Atoi (ValueString (dm_ClusterID database_plan)) = Inr 7"
    and pu: "Atoi (ValueString (um_ClusterID user_plan)) = Inr 7"
    by (simp_all add: extension_plan_def database_plan_def user_plan_def Atoi_7)
  have rp: "response_password (ValueString (um_Username user_plan)) ?resp = Some ''generated''"
    by (simp add: response_password_def user_plan_def ok_response_def)
  note t = generated_values_resolution [where env = terse_response and w = world0 and cid = 7
      and resp = ?resp and ep = extension_plan and dp = database_plan and up = user_plan
      and pw = "''generated''"]
  have e: "fst (clusterExtensionResource_Create terse_response extension_plan world0) =
     done_with (SetState (extension_plan\<lparr>em_Database := StringValue ''appdb'',
       em_ID := StringValue ''7/pgvector/appdb''\<rparr>))"
    using t [THEN conjunct1, rule_format, OF conjI [OF pe conjI [OF cw jw]]]
    by (simp add: Let_def response_database_def cluster_database_def default_database_def
        nonempty_def terse_response_def healthy_def ok_response_def cluster1_def cluster0_def
        extension_plan_def Itoa_7)
  have d: "fst (clusterDatabaseResource_Create terse_response database_plan world0) =
     done_with (SetState (database_plan\<lparr>dm_ID := StringValue ''7/appdb'',
       dm_Owner := StringValue ''alice''\<rparr>))"
    using t [THEN conjunct2, THEN conjunct1, rule_format, OF conjI [OF pd conjI [OF cw jw]]]
    by (simp add: Let_def response_owner_def planned_owner_def cluster_owner_def known_def
        terse_response_def healthy_def ok_response_def cluster1_def cluster0_def
        database_plan_def Itoa_7)
  have u: "fst (clusterUserResource_Create terse_response user_plan world0) =
     done_with (SetState (user_plan\<lparr>um_ID := StringValue ''7/alice'',
       um_Password := StringValue ''generated''\<rparr>))"
    using t [THEN conjunct2, THEN conjunct2, rule_format, OF conjI [OF pu conjI [OF cw jw]],
        THEN conjunct2, rule_format, OF rp]
    by (simp add: user_plan_def Itoa_7)
  from e d u show ?thesis by simp
qed

text \<open>
  C4 as stated fails for the user password: when the configure response carries no entry
  for the user, \<open>Create\<close> neither re-reads the cluster nor falls back to a default or to
  the empty placeholder; the password of the state it sets is still unknown.
\<close>

theorem user_password_no_fallback_counterexample:
  "response_password ''alice'' ok_response = None \<and>
   (\<exists>st. State (fst (clusterUserResource_Create healthy user_plan world0)) = SetState st \<and>
      um_Password st = StringUnknown) \<and>
   GetClusterCall 7 \<notin> set (trace (snd (clusterUserResource_Create healthy user_plan world0)))"
proof -
  have cw: "ConfigureWithRetry healthy 7 req (2 * minute) w0 =
      (Inr ok_response, sent healthy (ConfigureCall 7 req) w0)" for req w0
    unfolding ConfigureWithRetry_def
    by (subst ConfigureWithRetry_loop.simps) (simp add: ConfigureCluster_def healthy_def)
  show ?thesis
    by (simp add: response_password_def clusterUserResource_Create_def user_plan_def Atoi_7 cw
        ok_response_def done_with_def sent_def tflog_def world0_def Let_def)
qed

section \<open>Verification: scale sequencing\<close>

lemma WaitForJobComplete_loop_success_polled:
  "fst (WaitForJobComplete_loop env cid t d w) = None \<Longrightarrow>
   \<exists>n>0. trace (snd (WaitForJobComplete_loop env cid t d w)) =
     trace w @ replicate n (GetJobsCall cid)"
proof -
  assume ok: "fst (WaitForJobComplete_loop env cid t d w) = None"
  from WaitForJobComplete_loop_trace [of env cid t d w] obtain n
    where n: "trace (snd (WaitForJobComplete_loop env cid t d w)) =
      trace w @ replicate n (GetJobsCall cid)"
    by blast
  have "n \<noteq> 0"
  proof
    assume "n = 0"
    with n have same: "trace (snd (WaitForJobComplete_loop env cid t d w)) = trace w"
      by simp
    show False
    proof (cases "clock w < d")
      case False
      with ok show False
        by (subst (asm) WaitForJobComplete_loop.simps) simp
    next
      case True
      obtain r w1 where g: "GetJobs env cid w = (r, w1)"
        by (cases "GetJobs env cid w")
      then have t1: "trace w1 = trace w @ [GetJobsCall cid]"
        by (auto simp: GetJobs_def sent_def)
      from WaitForJobComplete_loop_trace [of env cid t d "snd (select_sleep env pollInterval w1)"]
      obtain k where k: "trace (snd (WaitForJobComplete_loop env cid t d
          (snd (select_sleep env pollInterval w1)))) =
          trace (snd (select_sleep env pollInterval w1)) @ replicate k (GetJobsCall cid)"
        by blast
      have t2: "trace (snd (select_sleep env pollInterval w1)) = trace w1"
        by (auto simp: select_sleep_def split: option.splits if_splits)
      have "length (trace (snd (WaitForJobComplete_loop env cid t d w))) > length (trace w)"
        using True g t1 t2 k
        by (subst WaitForJobComplete_loop.simps)
           (auto split: sum.splits option.splits prod.splits bool.splits)
      with same show False by simp
    qed
  qed
  with n show ?thesis by blast
qed

lemma add_round_trace:
  "add_round_ok env ident w \<Longrightarrow>
   \<exists>m>0. trace (snd (add_round env ident w)) = trace w @ add_round_calls ident m"
proof -
  assume "add_round_ok env ident w"
  then have "fst (WaitForJobComplete env ident (10 * minute) (snd (AddNode env ident w))) = None"
    by (simp add: add_round_ok_def add_round_def)
  from WaitForJobComplete_loop_success_polled [OF this [unfolded WaitForJobComplete_def]]
  show ?thesis
    by (auto simp: add_round_def WaitForJobComplete_def add_round_calls_def AddNode_def sent_def)
qed

lemma after_adds_trace:
  "adds_ok env ident w n \<Longrightarrow>
   \<exists>ms. length ms = n \<and> (\<forall>m\<in>set ms. 0 < m) \<and>
     trace (after_adds env ident w n) = trace w @ concat (map (add_round_calls ident) ms)"
proof (induction n arbitrary: w)
  case 0
  then show ?case by simp
next
  case (Suc n)
  then have r: "add_round_ok env ident w"
    and rest: "adds_ok env ident (snd (add_round env ident w)) n"
    by simp_all
  from add_round_trace [OF r] obtain m where m: "0 < m"
    "trace (snd (add_round env ident w)) = trace w @ add_round_calls ident m"
    by blast
  from Suc.IH [OF rest] obtain ms where ms: "length ms = n" "\<forall>m\<in>set ms. 0 < m"
    "trace (after_adds env ident (snd (add_round env ident w)) n) =
       trace (snd (add_round env ident w)) @ concat (map (add_round_calls ident) ms)"
    by blast
  show ?case
    using m ms by (intro exI [of _ "m # ms"]) simp
qed

lemma add_nodes_skip:
  "adds_ok env ident w n \<Longrightarrow> int n \<le> newCount - i \<Longrightarrow>
   add_nodes env ident i newCount w =
   add_nodes env ident (i + int n) newCount (after_adds env ident w n)"
proof (induction n arbitrary: w i)
  case 0
  then show ?case by simp
next
  case (Suc n)
  then have r: "add_round_ok env ident w"
    and rest: "adds_ok env ident (snd (add_round env ident w)) n"
    and lt: "i < newCount" and le: "int n \<le> newCount - (i + 1)"
    by simp_all
  have "add_nodes env ident i newCount w =
      add_nodes env ident (i + 1) newCount (snd (add_round env ident w))"
    using r lt
    by (subst add_nodes.simps)
       (auto simp: add_round_ok_def add_round_def split: prod.splits option.splits)
  also have "\<dots> = add_nodes env ident (i + 1 + int n) newCount
      (after_adds env ident (snd (add_round env ident w)) n)"
    using Suc.IH [OF rest le] .
  also have "i + 1 + int n = i + int (Suc n)"
    by simp
  finally show ?case by (simp only: after_adds.simps)
qed

lemma adds_ok_Suc:
  "adds_ok env ident w (Suc n) =
     (adds_ok env ident w n \<and> add_round_ok env ident (after_adds env ident w n))"
  by (induction n arbitrary: w) auto


lemma remove_round_trace:
  "remove_round_ok env ident tenant i w \<Longrightarrow>
   \<exists>m>0. trace (snd (remove_round env ident tenant i w)) =
     trace w @ remove_round_calls ident tenant (i, m)"
proof -
  assume "remove_round_ok env ident tenant i w"
  then have "fst (WaitForJobComplete env ident (10 * minute)
      (snd (RemoveNode env ident (nodeName tenant i) w))) = None"
    by (simp add: remove_round_ok_def remove_round_def)
  from WaitForJobComplete_loop_success_polled [OF this [unfolded WaitForJobComplete_def]]
  show ?thesis
    by (auto simp: remove_round_def WaitForJobComplete_def remove_round_calls_def RemoveNode_def
        sent_def Let_def)
qed

lemma after_removes_trace:
  "removes_ok env ident tenant i w n \<Longrightarrow>
   \<exists>ms. length ms = n \<and> (\<forall>m\<in>set ms. 0 < m) \<and>
     trace (after_removes env ident tenant i w n) =
       trace w @ concat (map (remove_round_calls ident tenant) (zip (countdown i n) ms))"
proof (induction n arbitrary: w i)
  case 0
  then show ?case by simp
next
  case (Suc n)
  then have r: "remove_round_ok env ident tenant i w"
    and rest: "removes_ok env ident tenant (i - 1) (snd (remove_round env ident tenant i w)) n"
    by simp_all
  from remove_round_trace [OF r] obtain m where m: "0 < m"
    "trace (snd (remove_round env ident tenant i w)) =
       trace w @ remove_round_calls ident tenant (i, m)"
    by blast
  from Suc.IH [OF rest] obtain ms where ms: "length ms = n" "\<forall>m\<in>set ms. 0 < m"
    "trace (after_removes env ident tenant (i - 1) (snd (remove_round env ident tenant i w)) n) =
       trace (snd (remove_round env ident tenant i w)) @
       concat (map (remove_round_calls ident tenant) (zip (countdown (i - 1) n) ms))"
    by blast
  show ?case
    using m ms by (intro exI [of _ "m # ms"]) simp
qed

lemma remove_nodes_skip:
  "removes_ok env ident (c_TenantID cluster) i w n \<Longrightarrow> int n \<le> i - newCount \<Longrightarrow>
   remove_nodes env ident cluster i newCount w =
   remove_nodes env ident cluster (i - int n) newCount
     (after_removes env ident (c_TenantID cluster) i w n)"
proof (induction n arbitrary: w i)
  case 0
  then show ?case by simp
next
  case (Suc n)
  let ?t = "c_TenantID cluster"
  from Suc.prems have r: "remove_round_ok env ident ?t i w"
    and rest: "removes_ok env ident ?t (i - 1) (snd (remove_round env ident ?t i w)) n"
    and gt: "newCount < i" and le: "int n \<le> (i - 1) - newCount"
    by simp_all
  have "remove_nodes env ident cluster i newCount w =
      remove_nodes env ident cluster (i - 1) newCount (snd (remove_round env ident ?t i w))"
    using r gt
    by (subst remove_nodes.simps)
       (auto simp: remove_round_ok_def remove_round_def nodeName_def Let_def
          split: prod.splits option.splits)
  also have "\<dots> = remove_nodes env ident cluster (i - 1 - int n) newCount
      (after_removes env ident ?t (i - 1) (snd (remove_round env ident ?t i w)) n)"
    using Suc.IH [OF rest le] .
  also have "i - 1 - int n = i - int (Suc n)"
    by simp
  finally show ?case by (simp only: after_removes.simps)
qed

lemma add_round_failed_trace:
  "\<exists>m. trace (snd (AddNode env ident w)) = trace w @ add_round_calls ident 0 \<and>
       trace (snd (add_round env ident w)) = trace w @ add_round_calls ident m"
  using WaitForJobComplete_trace [of env ident "10 * minute" "snd (AddNode env ident w)"]
  by (auto simp: add_round_def add_round_calls_def AddNode_def sent_def)

lemma remove_round_failed_trace:
  "\<exists>m. trace (snd (RemoveNode env ident (nodeName tenant i) w)) =
         trace w @ remove_round_calls ident tenant (i, 0) \<and>
       trace (snd (remove_round env ident tenant i w)) =
         trace w @ remove_round_calls ident tenant (i, m)"
  using WaitForJobComplete_trace [of env ident "10 * minute"
      "snd (RemoveNode env ident (nodeName tenant i) w)"]
  by (auto simp: remove_round_def remove_round_calls_def RemoveNode_def sent_def Let_def)

lemma add_nodes_done:
  assumes "old < new" and "adds_ok env ident w (nat (new - old))"
  shows "add_nodes env ident old new w = (None, after_adds env ident w (nat (new - old)))"
proof -
  have "add_nodes env ident old new w =
      add_nodes env ident (old + int (nat (new - old))) new
        (after_adds env ident w (nat (new - old)))"
    using assms by (intro add_nodes_skip) simp_all
  also have "old + int (nat (new - old)) = new"
    using assms by simp
  finally show ?thesis
    by (subst (asm) (2) add_nodes.simps) simp
qed

lemma add_nodes_abort:
  assumes "old < new" and "k < nat (new - old)" and "adds_ok env ident w k"
    and "\<not> add_round_ok env ident (after_adds env ident w k)"
  shows "add_nodes env ident old new w =
      (if fst (AddNode env ident (after_adds env ident w k)) \<noteq> None
       then (Some (AddError ''Error adding node''
                     (fst (AddNode env ident (after_adds env ident w k)))),
             snd (AddNode env ident (after_adds env ident w k)))
       else (Some (AddError ''Error waiting for add-node job''
                     (fst (add_round env ident (after_adds env ident w k)))),
             snd (add_round env ident (after_adds env ident w k))))"
proof -
  let ?wk = "after_adds env ident w k"
  have "add_nodes env ident old new w = add_nodes env ident (old + int k) new ?wk"
    using assms by (intro add_nodes_skip) simp_all
  moreover have "old + int k < new"
    using assms by simp
  ultimately show ?thesis
    using assms(4)
    by (subst (asm) (2) add_nodes.simps)
       (auto simp: add_round_ok_def add_round_def split: prod.splits option.splits)
qed

lemma remove_nodes_done:
  assumes "new < old" and "removes_ok env ident (c_TenantID cluster) old w (nat (old - new))"
  shows "remove_nodes env ident cluster old new w =
     (None, after_removes env ident (c_TenantID cluster) old w (nat (old - new)))"
proof -
  have "remove_nodes env ident cluster old new w =
      remove_nodes env ident cluster (old - int (nat (old - new))) new
        (after_removes env ident (c_TenantID cluster) old w (nat (old - new)))"
    using assms by (intro remove_nodes_skip) simp_all
  also have "old - int (nat (old - new)) = new"
    using assms by simp
  finally show ?thesis
    by (subst (asm) (2) remove_nodes.simps) simp
qed

lemma remove_nodes_abort:
  assumes "new < old" and "k < nat (old - new)"
    and "removes_ok env ident (c_TenantID cluster) old w k"
    and "\<not> remove_round_ok env ident (c_TenantID cluster) (old - int k)
          (after_removes env ident (c_TenantID cluster) old w k)"
  shows "remove_nodes env ident cluster old new w =
      (if fst (RemoveNode env ident (nodeName (c_TenantID cluster) (old - int k))
                 (after_removes env ident (c_TenantID cluster) old w k)) \<noteq> None
       then (Some (AddError ''Error removing node''
                     (fst (RemoveNode env ident (nodeName (c_TenantID cluster) (old - int k))
                            (after_removes env ident (c_TenantID cluster) old w k)))),
             snd (RemoveNode env ident (nodeName (c_TenantID cluster) (old - int k))
                    (after_removes env ident (c_TenantID cluster) old w k)))
       else (Some (AddError ''Error waiting for remove-node job''
                     (fst (remove_round env ident (c_TenantID cluster) (old - int k)
                            (after_removes env ident (c_TenantID cluster) old w k)))),
             snd (remove_round env ident (c_TenantID cluster) (old - int k)
                    (after_removes env ident (c_TenantID cluster) old w k))))"
proof -
  let ?wk = "after_removes env ident (c_TenantID cluster) old w k"
  have "remove_nodes env ident cluster old new w =
      remove_nodes env ident cluster (old - int k) new ?wk"
    using assms by (intro remove_nodes_skip) simp_all
  moreover have "new < old - int k"
    using assms by simp
  ultimately show ?thesis
    using assms(4)
    by (subst (asm) (2) remove_nodes.simps)
       (auto simp: remove_round_ok_def remove_round_def nodeName_def Let_def
          split: prod.splits option.splits)
qed

lemma removes_ok_countdown_trace:
  assumes "removes_ok env ident tenant i w k"
  shows "\<exists>ms. length ms = k \<and> (\<forall>m\<in>set ms. 0 < m) \<and>
     trace (after_removes env ident tenant i w k) =
       trace w @ concat (map (remove_round_calls ident tenant) (zip (countdown i k) ms))"
  using assms by (rule after_removes_trace)

lemma Update_scale_out:
  fixes env plan state w ident
  defines "U \<equiv> clusterResource_Update env plan state w"
    and "w0 \<equiv> tflog Info ''Scaling cluster nodes'' w"
    and "n \<equiv> nat (rm_NodeCount plan - rm_NodeCount state)"
  assumes p: "Atoi (ValueString (rm_ID state)) = Inr ident"
    and lt: "rm_NodeCount state < rm_NodeCount plan"
    and ok: "adds_ok env ident w0 n"
  shows "snd U = snd (GetCluster env ident (after_adds env ident w0 n)) \<and>
     (\<exists>ms. length ms = n \<and> (\<forall>m\<in>set ms. 0 < m) \<and>
        trace (snd U) = trace w @ concat (map (add_round_calls ident) ms) @ [GetClusterCall ident])"
proof -
  have fin: "add_nodes env ident (rm_NodeCount state) (rm_NodeCount plan) w0 =
      (None, after_adds env ident w0 n)"
    using lt ok unfolding n_def by (rule add_nodes_done)
  have u: "snd U = snd (GetCluster env ident (after_adds env ident w0 n))"
    using p lt fin
    by (simp add: U_def w0_def clusterResource_Update_def Let_def GetCluster_def
        split: sum.splits)
  from after_adds_trace [OF ok] obtain ms where ms: "length ms = n" "\<forall>m\<in>set ms. 0 < m"
    "trace (after_adds env ident w0 n) = trace w0 @ concat (map (add_round_calls ident) ms)"
    by blast
  have "trace (snd U) = trace w @ concat (map (add_round_calls ident) ms) @ [GetClusterCall ident]"
    unfolding u using ms(3) by (simp add: GetCluster_def sent_def w0_def tflog_def)
  with u ms show ?thesis by blast
qed

lemma Update_scale_out_abort:
  fixes env plan state w ident k
  defines "U \<equiv> clusterResource_Update env plan state w"
    and "w0 \<equiv> tflog Info ''Scaling cluster nodes'' w"
  defines "wk \<equiv> after_adds env ident w0 k"
  assumes p: "Atoi (ValueString (rm_ID state)) = Inr ident"
    and lt: "rm_NodeCount state < rm_NodeCount plan"
    and k: "k < nat (rm_NodeCount plan - rm_NodeCount state)"
    and ok: "adds_ok env ident w0 k"
    and bad: "\<not> add_round_ok env ident wk"
  shows "U =
      (if fst (AddNode env ident wk) \<noteq> None
       then (\<lparr>Diagnostics = [AddError ''Error adding node'' (fst (AddNode env ident wk))],
              State = Untouched\<rparr>, snd (AddNode env ident wk))
       else (\<lparr>Diagnostics = [AddError ''Error waiting for add-node job''
                               (fst (add_round env ident wk))],
              State = Untouched\<rparr>, snd (add_round env ident wk))) \<and>
     (\<exists>ms m. length ms = k \<and> (\<forall>m\<in>set ms. 0 < m) \<and>
        trace (snd U) =
          trace w @ concat (map (add_round_calls ident) ms) @ add_round_calls ident m)"
proof -
  note ab = add_nodes_abort [OF lt k ok bad [unfolded wk_def], folded wk_def]
  have u: "U =
      (if fst (AddNode env ident wk) \<noteq> None
       then (\<lparr>Diagnostics = [AddError ''Error adding node'' (fst (AddNode env ident wk))],
              State = Untouched\<rparr>, snd (AddNode env ident wk))
       else (\<lparr>Diagnostics = [AddError ''Error waiting for add-node job''
                               (fst (add_round env ident wk))],
              State = Untouched\<rparr>, snd (add_round env ident wk)))"
    using p lt ab
    by (simp add: U_def w0_def clusterResource_Update_def Let_def)
  from after_adds_trace [OF ok] obtain ms where ms: "length ms = k" "\<forall>m\<in>set ms. 0 < m"
    "trace wk = trace w0 @ concat (map (add_round_calls ident) ms)"
    unfolding wk_def by blast
  from add_round_failed_trace [of env ident wk] obtain m
    where m: "trace (snd (AddNode env ident wk)) = trace wk @ add_round_calls ident 0"
      "trace (snd (add_round env ident wk)) = trace wk @ add_round_calls ident m"
    by blast
  have "\<exists>m. trace (snd U) =
      trace w @ concat (map (add_round_calls ident) ms) @ add_round_calls ident m"
  proof (cases "fst (AddNode env ident wk) \<noteq> None")
    case True
    then have "trace (snd U) =
        trace w @ concat (map (add_round_calls ident) ms) @ add_round_calls ident 0"
      using u m(1) ms(3) by (simp add: w0_def tflog_def)
    then show ?thesis ..
  next
    case False
    then have "trace (snd U) =
        trace w @ concat (map (add_round_calls ident) ms) @ add_round_calls ident m"
      using u m(2) ms(3) by (simp add: w0_def tflog_def)
    then show ?thesis ..
  qed
  with u ms show ?thesis by blast
qed


lemma Update_scale_in:
  fixes env plan state w ident cluster
  defines "U \<equiv> clusterResource_Update env plan state w"
    and "w0 \<equiv> tflog Info ''Scaling cluster nodes'' w"
    and "n \<equiv> nat (rm_NodeCount state - rm_NodeCount plan)"
  defines "w1 \<equiv> snd (GetCluster env ident w0)"
  assumes p: "Atoi (ValueString (rm_ID state)) = Inr ident"
    and gt: "rm_NodeCount plan < rm_NodeCount state"
    and g: "fst (GetCluster env ident w0) = Inr cluster"
    and ok: "removes_ok env ident (c_TenantID cluster) (rm_NodeCount state) w1 n"
  shows "snd U = snd (GetCluster env ident
           (after_removes env ident (c_TenantID cluster) (rm_NodeCount state) w1 n)) \<and>
     (\<exists>ms. length ms = n \<and> (\<forall>m\<in>set ms. 0 < m) \<and>
        trace (snd U) =
          trace w @ [GetClusterCall ident] @
          concat (map (remove_round_calls ident (c_TenantID cluster))
                    (zip (countdown (rm_NodeCount state) n) ms)) @
          [GetClusterCall ident])"
proof -
  let ?wn = "after_removes env ident (c_TenantID cluster) (rm_NodeCount state) w1 n"
  have fin: "remove_nodes env ident cluster (rm_NodeCount state) (rm_NodeCount plan) w1 =
      (None, ?wn)"
    using gt ok unfolding n_def by (rule remove_nodes_done)
  have gc: "GetCluster env ident w0 = (Inr cluster, w1)"
    using g by (simp add: w1_def prod_eq_iff)
  have u: "snd U = snd (GetCluster env ident ?wn)"
    using p gt gc fin
    by (simp add: U_def w0_def clusterResource_Update_def Let_def split: prod.splits sum.splits)
  from after_removes_trace [OF ok] obtain ms where ms: "length ms = n" "\<forall>m\<in>set ms. 0 < m"
    "trace ?wn = trace w1 @ concat (map (remove_round_calls ident (c_TenantID cluster))
        (zip (countdown (rm_NodeCount state) n) ms))"
    by blast
  have "trace (snd U) =
      trace w @ [GetClusterCall ident] @
      concat (map (remove_round_calls ident (c_TenantID cluster))
                (zip (countdown (rm_NodeCount state) n) ms)) @
      [GetClusterCall ident]"
    unfolding u using ms(3) by (simp add: GetCluster_def sent_def w0_def w1_def tflog_def)
  with u ms show ?thesis by blast
qed

lemma Update_scale_in_abort:
  fixes env plan state w ident cluster k
  defines "U \<equiv> clusterResource_Update env plan state w"
    and "w0 \<equiv> tflog Info ''Scaling cluster nodes'' w"
  defines "w1 \<equiv> snd (GetCluster env ident w0)"
  defines "wk \<equiv> after_removes env ident (c_TenantID cluster) (rm_NodeCount state) w1 k"
    and "name \<equiv> nodeName (c_TenantID cluster) (rm_NodeCount state - int k)"
  assumes p: "Atoi (ValueString (rm_ID state)) = Inr ident"
    and gt: "rm_NodeCount plan < rm_NodeCount state"
    and g: "fst (GetCluster env ident w0) = Inr cluster"
    and k: "k < nat (rm_NodeCount state - rm_NodeCount plan)"
    and ok: "removes_ok env ident (c_TenantID cluster) (rm_NodeCount state) w1 k"
    and bad: "\<not> remove_round_ok env ident (c_TenantID cluster) (rm_NodeCount state - int k) wk"
  shows "U =
      (if fst (RemoveNode env ident name wk) \<noteq> None
       then (\<lparr>Diagnostics = [AddError ''Error removing node'' (fst (RemoveNode env ident name wk))],
              State = Untouched\<rparr>, snd (RemoveNode env ident name wk))
       else (\<lparr>Diagnostics = [AddError ''Error waiting for remove-node job''
                 (fst (remove_round env ident (c_TenantID cluster) (rm_NodeCount state - int k) wk))],
              State = Untouched\<rparr>,
             snd (remove_round env ident (c_TenantID cluster) (rm_NodeCount state - int k) wk))) \<and>
     (\<exists>ms m. length ms = k \<and> (\<forall>m\<in>set ms. 0 < m) \<and>
        trace (snd U) =
          trace w @ [GetClusterCall ident] @
          concat (map (remove_round_calls ident (c_TenantID cluster))
                    (zip (countdown (rm_NodeCount state) k) ms)) @
          remove_round_calls ident (c_TenantID cluster) (rm_NodeCount state - int k, m))"
proof -
  let ?t = "c_TenantID cluster"
  let ?i = "rm_NodeCount state - int k"
  note ab = remove_nodes_abort [OF gt k ok bad [unfolded wk_def], folded wk_def name_def]
  have gc: "GetCluster env ident w0 = (Inr cluster, w1)"
    using g by (simp add: w1_def prod_eq_iff)
  have u: "U =
      (if fst (RemoveNode env ident name wk) \<noteq> None
       then (\<lparr>Diagnostics = [AddError ''Error removing node'' (fst (RemoveNode env ident name wk))],
              State = Untouched\<rparr>, snd (RemoveNode env ident name wk))
       else (\<lparr>Diagnostics = [AddError ''Error waiting for remove-node job''
                 (fst (remove_round env ident ?t ?i wk))],
              State = Untouched\<rparr>, snd (remove_round env ident ?t ?i wk)))"
    using p gt gc ab
    by (simp add: U_def w0_def clusterResource_Update_def Let_def)
  from after_removes_trace [OF ok] obtain ms where ms: "length ms = k" "\<forall>m\<in>set ms. 0 < m"
    "trace wk = trace w1 @ concat (map (remove_round_calls ident ?t)
        (zip (countdown (rm_NodeCount state) k) ms))"
    unfolding wk_def by blast
  from remove_round_failed_trace [of env ident ?t ?i wk] obtain m
    where m: "trace (snd (RemoveNode env ident name wk)) =
        trace wk @ remove_round_calls ident ?t (?i, 0)"
      "trace (snd (remove_round env ident ?t ?i wk)) =
        trace wk @ remove_round_calls ident ?t (?i, m)"
    unfolding name_def by blast
  have t1: "trace w1 = trace w @ [GetClusterCall ident]"
    by (simp add: w1_def w0_def GetCluster_def sent_def tflog_def)
  have "\<exists>m. trace (snd U) =
      trace w @ [GetClusterCall ident] @
      concat (map (remove_round_calls ident ?t) (zip (countdown (rm_NodeCount state) k) ms)) @
      remove_round_calls ident ?t (?i, m)"
  proof (cases "fst (RemoveNode env ident name wk) \<noteq> None")
    case True
    then have "trace (snd U) =
        trace w @ [GetClusterCall ident] @
        concat (map (remove_round_calls ident ?t) (zip (countdown (rm_NodeCount state) k) ms)) @
        remove_round_calls ident ?t (?i, 0)"
      using u m(1) ms(3) t1 by simp
    then show ?thesis ..
  next
    case False
    then have "trace (snd U) =
        trace w @ [GetClusterCall ident] @
        concat (map (remove_round_calls ident ?t) (zip (countdown (rm_NodeCount state) k) ms)) @
        remove_round_calls ident ?t (?i, m)"
      using u m(2) ms(3) t1 by simp
    then show ?thesis ..
  qed
  with u ms show ?thesis by blast
qed

lemma Update_scale_in_reread_fails:
  assumes p: "Atoi (ValueString (rm_ID state)) = Inr ident"
    and gt: "rm_NodeCount plan < rm_NodeCount state"
    and g: "fst (GetCluster env ident (tflog Info ''Scaling cluster nodes'' w)) = Inl err"
  shows "clusterResource_Update env plan state w =
     (\<lparr>Diagnostics = [AddError ''Error reading cluster'' (Some err)], State = Untouched\<rparr>,
      snd (GetCluster env ident (tflog Info ''Scaling cluster nodes'' w)))"
proof -
  obtain w1 where gc: "GetCluster env ident (tflog Info ''Scaling cluster nodes'' w) = (Inl err, w1)"
    using g by (cases "GetCluster env ident (tflog Info ''Scaling cluster nodes'' w)") simp
  show ?thesis
    using p gt
    by (simp add: clusterResource_Update_def Let_def gc)
qed


text \<open>
  C2. For an update of the cluster resource whose stored identifier parses, with node
  counts \<open>old\<close> (state) and \<open>new\<close> (plan), \<open>w0\<close> being the world after the log entry:

  (1) \<open>old < new\<close>, every round succeeds: the requests sent are exactly \<open>new - old\<close>
  add-node requests, each followed by one or more job polls of its wait before the next,
  then the refreshing cluster read.
  (2) \<open>old < new\<close>, the first \<open>k\<close> rounds succeed and round \<open>k + 1\<close> fails in its request
  or in its wait: the update ends there with one error diagnostic and no state; the trace
  ends inside round \<open>k + 1\<close>.
  (3) \<open>new < old\<close>, the cluster is re-read and every round succeeds: after the re-read,
  exactly \<open>old - new\<close> remove-node requests are sent, naming the nodes
  \<open>tenant-db-old\<close>, \<open>tenant-db-(old - 1)\<close>, ... with the tenant identifier of the
  re-read cluster, each followed by one or more job polls, then the refreshing read.
  (4) \<open>new < old\<close>, failure in round \<open>k + 1\<close>: as in (2).
  (5) \<open>new < old\<close> and the re-read fails: one error diagnostic, and no remove-node
  request.
  From 1 to 3 these are two add-node requests, and from 3 to 1 the removals of
  \<open>tenant-db-3\<close> then \<open>tenant-db-2\<close>.
\<close>

theorem scale_sequencing:
  fixes env plan state w ident k cluster err
  defines "U \<equiv> clusterResource_Update env plan state w"
    and "w0 \<equiv> tflog Info ''Scaling cluster nodes'' w"
    and "old \<equiv> rm_NodeCount state"
    and "new \<equiv> rm_NodeCount plan"
  defines "w1 \<equiv> snd (GetCluster env ident w0)"
  defines "ak \<equiv> after_adds env ident w0 k"
    and "rk \<equiv> after_removes env ident (c_TenantID cluster) old w1 k"
  assumes p: "Atoi (ValueString (rm_ID state)) = Inr ident"
  shows
    "(old < new \<and> adds_ok env ident w0 (nat (new - old)) \<longrightarrow>
        snd U = snd (GetCluster env ident (after_adds env ident w0 (nat (new - old)))) \<and>
        (\<exists>ms. length ms = nat (new - old) \<and> (\<forall>m\<in>set ms. 0 < m) \<and>
           trace (snd U) =
             trace w @ concat (map (add_round_calls ident) ms) @ [GetClusterCall ident]))
     \<and>
     (old < new \<and> k < nat (new - old) \<and> adds_ok env ident w0 k \<and>
      \<not> add_round_ok env ident ak \<longrightarrow>
        U = (if fst (AddNode env ident ak) \<noteq> None
             then (\<lparr>Diagnostics = [AddError ''Error adding node'' (fst (AddNode env ident ak))],
                    State = Untouched\<rparr>, snd (AddNode env ident ak))
             else (\<lparr>Diagnostics = [AddError ''Error waiting for add-node job''
                                     (fst (add_round env ident ak))],
                    State = Untouched\<rparr>, snd (add_round env ident ak))) \<and>
        (\<exists>ms m. length ms = k \<and> (\<forall>m\<in>set ms. 0 < m) \<and>
           trace (snd U) =
             trace w @ concat (map (add_round_calls ident) ms) @ add_round_calls ident m))
     \<and>
     (new < old \<and> fst (GetCluster env ident w0) = Inr cluster \<and>
      removes_ok env ident (c_TenantID cluster) old w1 (nat (old - new)) \<longrightarrow>
        snd U = snd (GetCluster env ident
                  (after_removes env ident (c_TenantID cluster) old w1 (nat (old - new)))) \<and>
        (\<exists>ms. length ms = nat (old - new) \<and> (\<forall>m\<in>set ms. 0 < m) \<and>
           trace (snd U) =
             trace w @ [GetClusterCall ident] @
             concat (map (remove_round_calls ident (c_TenantID cluster))
                       (zip (countdown old (nat (old - new))) ms)) @
             [GetClusterCall ident]))
     \<and>
     (new < old \<and> fst (GetCluster env ident w0) = Inr cluster \<and> k < nat (old - new) \<and>
      removes_ok env ident (c_TenantID cluster) old w1 k \<and>
      \<not> remove_round_ok env ident (c_TenantID cluster) (old - int k) rk \<longrightarrow>
        U = (if fst (RemoveNode env ident (nodeName (c_TenantID cluster) (old - int k)) rk) \<noteq> None
             then (\<lparr>Diagnostics = [AddError ''Error removing node''
                      (fst (RemoveNode env ident (nodeName (c_TenantID cluster) (old - int k)) rk))],
                    State = Untouched\<rparr>,
                   snd (RemoveNode env ident (nodeName (c_TenantID cluster) (old - int k)) rk))
             else (\<lparr>Diagnostics = [AddError ''Error waiting for remove-node job''
                      (fst (remove_round env ident (c_TenantID cluster) (old - int k) rk))],
                    State = Untouched\<rparr>,
                   snd (remove_round env ident (c_TenantID cluster) (old - int k) rk))) \<and>
        (\<exists>ms m. length ms = k \<and> (\<forall>m\<in>set ms. 0 < m) \<and>
           trace (snd U) =
             trace w @ [GetClusterCall ident] @
             concat (map (remove_round_calls ident (c_TenantID cluster))
                       (zip (countdown old k) ms)) @
             remove_round_calls ident (c_TenantID cluster) (old - int k, m)))
     \<and>
     (new < old \<and> fst (GetCluster env ident w0) = Inl err \<longrightarrow>
        U = (\<lparr>Diagnostics = [AddError ''Error reading cluster'' (Some err)], State = Untouched\<rparr>,
             snd (GetCluster env ident w0)))"
  unfolding U_def w0_def old_def new_def w1_def ak_def rk_def
proof (intro conjI)
  show "rm_NodeCount state < rm_NodeCount plan \<and>
      adds_ok env ident (tflog Info ''Scaling cluster nodes'' w)
        (nat (rm_NodeCount plan - rm_NodeCount state)) \<longrightarrow>
      snd (clusterResource_Update env plan state w) =
        snd (GetCluster env ident (after_adds env ident (tflog Info ''Scaling cluster nodes'' w)
          (nat (rm_NodeCount plan - rm_NodeCount state)))) \<and>
      (\<exists>ms. length ms = nat (rm_NodeCount plan - rm_NodeCount state) \<and> (\<forall>m\<in>set ms. 0 < m) \<and>
         trace (snd (clusterResource_Update env plan state w)) =
           trace w @ concat (map (add_round_calls ident) ms) @ [GetClusterCall ident])"
    by (intro impI, elim conjE, rule Update_scale_out [OF p])
next
  show "rm_NodeCount state < rm_NodeCount plan \<and>
      k < nat (rm_NodeCount plan - rm_NodeCount state) \<and>
      adds_ok env ident (tflog Info ''Scaling cluster nodes'' w) k \<and>
      \<not> add_round_ok env ident (after_adds env ident (tflog Info ''Scaling cluster nodes'' w) k) \<longrightarrow>
      clusterResource_Update env plan state w =
        (if fst (AddNode env ident (after_adds env ident (tflog Info ''Scaling cluster nodes'' w) k)) \<noteq> None
         then (\<lparr>Diagnostics = [AddError ''Error adding node''
                  (fst (AddNode env ident (after_adds env ident (tflog Info ''Scaling cluster nodes'' w) k)))],
                State = Untouched\<rparr>,
               snd (AddNode env ident (after_adds env ident (tflog Info ''Scaling cluster nodes'' w) k)))
         else (\<lparr>Diagnostics = [AddError ''Error waiting for add-node job''
                  (fst (add_round env ident (after_adds env ident (tflog Info ''Scaling cluster nodes'' w) k)))],
                State = Untouched\<rparr>,
               snd (add_round env ident (after_adds env ident (tflog Info ''Scaling cluster nodes'' w) k)))) \<and>
      (\<exists>ms m. length ms = k \<and> (\<forall>m\<in>set ms. 0 < m) \<and>
         trace (snd (clusterResource_Update env plan state w)) =
           trace w @ concat (map (add_round_calls ident) ms) @ add_round_calls ident m)"
    by (intro impI, elim conjE, rule Update_scale_out_abort [OF p])
next
  show "rm_NodeCount plan < rm_NodeCount state \<and>
      fst (GetCluster env ident (tflog Info ''Scaling cluster nodes'' w)) = Inr cluster \<and>
      removes_ok env ident (c_TenantID cluster) (rm_NodeCount state)
        (snd (GetCluster env ident (tflog Info ''Scaling cluster nodes'' w)))
        (nat (rm_NodeCount state - rm_NodeCount plan)) \<longrightarrow>
      snd (clusterResource_Update env plan state w) =
        snd (GetCluster env ident
              (after_removes env ident (c_TenantID cluster) (rm_NodeCount state)
                (snd (GetCluster env ident (tflog Info ''Scaling cluster nodes'' w)))
                (nat (rm_NodeCount state - rm_NodeCount plan)))) \<and>
      (\<exists>ms. length ms = nat (rm_NodeCount state - rm_NodeCount plan) \<and> (\<forall>m\<in>set ms. 0 < m) \<and>
         trace (snd (clusterResource_Update env plan state w)) =
           trace w @ [GetClusterCall ident] @
           concat (map (remove_round_calls ident (c_TenantID cluster))
                     (zip (countdown (rm_NodeCount state)
                        (nat (rm_NodeCount state - rm_NodeCount plan))) ms)) @
           [GetClusterCall ident])"
    by (intro impI, elim conjE, rule Update_scale_in [OF p])
next
  let ?rk = "after_removes env ident (c_TenantID cluster) (rm_NodeCount state)
      (snd (GetCluster env ident (tflog Info ''Scaling cluster nodes'' w))) k"
  let ?i = "rm_NodeCount state - int k"
  show "rm_NodeCount plan < rm_NodeCount state \<and>
      fst (GetCluster env ident (tflog Info ''Scaling cluster nodes'' w)) = Inr cluster \<and>
      k < nat (rm_NodeCount state - rm_NodeCount plan) \<and>
      removes_ok env ident (c_TenantID cluster) (rm_NodeCount state)
        (snd (GetCluster env ident (tflog Info ''Scaling cluster nodes'' w))) k \<and>
      \<not> remove_round_ok env ident (c_TenantID cluster) ?i ?rk \<longrightarrow>
      clusterResource_Update env plan state w =
        (if fst (RemoveNode env ident (nodeName (c_TenantID cluster) ?i) ?rk) \<noteq> None
         then (\<lparr>Diagnostics = [AddError ''Error removing node''
                  (fst (RemoveNode env ident (nodeName (c_TenantID cluster) ?i) ?rk))],
                State = Untouched\<rparr>,
               snd (RemoveNode env ident (nodeName (c_TenantID cluster) ?i) ?rk))
         else (\<lparr>Diagnostics = [AddError ''Error waiting for remove-node job''
                  (fst (remove_round env ident (c_TenantID cluster) ?i ?rk))],
                State = Untouched\<rparr>,
               snd (remove_round env ident (c_TenantID cluster) ?i ?rk))) \<and>
      (\<exists>ms m. length ms = k \<and> (\<forall>m\<in>set ms. 0 < m) \<and>
         trace (snd (clusterResource_Update env plan state w)) =
           trace w @ [GetClusterCall ident] @
           concat (map (remove_round_calls ident (c_TenantID cluster))
                     (zip (countdown (rm_NodeCount state) k) ms)) @
           remove_round_calls ident (c_TenantID cluster) (?i, m))"
    by (intro impI, elim conjE, rule Update_scale_in_abort [OF p])
next
  show "rm_NodeCount plan < rm_NodeCount state \<and>
      fst (GetCluster env ident (tflog Info ''Scaling cluster nodes'' w)) = Inl err \<longrightarrow>
      clusterResource_Update env plan state w =
        (\<lparr>Diagnostics = [AddError ''Error reading cluster'' (Some err)], State = Untouched\<rparr>,
         snd (GetCluster env ident (tflog Info ''Scaling cluster nodes'' w)))"
    by (intro impI, elim conjE, rule Update_scale_in_reread_fails [OF p])
qed


lemma nodeName_acme:
  "nodeName ''acme'' 3 = ''acme-db-3''" "nodeName ''acme'' 2 = ''acme-db-2''"
  by (simp_all add: nodeName_def Itoa_def show_nat.simps digit_char_def)

theorem scale_sequencing_witness:
  "trace (snd (clusterResource_Update terse_response (cluster_state\<lparr>rm_NodeCount := 3\<rparr>)
      (cluster_state\<lparr>rm_NodeCount := 1\<rparr>) world0)) =
     [AddNodeCall 7, GetJobsCall 7, AddNodeCall 7, GetJobsCall 7, GetClusterCall 7] \<and>
   clusterResource_Update second_add_fails (cluster_state\<lparr>rm_NodeCount := 3\<rparr>)
      (cluster_state\<lparr>rm_NodeCount := 1\<rparr>) world0 =
     (\<lparr>Diagnostics = [AddError ''Error adding node'' (Some (APIError 500 ''Internal Server Error''))],
       State = Untouched\<rparr>,
      \<lparr>trace = [AddNodeCall 7, GetJobsCall 7, AddNodeCall 7], clock = 3 * second,
       logs = [(Info, ''Scaling cluster nodes'')]\<rparr>) \<and>
   trace (snd (clusterResource_Update terse_response (cluster_state\<lparr>rm_NodeCount := 1\<rparr>)
      (cluster_state\<lparr>rm_NodeCount := 3\<rparr>) world0)) =
     [GetClusterCall 7,
      RemoveNodeCall 7 \<lparr>rn_NodeName = ''acme-db-3'', rn_DeleteServer = True,
        rn_RemovePostgresData = True\<rparr>,
      GetJobsCall 7,
      RemoveNodeCall 7 \<lparr>rn_NodeName = ''acme-db-2'', rn_DeleteServer = True,
        rn_RemovePostgresData = True\<rparr>,
      GetJobsCall 7, GetClusterCall 7] \<and>
   clusterResource_Update removal_job_fails (cluster_state\<lparr>rm_NodeCount := 1\<rparr>)
      (cluster_state\<lparr>rm_NodeCount := 3\<rparr>) world0 =
     (\<lparr>Diagnostics = [AddError ''Error waiting for remove-node job''
         (Some (JobFailed 42 ''configure'' ''role already exists''))],
       State = Untouched\<rparr>,
      \<lparr>trace = [GetClusterCall 7,
         RemoveNodeCall 7 \<lparr>rn_NodeName = ''acme-db-3'', rn_DeleteServer = True,
           rn_RemovePostgresData = True\<rparr>,
         GetJobsCall 7], clock = 3 * second, logs = [(Info, ''Scaling cluster nodes'')]\<rparr>) \<and>
   clusterResource_Update healthy (cluster_state\<lparr>rm_NodeCount := 1\<rparr>)
      (cluster_state\<lparr>rm_NodeCount := 3\<rparr>) world0 =
     (\<lparr>Diagnostics = [AddError ''Error reading cluster'' (Some (APIError 404 ''Not Found''))],
       State = Untouched\<rparr>,
      \<lparr>trace = [GetClusterCall 7], clock = 1 * second,
       logs = [(Info, ''Scaling cluster nodes'')]\<rparr>)"
proof -
  let ?S1 = "cluster_state\<lparr>rm_NodeCount := 1\<rparr>"
  let ?S3 = "cluster_state\<lparr>rm_NodeCount := 3\<rparr>"
  let ?w0 = "tflog Info ''Scaling cluster nodes'' world0"
  have p: "Atoi (ValueString (rm_ID (cluster_state\<lparr>rm_NodeCount := c\<rparr>))) = Inr 7" for c
    by (simp add: cluster_state_def Atoi_7)
  have n2: "nat (3 - 1) = Suc (Suc 0)"
    by simp
  have up: "rm_NodeCount ?S1 < rm_NodeCount ?S3"
    by simp
  have cnt: "rm_NodeCount ?S1 = 1" "rm_NodeCount ?S3 = 3"
    by simp_all
  have wt: "WaitForJobComplete terse_response 7 (10 * minute) w =
      (None, sent terse_response (GetJobsCall 7) w)" for w
    unfolding WaitForJobComplete_def
    by (subst WaitForJobComplete_loop.simps)
       (simp add: GetJobs_def terse_response_def healthy_def minute_def second_def)
  have ws: "WaitForJobComplete second_add_fails 7 (10 * minute) w =
      (None, sent second_add_fails (GetJobsCall 7) w)" for w
    unfolding WaitForJobComplete_def
    by (subst WaitForJobComplete_loop.simps)
       (simp add: GetJobs_def second_add_fails_def terse_response_def healthy_def minute_def
          second_def)
  have wr: "WaitForJobComplete removal_job_fails 7 (10 * minute) w =
      (Some (JobFailed 42 ''configure'' ''role already exists''),
       sent removal_job_fails (GetJobsCall 7) w)" for w
    unfolding WaitForJobComplete_def
    by (subst WaitForJobComplete_loop.simps)
       (simp add: GetJobs_def removal_job_fails_def terse_response_def healthy_def failed_job_def
          minute_def second_def)
  note ev = add_round_ok_def add_round_def remove_round_ok_def remove_round_def AddNode_def
    RemoveNode_def GetCluster_def sent_def tflog_def world0_def Let_def nodeName_acme
  have a1: "adds_ok terse_response 7 ?w0 (nat (rm_NodeCount ?S3 - rm_NodeCount ?S1))"
    unfolding cnt n2 by (simp add: ev wt) (simp add: terse_response_def healthy_def)
  have a2: "adds_ok second_add_fails 7 ?w0 (Suc 0)"
    by (simp add: ev ws) (simp add: second_add_fails_def terse_response_def healthy_def)
  have a3: "\<not> add_round_ok second_add_fails 7 (after_adds second_add_fails 7 ?w0 (Suc 0))"
    by (simp add: ev ws) (simp add: second_add_fails_def terse_response_def healthy_def)
  have k1: "Suc 0 < nat (rm_NodeCount ?S3 - rm_NodeCount ?S1)"
    by simp
  have g: "fst (GetCluster env 7 ?w0) = Inr cluster1"
    if "rsp_cluster env = rsp_cluster terse_response" for env
    using that by (simp add: GetCluster_def terse_response_def)
  have g2: "fst (GetCluster removal_job_fails 7 ?w0) = Inr cluster1"
    by (rule g) (simp add: removal_job_fails_def)
  have t: "c_TenantID cluster1 = ''acme''"
    by (simp add: cluster1_def cluster0_def)
  have r1: "removes_ok terse_response 7 (c_TenantID cluster1) (rm_NodeCount ?S3)
      (snd (GetCluster terse_response 7 ?w0)) (nat (rm_NodeCount ?S3 - rm_NodeCount ?S1))"
    unfolding cnt n2 t by (simp add: ev wt) (simp add: terse_response_def healthy_def)
  have r2: "removes_ok removal_job_fails 7 (c_TenantID cluster1) (rm_NodeCount ?S3)
      (snd (GetCluster removal_job_fails 7 ?w0)) 0"
    by simp
  have r3: "\<not> remove_round_ok removal_job_fails 7 (c_TenantID cluster1) (rm_NodeCount ?S3 - int 0)
      (after_removes removal_job_fails 7 (c_TenantID cluster1) (rm_NodeCount ?S3)
        (snd (GetCluster removal_job_fails 7 ?w0)) 0)"
    by (simp add: remove_round_ok_def remove_round_def wr)
  have k0: "0 < nat (rm_NodeCount ?S3 - rm_NodeCount ?S1)"
    by simp
  have gh: "fst (GetCluster healthy 7 ?w0) = Inl (APIError 404 ''Not Found'')"
    by (simp add: GetCluster_def healthy_def)
  note s1 = scale_sequencing [OF p, where env = terse_response and plan = ?S3 and w = world0,
      THEN conjunct1, rule_format, OF conjI [OF up a1], THEN conjunct1]
  note s2 = scale_sequencing [OF p, where env = second_add_fails and plan = ?S3 and w = world0
      and k = "Suc 0", THEN conjunct2, THEN conjunct1, rule_format,
      OF conjI [OF up conjI [OF k1 conjI [OF a2 a3]]], THEN conjunct1]
  note s3 = scale_sequencing [OF p, where env = terse_response and plan = ?S1 and w = world0
      and cluster = cluster1, THEN conjunct2, THEN conjunct2, THEN conjunct1, rule_format,
      OF conjI [OF up conjI [OF g [OF refl] r1]], THEN conjunct1]
  note s4 = scale_sequencing [OF p, where env = removal_job_fails and plan = ?S1 and w = world0
      and cluster = cluster1 and k = 0, THEN conjunct2, THEN conjunct2, THEN conjunct2,
      THEN conjunct1, rule_format,
      OF conjI [OF up conjI [OF g2 conjI [OF k0 conjI [OF r2 r3]]]], THEN conjunct1]
  note s5 = scale_sequencing [OF p, where env = healthy and plan = ?S1 and w = world0,
      THEN conjunct2, THEN conjunct2, THEN conjunct2, THEN conjunct2, rule_format,
      OF conjI [OF up gh]]
  have c1: "trace (snd (clusterResource_Update terse_response ?S3 ?S1 world0)) =
     [AddNodeCall 7, GetJobsCall 7, AddNodeCall 7, GetJobsCall 7, GetClusterCall 7]"
    unfolding s1 cnt n2 by (simp add: ev wt)
  have c2: "clusterResource_Update second_add_fails ?S3 ?S1 world0 =
     (\<lparr>Diagnostics = [AddError ''Error adding node'' (Some (APIError 500 ''Internal Server Error''))],
       State = Untouched\<rparr>,
      \<lparr>trace = [AddNodeCall 7, GetJobsCall 7, AddNodeCall 7], clock = 3 * second,
       logs = [(Info, ''Scaling cluster nodes'')]\<rparr>)"
    unfolding s2
    by (simp add: ev ws) (simp add: second_add_fails_def terse_response_def healthy_def second_def)
  have c3: "trace (snd (clusterResource_Update terse_response ?S1 ?S3 world0)) =
     [GetClusterCall 7,
      RemoveNodeCall 7 \<lparr>rn_NodeName = ''acme-db-3'', rn_DeleteServer = True,
        rn_RemovePostgresData = True\<rparr>,
      GetJobsCall 7,
      RemoveNodeCall 7 \<lparr>rn_NodeName = ''acme-db-2'', rn_DeleteServer = True,
        rn_RemovePostgresData = True\<rparr>,
      GetJobsCall 7, GetClusterCall 7]"
    unfolding s3 cnt n2 t by (simp add: ev wt)
  have c4: "clusterResource_Update removal_job_fails ?S1 ?S3 world0 =
     (\<lparr>Diagnostics = [AddError ''Error waiting for remove-node job''
         (Some (JobFailed 42 ''configure'' ''role already exists''))],
       State = Untouched\<rparr>,
      \<lparr>trace = [GetClusterCall 7,
         RemoveNodeCall 7 \<lparr>rn_NodeName = ''acme-db-3'', rn_DeleteServer = True,
           rn_RemovePostgresData = True\<rparr>,
         GetJobsCall 7], clock = 3 * second, logs = [(Info, ''Scaling cluster nodes'')]\<rparr>)"
    unfolding s4 cnt t
    by (simp add: ev wr) (simp add: removal_job_fails_def terse_response_def healthy_def second_def)
  have c5: "clusterResource_Update healthy ?S1 ?S3 world0 =
     (\<lparr>Diagnostics = [AddError ''Error reading cluster'' (Some (APIError 404 ''Not Found''))],
       State = Untouched\<rparr>,
      \<lparr>trace = [GetClusterCall 7], clock = 1 * second,
       logs = [(Info, ''Scaling cluster nodes'')]\<rparr>)"
    unfolding s5 by (simp add: ev healthy_def second_def)
  from c1 c2 c3 c4 c5 show ?thesis
    by (intro conjI)
qed

end
